theory Spec2Isabelle
  imports Complex_Main
begin

section \<open>JavaScript numbers: IEEE-754 binary64\<close>

text \<open>
  The guards of \<^verbatim>\<open>protectionutilities.js\<close> compute on JavaScript Numbers (binary64
  doubles) and BigInts. A Number is modelled by its value: \<open>NaN\<close>, the two infinities, or
  a finite rational. Every arithmetic operation computes the exact rational result and
  rounds it to the nearest double, ties to even (\<open>to_double\<close>), as IEEE-754 prescribes.
  Negative zero is identified with zero: no operation of the modelled code divides by a
  value that can be zero or otherwise observes the sign of a zero.
\<close>

datatype number = NaN | PInf | NInf | Fin rat

definition pow2 :: "int \<Rightarrow> rat" where
  "pow2 e = (if 0 \<le> e then 2 ^ nat e else 1 / 2 ^ nat (- e))"

text \<open>Number of binary digits of a positive integer.\<close>

function bits :: "int \<Rightarrow> int" where
  "bits n = (if n \<le> 0 then 0 else 1 + bits (n div 2))"
  by pat_completeness auto
termination
  by (relation "measure nat") auto

declare bits.simps [simp del]

text \<open>\<open>ilog2 x\<close> is the binary exponent \<open>\<lfloor>log\<^sub>2 x\<rfloor>\<close> of a positive rational.\<close>

definition ilog2 :: "rat \<Rightarrow> int" where
  "ilog2 x =
     (let d = bits (fst (quotient_of x)) - bits (snd (quotient_of x))
      in if pow2 d \<le> x then d else d - 1)"

definition round_ties_even :: "rat \<Rightarrow> int" where
  "round_ties_even x =
     (let f = \<lfloor>x\<rfloor>; d = x - of_int f
      in if d < 1 / 2 then f else if 1 / 2 < d then f + 1 else if even f then f else f + 1)"

text \<open>
  Rounding to binary64: 53 significant bits, the exponent clamped at the subnormal
  range (quantum \<open>2\<^sup>-\<^sup>1\<^sup>0\<^sup>7\<^sup>4\<close>). The rounded significand \<open>m\<close> is at most \<open>2\<^sup>5\<^sup>3\<close>, so
  the rounded value reaches \<open>2\<^sup>1\<^sup>0\<^sup>2\<^sup>4\<close>, and overflows to an infinity, exactly when the
  exponent is above 1023, or is 1023 with the significand rounded up to \<open>2\<^sup>5\<^sup>3\<close>.
\<close>

definition to_double :: "rat \<Rightarrow> number" where
  "to_double x =
     (if x = 0 then Fin 0
      else
        let a = \<bar>x\<bar>;
            e = max (ilog2 a) (- 1022);
            q = pow2 (e - 52);
            m = round_ties_even (a / q)
        in if 1024 \<le> e \<or> (e = 1023 \<and> 9007199254740992 \<le> m)
           then (if x < 0 then NInf else PInf)
           else Fin (if x < 0 then - (of_int m * q) else of_int m * q))"

definition num_neg :: "number \<Rightarrow> number" where
  "num_neg a = (case a of NaN \<Rightarrow> NaN | PInf \<Rightarrow> NInf | NInf \<Rightarrow> PInf | Fin x \<Rightarrow> Fin (- x))"

fun num_add :: "number \<Rightarrow> number \<Rightarrow> number" where
  "num_add NaN _ = NaN"
| "num_add _ NaN = NaN"
| "num_add PInf NInf = NaN"
| "num_add NInf PInf = NaN"
| "num_add PInf _ = PInf"
| "num_add _ PInf = PInf"
| "num_add NInf _ = NInf"
| "num_add _ NInf = NInf"
| "num_add (Fin x) (Fin y) = to_double (x + y)"

definition num_sub :: "number \<Rightarrow> number \<Rightarrow> number" where
  "num_sub a b = num_add a (num_neg b)"

text \<open>Sign of a non-NaN number as seen by multiplication and division: \<open>-1\<close>, \<open>0\<close>, \<open>1\<close>.\<close>

definition num_sgn :: "number \<Rightarrow> int" where
  "num_sgn a = (case a of NaN \<Rightarrow> 0 | PInf \<Rightarrow> 1 | NInf \<Rightarrow> - 1
                | Fin x \<Rightarrow> (if x < 0 then - 1 else if x = 0 then 0 else 1))"

definition inf_of_sign :: "int \<Rightarrow> number" where
  "inf_of_sign s = (if s < 0 then NInf else PInf)"

definition is_inf :: "number \<Rightarrow> bool" where
  "is_inf a = (a = PInf \<or> a = NInf)"

definition num_mul :: "number \<Rightarrow> number \<Rightarrow> number" where
  "num_mul a b =
     (if a = NaN \<or> b = NaN then NaN
      else case (a, b) of
             (Fin x, Fin y) \<Rightarrow> to_double (x * y)
           | _ \<Rightarrow> (if num_sgn a * num_sgn b = 0 then NaN
                   else inf_of_sign (num_sgn a * num_sgn b)))"

text \<open>
  Division. A zero divisor is taken as \<open>+0\<close>; the modelled code only divides by the
  literal \<open>100\<close> and by a notional it has checked to be positive.
\<close>

definition num_div :: "number \<Rightarrow> number \<Rightarrow> number" where
  "num_div a b =
     (if a = NaN \<or> b = NaN then NaN
      else case (a, b) of
             (Fin x, Fin y) \<Rightarrow>
               (if y = 0 then (if x = 0 then NaN else inf_of_sign (num_sgn a))
                else to_double (x / y))
           | (Fin x, _) \<Rightarrow> Fin 0
           | (_, Fin y) \<Rightarrow> inf_of_sign (num_sgn a * (if y < 0 then - 1 else 1))
           | _ \<Rightarrow> NaN)"

text \<open>
  The relational comparison of two Numbers (\<open>Number::lessThan\<close>): \<open>None\<close> stands for
  the specification's \<open>undefined\<close>, returned when an operand is \<open>NaN\<close>.
\<close>

fun num_lessThan :: "number \<Rightarrow> number \<Rightarrow> bool option" where
  "num_lessThan NaN _ = None"
| "num_lessThan _ NaN = None"
| "num_lessThan PInf _ = Some False"
| "num_lessThan _ NInf = Some False"
| "num_lessThan NInf _ = Some True"
| "num_lessThan _ PInf = Some True"
| "num_lessThan (Fin x) (Fin y) = Some (x < y)"

definition num_lt :: "number \<Rightarrow> number \<Rightarrow> bool" where
  "num_lt a b = (num_lessThan a b = Some True)"

definition num_gt :: "number \<Rightarrow> number \<Rightarrow> bool" where
  "num_gt a b = (num_lessThan b a = Some True)"

definition num_le :: "number \<Rightarrow> number \<Rightarrow> bool" where
  "num_le a b = (num_lessThan b a = Some False)"

definition num_ge :: "number \<Rightarrow> number \<Rightarrow> bool" where
  "num_ge a b = (num_lessThan a b = Some False)"

definition math_floor :: "number \<Rightarrow> number" where
  "math_floor a = (case a of Fin x \<Rightarrow> Fin (of_int \<lfloor>x\<rfloor>) | _ \<Rightarrow> a)"

text \<open>\<^verbatim>\<open>Math.round\<close>: the nearest integer, ties towards \<open>+\<infinity>\<close>.\<close>

definition math_round :: "number \<Rightarrow> number" where
  "math_round a = (case a of Fin x \<Rightarrow> Fin (of_int \<lfloor>x + 1 / 2\<rfloor>) | _ \<Rightarrow> a)"

definition math_min :: "number \<Rightarrow> number \<Rightarrow> number" where
  "math_min a b = (if a = NaN \<or> b = NaN then NaN else if num_lt b a then b else a)"

definition math_max :: "number \<Rightarrow> number \<Rightarrow> number" where
  "math_max a b = (if a = NaN \<or> b = NaN then NaN else if num_lt a b then b else a)"

definition num_of_int :: "int \<Rightarrow> number" where
  "num_of_int i = to_double (of_int i)"

definition is_finite :: "number \<Rightarrow> bool" where
  "is_finite a = (case a of Fin _ \<Rightarrow> True | _ \<Rightarrow> False)"


section \<open>JavaScript values\<close>

text \<open>
  The primitive values a trade parameter can hold. Objects are modelled by records where
  the code reads their fields.
\<close>

datatype jsval = JUndefined | JNull | JBool bool | JNum number | JBig int | JStr string

text \<open>What a throwing operation throws: the language's errors, and the rejection of a
  promise by an external collaborator (a remote call, \<^verbatim>\<open>getReadProvider\<close>).\<close>

datatype error = TypeError | RangeError | SyntaxError | Rejected

datatype numeric = NNum number | NBig int

text \<open>
  What \<^verbatim>\<open>JSON.parse\<close> returns: a primitive, an array or an object (its members as an
  association list, one entry per key).
\<close>

datatype json = JPrim jsval | JArr "json list" | JObj "(string \<times> json) list"

text \<open>
  The module constants, read from the environment when the module loads, together with
  the conversions of the language that the model takes as parameters: \<open>StringToNumber\<close>,
  \<open>StringToBigInt\<close>, and \<open>ObjectToNumber\<close>, the Number an array or an object converts to
  (through its string form); and the library constant \<^verbatim>\<open>ethers.ZeroAddress\<close>.
\<close>

record config =
  PROFIT_THRESHOLD_BPS :: number
  PROFIT_THRESHOLD_USD :: number
  COOLDOWN_MS :: number
  MAX_SLIPPAGE_BPS :: number
  HIGH_GAS_WEI :: int
  GAS_LIMIT_MAX :: int
  MEV_LOOKBACK_MS :: number
  FLASH_FALLBACK_TOKENS :: "string list"
  AAVE_LOAN :: bool
  BAL_LOAN :: bool
  ZeroAddress :: string
  StringToNumber :: "string \<Rightarrow> number"
  StringToBigInt :: "string \<Rightarrow> int option"
  ObjectToNumber :: "json \<Rightarrow> number"

definition truthy :: "jsval \<Rightarrow> bool" where
  "truthy v = (case v of JUndefined \<Rightarrow> False | JNull \<Rightarrow> False | JBool b \<Rightarrow> b
               | JNum n \<Rightarrow> n \<noteq> NaN \<and> n \<noteq> Fin 0 | JBig i \<Rightarrow> i \<noteq> 0 | JStr s \<Rightarrow> s \<noteq> [])"

definition nullish :: "jsval \<Rightarrow> bool" where
  "nullish v = (v = JUndefined \<or> v = JNull)"

text \<open>\<^verbatim>\<open>a || b\<close> and \<^verbatim>\<open>a ?? b\<close> on values.\<close>

definition js_or :: "jsval \<Rightarrow> jsval \<Rightarrow> jsval" where
  "js_or a b = (if truthy a then a else b)"

definition js_coalesce :: "jsval \<Rightarrow> jsval \<Rightarrow> jsval" where
  "js_coalesce a b = (if nullish a then b else a)"

definition to_numeric :: "config \<Rightarrow> jsval \<Rightarrow> numeric" where
  "to_numeric cfg v =
     (case v of JUndefined \<Rightarrow> NNum NaN | JNull \<Rightarrow> NNum (Fin 0)
      | JBool b \<Rightarrow> NNum (Fin (if b then 1 else 0)) | JNum n \<Rightarrow> NNum n
      | JBig i \<Rightarrow> NBig i | JStr s \<Rightarrow> NNum (StringToNumber cfg s))"

text \<open>\<^verbatim>\<open>Number(v)\<close>: a BigInt is converted to the nearest double.\<close>

definition Number :: "config \<Rightarrow> jsval \<Rightarrow> number" where
  "Number cfg v = (case to_numeric cfg v of NNum n \<Rightarrow> n | NBig i \<Rightarrow> num_of_int i)"

text \<open>\<^verbatim>\<open>BigInt(v)\<close> throws on \<open>undefined\<close>, \<open>null\<close>, a non-integral Number and an
  unparsable string.\<close>

definition BigInt :: "config \<Rightarrow> jsval \<Rightarrow> error + int" where
  "BigInt cfg v =
     (case v of JUndefined \<Rightarrow> Inl TypeError | JNull \<Rightarrow> Inl TypeError
      | JBool b \<Rightarrow> Inr (if b then 1 else 0)
      | JNum n \<Rightarrow> (case n of Fin x \<Rightarrow> (if of_int \<lfloor>x\<rfloor> = x then Inr \<lfloor>x\<rfloor> else Inl RangeError)
                              | _ \<Rightarrow> Inl RangeError)
      | JBig i \<Rightarrow> Inr i
      | JStr s \<Rightarrow> (case StringToBigInt cfg s of None \<Rightarrow> Inl SyntaxError | Some i \<Rightarrow> Inr i))"

text \<open>Strings compare by code units.\<close>

fun str_lessThan :: "string \<Rightarrow> string \<Rightarrow> bool" where
  "str_lessThan [] [] = False"
| "str_lessThan [] (y # ys) = True"
| "str_lessThan (x # xs) [] = False"
| "str_lessThan (x # xs) (y # ys) =
     (if x = y then str_lessThan xs ys else (of_char x :: nat) < of_char y)"

text \<open>
  The abstract relational comparison \<open>IsLessThan\<close> on primitives; \<open>None\<close> is its
  \<open>undefined\<close>. A BigInt and a Number compare by their mathematical values.
\<close>

definition js_lessThan :: "config \<Rightarrow> jsval \<Rightarrow> jsval \<Rightarrow> bool option" where
  "js_lessThan cfg x y =
     (case (x, y) of
        (JStr a, JStr b) \<Rightarrow> Some (str_lessThan a b)
      | (JBig a, JStr b) \<Rightarrow> (case StringToBigInt cfg b of None \<Rightarrow> None | Some n \<Rightarrow> Some (a < n))
      | (JStr a, JBig b) \<Rightarrow> (case StringToBigInt cfg a of None \<Rightarrow> None | Some n \<Rightarrow> Some (n < b))
      | _ \<Rightarrow>
         (case (to_numeric cfg x, to_numeric cfg y) of
            (NNum a, NNum b) \<Rightarrow> num_lessThan a b
          | (NBig a, NBig b) \<Rightarrow> Some (a < b)
          | (NBig a, NNum b) \<Rightarrow> num_lessThan (Fin (of_int a)) b
          | (NNum a, NBig b) \<Rightarrow> num_lessThan a (Fin (of_int b))))"

text \<open>\<^verbatim>\<open>a < b\<close>, \<^verbatim>\<open>a > b\<close>, \<^verbatim>\<open>a <= b\<close>, \<^verbatim>\<open>a >= b\<close>.\<close>

definition js_lt :: "config \<Rightarrow> jsval \<Rightarrow> jsval \<Rightarrow> bool" where
  "js_lt cfg a b = (js_lessThan cfg a b = Some True)"

definition js_gt :: "config \<Rightarrow> jsval \<Rightarrow> jsval \<Rightarrow> bool" where
  "js_gt cfg a b = (js_lessThan cfg b a = Some True)"

definition js_le :: "config \<Rightarrow> jsval \<Rightarrow> jsval \<Rightarrow> bool" where
  "js_le cfg a b = (js_lessThan cfg b a = Some False)"

definition js_ge :: "config \<Rightarrow> jsval \<Rightarrow> jsval \<Rightarrow> bool" where
  "js_ge cfg a b = (js_lessThan cfg a b = Some False)"

text \<open>BigInt division truncates towards zero and throws on a zero divisor.\<close>

definition bigint_div :: "int \<Rightarrow> int \<Rightarrow> error + int" where
  "bigint_div a b = (if b = 0 then Inl RangeError else Inr (sgn a * sgn b * (\<bar>a\<bar> div \<bar>b\<bar>)))"

text \<open>The arithmetic operators: mixing a BigInt with a Number throws a \<open>TypeError\<close>.\<close>

definition js_sub :: "config \<Rightarrow> jsval \<Rightarrow> jsval \<Rightarrow> error + jsval" where
  "js_sub cfg x y =
     (case (to_numeric cfg x, to_numeric cfg y) of
        (NNum a, NNum b) \<Rightarrow> Inr (JNum (num_sub a b))
      | (NBig a, NBig b) \<Rightarrow> Inr (JBig (a - b))
      | _ \<Rightarrow> Inl TypeError)"

definition js_mul :: "config \<Rightarrow> jsval \<Rightarrow> jsval \<Rightarrow> error + jsval" where
  "js_mul cfg x y =
     (case (to_numeric cfg x, to_numeric cfg y) of
        (NNum a, NNum b) \<Rightarrow> Inr (JNum (num_mul a b))
      | (NBig a, NBig b) \<Rightarrow> Inr (JBig (a * b))
      | _ \<Rightarrow> Inl TypeError)"

definition js_div :: "config \<Rightarrow> jsval \<Rightarrow> jsval \<Rightarrow> error + jsval" where
  "js_div cfg x y =
     (case (to_numeric cfg x, to_numeric cfg y) of
        (NNum a, NNum b) \<Rightarrow> Inr (JNum (num_div a b))
      | (NBig a, NBig b) \<Rightarrow> (case bigint_div a b of Inl e \<Rightarrow> Inl e | Inr q \<Rightarrow> Inr (JBig q))
      | _ \<Rightarrow> Inl TypeError)"

text \<open>Sequencing of a computation that may throw.\<close>

definition and_then :: "error + 'a \<Rightarrow> ('a \<Rightarrow> error + 'b) \<Rightarrow> error + 'b" where
  "and_then r f = (case r of Inl e \<Rightarrow> Inl e | Inr v \<Rightarrow> f v)"

section \<open>The guards\<close>

subsection \<open>Slippage\<close>

record slip_verdict =
  slip_ok :: bool
  slippageBps :: number
  maxSlippageBps :: number
  slip_reason :: "string option"

definition validateSlippage :: "config \<Rightarrow> jsval \<Rightarrow> jsval \<Rightarrow> error + slip_verdict" where
  "validateSlippage cfg expectedOut minOut =
     (if js_le cfg expectedOut (JBig 0) then
        Inr \<lparr>slip_ok = False, slippageBps = Fin 10000, maxSlippageBps = MAX_SLIPPAGE_BPS cfg,
             slip_reason = Some ''expectedOut<=0''\<rparr>
      else if js_gt cfg minOut expectedOut then
        Inr \<lparr>slip_ok = False, slippageBps = Fin 10000, maxSlippageBps = MAX_SLIPPAGE_BPS cfg,
             slip_reason = Some ''minOut>expectedOut''\<rparr>
      else
        and_then (js_sub cfg expectedOut minOut) (\<lambda>diff.
        and_then (js_mul cfg diff (JBig 10000)) (\<lambda>scaled.
        and_then (js_div cfg scaled expectedOut) (\<lambda>quot.
          let slippageBps = Number cfg quot
          in Inr \<lparr>slip_ok = num_le slippageBps (MAX_SLIPPAGE_BPS cfg), slippageBps = slippageBps,
                  maxSlippageBps = MAX_SLIPPAGE_BPS cfg, slip_reason = None\<rparr>))))"


subsection \<open>The mutable world of the module\<close>

text \<open>The labels under which \<^verbatim>\<open>readCall\<close> issues its remote reads.\<close>

datatype rpc =
  FeeData | EstimateGas | GetBalance | BalanceOf jsval | ChainlinkLatest jsval
  | Erc20Decimals jsval | V2GetReserves jsval | V3Slot0 jsval

text \<open>
  The MEV queue file as the guard sees it: absent (\<^verbatim>\<open>existsSync\<close> is false), present
  but \<^verbatim>\<open>readFileSync\<close> throws, read but \<^verbatim>\<open>JSON.parse\<close> throws, or holding the
  value that \<^verbatim>\<open>JSON.parse\<close> returns for its text.
\<close>

datatype mev_file_state = Absent | Unreadable | Unparsable | Content json

text \<open>
  The state a guard can read and change: the cooldown map \<^verbatim>\<open>lastActionAt\<close>, the clock
  (the successive readings of \<^verbatim>\<open>Date.now()\<close>, integral milliseconds, and how many have
  been taken), the MEV queue file and whether writing it succeeds, the log of the remote
  reads attempted, and the number of provider rotations.
\<close>

record state =
  lastActionAt :: "jsval \<Rightarrow> number option"
  clock :: "nat \<Rightarrow> int"
  ticks :: nat
  mev_file :: mev_file_state
  mev_writable :: bool
  calls :: "rpc list"
  rotations :: nat

definition Date_now :: "state \<Rightarrow> number \<times> state" where
  "Date_now s = (Fin (of_int (clock s (ticks s))), s\<lparr>ticks := Suc (ticks s)\<rparr>)"

subsection \<open>Cooldown\<close>

record cooldown_verdict =
  cd_ok :: bool
  msRemaining :: "number option"

text \<open>\<^verbatim>\<open>lastActionAt.get(key) || 0\<close>\<close>

definition last_action :: "state \<Rightarrow> jsval \<Rightarrow> number" where
  "last_action s key =
     (case lastActionAt s key of None \<Rightarrow> Fin 0
      | Some t \<Rightarrow> (if truthy (JNum t) then t else Fin 0))"

definition enforceCooldown :: "config \<Rightarrow> jsval \<Rightarrow> state \<Rightarrow> cooldown_verdict \<times> state" where
  "enforceCooldown cfg key s =
     (let (now, s1) = Date_now s;
          last = last_action s1 key
      in if num_lt (num_sub now last) (COOLDOWN_MS cfg)
         then (\<lparr>cd_ok = False,
                 msRemaining = Some (num_sub (COOLDOWN_MS cfg) (num_sub now last))\<rparr>, s1)
         else (\<lparr>cd_ok = True, msRemaining = None\<rparr>,
               s1\<lparr>lastActionAt := (lastActionAt s1)(key \<mapsto> now)\<rparr>))"

subsection \<open>MEV risk\<close>

record mev_verdict =
  risk :: bool

text \<open>\<^verbatim>\<open>e?.timestamp ?? 0\<close>: only an object has the member; absent or \<open>null\<close> gives 0.\<close>

definition entry_timestamp :: "json \<Rightarrow> json" where
  "entry_timestamp e =
     (case e of
        JObj kvs \<Rightarrow>
          (case map_of kvs ''timestamp'' of
             None \<Rightarrow> JPrim (JNum (Fin 0))
           | Some j \<Rightarrow> (case j of JPrim v \<Rightarrow> (if nullish v then JPrim (JNum (Fin 0)) else j)
                                   | _ \<Rightarrow> j))
      | _ \<Rightarrow> JPrim (JNum (Fin 0)))"

text \<open>\<^verbatim>\<open>now - ts < MEV_LOOKBACK_MS\<close>\<close>

definition in_window :: "config \<Rightarrow> number \<Rightarrow> json \<Rightarrow> error + bool" where
  "in_window cfg now e =
     (case entry_timestamp e of
        JPrim v \<Rightarrow>
          and_then (js_sub cfg (JNum now) v) (\<lambda>d. Inr (js_lt cfg d (JNum (MEV_LOOKBACK_MS cfg))))
      | ts \<Rightarrow> Inr (num_lt (num_sub now (ObjectToNumber cfg ts)) (MEV_LOOKBACK_MS cfg)))"

text \<open>The loop over the queue: whether a recent entry was seen, and the entries kept.\<close>

fun scan_queue :: "config \<Rightarrow> number \<Rightarrow> json list \<Rightarrow> error + (bool \<times> json list)" where
  "scan_queue cfg now [] = Inr (False, [])"
| "scan_queue cfg now (e # es) =
     and_then (in_window cfg now e) (\<lambda>w.
     and_then (scan_queue cfg now es) (\<lambda>(recent, keep).
       Inr (if w then (True, e # keep) else (recent, keep))))"

text \<open>
  \<^verbatim>\<open>JSON.stringify(v)\<close>, its text given by the value that \<^verbatim>\<open>JSON.parse\<close> reads back from it,
  and \<open>None\<close> where it returns \<open>undefined\<close>. A Number that is not finite is written as
  \<open>null\<close>, and so is an \<open>undefined\<close> element of an array; an \<open>undefined\<close> member of an object
  is left out; a BigInt throws a \<open>TypeError\<close>.
\<close>

fun JSON_stringify :: "json \<Rightarrow> error + json option"
  and stringify_elements :: "json list \<Rightarrow> error + json list"
  and stringify_members :: "(string \<times> json) list \<Rightarrow> error + (string \<times> json) list" where
  "JSON_stringify (JPrim v) =
     (case v of
        JUndefined \<Rightarrow> Inr None
      | JBig i \<Rightarrow> Inl TypeError
      | JNum n \<Rightarrow> Inr (Some (JPrim (if is_finite n then JNum n else JNull)))
      | _ \<Rightarrow> Inr (Some (JPrim v)))"
| "JSON_stringify (JArr es) = and_then (stringify_elements es) (\<lambda>xs. Inr (Some (JArr xs)))"
| "JSON_stringify (JObj kvs) = and_then (stringify_members kvs) (\<lambda>xs. Inr (Some (JObj xs)))"
| "stringify_elements [] = Inr []"
| "stringify_elements (e # es) =
     and_then (JSON_stringify e) (\<lambda>x.
     and_then (stringify_elements es) (\<lambda>xs.
       Inr ((case x of None \<Rightarrow> JPrim JNull | Some j \<Rightarrow> j) # xs)))"
| "stringify_members [] = Inr []"
| "stringify_members ((k, e) # kvs) =
     and_then (JSON_stringify e) (\<lambda>x.
     and_then (stringify_members kvs) (\<lambda>xs.
       Inr (case x of None \<Rightarrow> xs | Some j \<Rightarrow> (k, j) # xs)))"

text \<open>\<^verbatim>\<open>try { fs.writeFileSync(MEV_FILE, JSON.stringify(keep)) } catch {}\<close>: the file then
  holds what \<^verbatim>\<open>JSON.stringify\<close> wrote, unless that or the write threw.\<close>

definition write_mev_file :: "json list \<Rightarrow> state \<Rightarrow> state" where
  "write_mev_file keep s =
     (case JSON_stringify (JArr keep) of
        Inr (Some written) \<Rightarrow> (if mev_writable s then s\<lparr>mev_file := Content written\<rparr> else s)
      | _ \<Rightarrow> s)"

definition isMEVRisk :: "config \<Rightarrow> state \<Rightarrow> mev_verdict \<times> state" where
  "isMEVRisk cfg s =
     (case mev_file s of
        Absent \<Rightarrow> (\<lparr>risk = False\<rparr>, s)
      | Unreadable \<Rightarrow> (\<lparr>risk = True\<rparr>, s)
      | Unparsable \<Rightarrow> (\<lparr>risk = True\<rparr>, s)
      | Content q \<Rightarrow>
          (case q of
             JArr es \<Rightarrow>
               (let (now, s1) = Date_now s
                in case scan_queue cfg now es of
                     Inl err \<Rightarrow> (\<lparr>risk = True\<rparr>, s1)
                   | Inr (recent, keep) \<Rightarrow>
                       (\<lparr>risk = recent\<rparr>,
                        if length keep \<noteq> length es then write_mev_file keep s1 else s1))
           | _ \<Rightarrow> (\<lparr>risk = False\<rparr>, s)))"



text \<open>A value that \<^verbatim>\<open>JSON.stringify\<close> and \<^verbatim>\<open>JSON.parse\<close> give back as it is: no Number in it
  that is not finite, no \<open>undefined\<close> and no BigInt.\<close>

fun json_plain :: "json \<Rightarrow> bool"
  and plain_elements :: "json list \<Rightarrow> bool"
  and plain_members :: "(string \<times> json) list \<Rightarrow> bool" where
  "json_plain (JPrim v) =
     (case v of JUndefined \<Rightarrow> False | JBig i \<Rightarrow> False | JNum n \<Rightarrow> is_finite n | _ \<Rightarrow> True)"
| "json_plain (JArr es) = plain_elements es"
| "json_plain (JObj kvs) = plain_members kvs"
| "plain_elements [] = True"
| "plain_elements (e # es) = (json_plain e \<and> plain_elements es)"
| "plain_members [] = True"
| "plain_members ((k, e) # kvs) = (json_plain e \<and> plain_members kvs)"

subsection \<open>Profit threshold on USD figures\<close>

record profit_verdict =
  pt_ok :: bool
  pt_reason :: "string option"
  pt_profitUsd :: "number option"
  pt_notionalUsd :: "number option"
  pt_profitBps :: "number option"
  pt_thresholdBps :: "number option"
  pt_thresholdUsd :: "number option"

definition profit_failure :: "string \<Rightarrow> profit_verdict" where
  "profit_failure r =
     \<lparr>pt_ok = False, pt_reason = Some r, pt_profitUsd = None, pt_notionalUsd = None,
      pt_profitBps = None, pt_thresholdBps = None, pt_thresholdUsd = None\<rparr>"

definition meetsProfitThresholdUSD :: "config \<Rightarrow> jsval \<Rightarrow> jsval \<Rightarrow> profit_verdict" where
  "meetsProfitThresholdUSD cfg profitUsd notionalUsd =
     (let notional = Number cfg (js_or notionalUsd (JNum (Fin 0)));
          profit = Number cfg (js_or profitUsd (JNum (Fin 0)))
      in if \<not> is_finite profit \<or> \<not> is_finite notional then profit_failure ''invalidInputs''
         else
           let passUsd = num_ge profit (PROFIT_THRESHOLD_USD cfg);
               profitBps = (if num_gt notional (Fin 0)
                            then math_floor (num_mul (num_div profit notional) (Fin 10000))
                            else Fin 0);
               passBps = num_ge profitBps (PROFIT_THRESHOLD_BPS cfg)
           in \<lparr>pt_ok = passUsd \<and> passBps, pt_reason = None, pt_profitUsd = Some profit,
               pt_notionalUsd = Some notional, pt_profitBps = Some profitBps,
               pt_thresholdBps = Some (PROFIT_THRESHOLD_BPS cfg),
               pt_thresholdUsd = Some (PROFIT_THRESHOLD_USD cfg)\<rparr>)"

subsection \<open>Profit lock\<close>

record lock_split =
  locked :: number
  leftover :: number

definition lockProfit :: "jsval \<Rightarrow> number \<Rightarrow> lock_split" where
  "lockProfit profitUsd lockPct =
     (case profitUsd of
        JNum p \<Rightarrow>
          (if \<not> is_finite p \<or> num_le p (Fin 0) then \<lparr>locked = Fin 0, leftover = Fin 0\<rparr>
           else
             let cents = math_round (num_mul p (Fin 100));
                 locked = math_round (num_mul cents lockPct)
             in \<lparr>locked = num_div locked (Fin 100),
                 leftover = num_div (num_sub cents locked) (Fin 100)\<rparr>)
      | _ \<Rightarrow> \<lparr>locked = Fin 0, leftover = Fin 0\<rparr>)"

subsection \<open>Remote reads\<close>

record fee_data =
  fd_gasPrice :: jsval
  fd_maxFeePerGas :: jsval
  fd_maxPriorityFeePerGas :: jsval

text \<open>The gas-relevant fields of a transaction request; an absent field is \<open>undefined\<close>.\<close>

record tx_request =
  tx_gasPrice :: jsval
  tx_maxFeePerGas :: jsval
  tx_maxPriorityFeePerGas :: jsval

text \<open>What the pool contracts return: the pair's tokens and reserves, the pool's \<^verbatim>\<open>slot0\<close>
  price (\<open>undefined\<close> when \<^verbatim>\<open>slot0\<close> is empty) and liquidity.\<close>

record v2_raw =
  v2_token0 :: jsval
  v2_token1 :: jsval
  v2_reserve0 :: jsval
  v2_reserve1 :: jsval
  v2_blockTimestampLast :: jsval

record v3_raw =
  v3_token0 :: jsval
  v3_token1 :: jsval
  v3_sqrtPriceX96 :: jsval
  v3_liquidity :: jsval

text \<open>What the oracle-derived profit guard ends with: a missing or stale feed, an error
  caught by its \<^verbatim>\<open>try\<close>, or the two USD figures it hands to the direct guard.\<close>

datatype chainlink_outcome = FeedMissing | ChainlinkThrows | UsdFigures number number

text \<open>
  The remote world of one run. \<open>providerUp\<close> tells whether \<^verbatim>\<open>getReadProvider()\<close>, of the
  absent module \<^verbatim>\<open>dataprovider.js\<close>, resolves. Every contract or provider read gives, for
  the first attempt (index 0) and for the retry (index 1), the value it resolves to within
  its deadline, or \<open>None\<close> when it throws, rejects or times out. The oracle-derived profit
  guard is summarised by its outcome, the reads it logged and the clock readings it took.
\<close>

record world =
  providerUp :: bool
  getFeeData :: "nat \<Rightarrow> fee_data option"
  estimateGas :: "nat \<Rightarrow> jsval option"
  getBalance :: "jsval \<Rightarrow> nat \<Rightarrow> jsval option"
  balanceOf :: "jsval \<Rightarrow> jsval \<Rightarrow> nat \<Rightarrow> jsval option"
  v2_getReserves :: "jsval \<Rightarrow> nat \<Rightarrow> v2_raw option"
  v3_slot0 :: "jsval \<Rightarrow> nat \<Rightarrow> v3_raw option"
  chainlink :: "jsval \<Rightarrow> jsval \<Rightarrow> jsval \<Rightarrow> jsval \<Rightarrow> chainlink_outcome"
  chainlink_calls :: "rpc list"
  chainlink_ticks :: nat

text \<open>
  \<^verbatim>\<open>readCall(label, fn, timeoutMs)\<close>: one attempt on the current provider; on failure a
  provider rotation and exactly one retry, whose failure rejects. \<open>fn k\<close> is the outcome of
  the \<open>k\<close>-th attempt. Every attempt is logged under the label.
\<close>

definition readCall :: "world \<Rightarrow> rpc \<Rightarrow> (nat \<Rightarrow> 'a option) \<Rightarrow> state \<Rightarrow> (error + 'a) \<times> state" where
  "readCall w label fn s =
     (if \<not> providerUp w then (Inl Rejected, s)
      else
        let s1 = s\<lparr>calls := calls s @ [label]\<rparr>
        in case fn 0 of
             Some v \<Rightarrow> (Inr v, s1)
           | None \<Rightarrow>
               (let s2 = s1\<lparr>rotations := Suc (rotations s1), calls := calls s1 @ [label]\<rparr>
                in case fn 1 of Some v \<Rightarrow> (Inr v, s2) | None \<Rightarrow> (Inl Rejected, s2)))"

text \<open>\<^verbatim>\<open>readCall(...).catch(() => d)\<close>\<close>

definition readCall_or :: "world \<Rightarrow> rpc \<Rightarrow> (nat \<Rightarrow> 'a option) \<Rightarrow> 'a \<Rightarrow> state \<Rightarrow> 'a \<times> state" where
  "readCall_or w label fn d s =
     (case readCall w label fn s of (Inl e, s') \<Rightarrow> (d, s') | (Inr v, s') \<Rightarrow> (v, s'))"

subsection \<open>Gas\<close>

record gas_verdict =
  gas_ok :: bool
  gas_reason :: "string option"
  gas_hint :: "string option"
  gas_gasLimit :: "jsval option"
  gas_maxFeePerGas :: "jsval option"
  gas_maxPriorityFeePerGas :: "jsval option"
  gas_gasPrice :: "jsval option"

definition gas_failure :: "string \<Rightarrow> gas_verdict" where
  "gas_failure r =
     \<lparr>gas_ok = False, gas_reason = Some r, gas_hint = None, gas_gasLimit = None,
      gas_maxFeePerGas = None, gas_maxPriorityFeePerGas = None, gas_gasPrice = None\<rparr>"

text \<open>The fee record built inside the first read: the request's fields take precedence over
  the fetched ones, and a field absent from both is \<open>null\<close>.\<close>

definition merge_fee :: "tx_request \<Rightarrow> fee_data \<Rightarrow> fee_data" where
  "merge_fee tx fd =
     \<lparr>fd_gasPrice = js_coalesce (js_coalesce (tx_gasPrice tx) (fd_gasPrice fd)) JNull,
      fd_maxFeePerGas = js_coalesce (js_coalesce (tx_maxFeePerGas tx) (fd_maxFeePerGas fd)) JNull,
      fd_maxPriorityFeePerGas =
        js_coalesce (js_coalesce (tx_maxPriorityFeePerGas tx) (fd_maxPriorityFeePerGas fd)) JNull\<rparr>"

text \<open>\<^verbatim>\<open>fee.maxFeePerGas != null && fee.maxPriorityFeePerGas != null\<close>\<close>

definition using1559 :: "fee_data \<Rightarrow> bool" where
  "using1559 fee = (\<not> nullish (fd_maxFeePerGas fee) \<and> \<not> nullish (fd_maxPriorityFeePerGas fee))"

text \<open>The fee ceiling: the verdict of a fee that is too high or cannot be cast, or \<open>None\<close>
  for a fee that is acceptable.\<close>

definition fee_too_high :: "config \<Rightarrow> fee_data \<Rightarrow> gas_verdict option" where
  "fee_too_high cfg fee =
     (if using1559 fee then
        (case BigInt cfg (fd_maxFeePerGas fee) of
           Inl e \<Rightarrow> Some (gas_failure ''maxFeePerGasCastError'')
         | Inr mfp \<Rightarrow>
             (if HIGH_GAS_WEI cfg < mfp
              then Some ((gas_failure ''maxFeePerGasTooHigh'')\<lparr>gas_maxFeePerGas := Some (JBig mfp)\<rparr>)
              else None))
      else
        (case BigInt cfg (fd_gasPrice fee) of
           Inl e \<Rightarrow> Some (gas_failure ''gasPriceCastError'')
         | Inr gp \<Rightarrow>
             (if HIGH_GAS_WEI cfg < gp
              then Some ((gas_failure ''gasPriceTooHigh'')\<lparr>gas_gasPrice := Some (JBig gp)\<rparr>)
              else None)))"

definition assessGas :: "config \<Rightarrow> world \<Rightarrow> tx_request \<Rightarrow> state \<Rightarrow> gas_verdict \<times> state" where
  "assessGas cfg w txRequest s =
     (let (fee, s1) =
            readCall_or w FeeData
              (\<lambda>k. map_option (\<lambda>fd. Some (merge_fee txRequest fd)) (getFeeData w k)) None s
      in case fee of
           None \<Rightarrow> (gas_failure ''feeDataNull'', s1)
         | Some fee \<Rightarrow>
             (if \<not> using1559 fee \<and> nullish (fd_gasPrice fee)
              then (gas_failure ''noGasPriceAndNo1559'', s1)
              else
                case fee_too_high cfg fee of
                  Some v \<Rightarrow> (v, s1)
                | None \<Rightarrow>
                    (let (gasLimit, s2) = readCall_or w EstimateGas (estimateGas w) (JBig 0) s1
                     in if gasLimit = JBig 0 then
                          ((gas_failure ''gasEstimationFailed'')
                             \<lparr>gas_hint := Some ''Ensure txRequest.from/to/data/value are set and valid''\<rparr>,
                           s2)
                        else if js_gt cfg gasLimit (JBig (GAS_LIMIT_MAX cfg)) then
                          ((gas_failure ''gasLimitTooHigh'')\<lparr>gas_gasLimit := Some gasLimit\<rparr>, s2)
                        else
                          (\<lparr>gas_ok = True, gas_reason = None, gas_hint = None,
                            gas_gasLimit = Some gasLimit,
                            gas_maxFeePerGas =
                              (if using1559 fee then Some (fd_maxFeePerGas fee) else None),
                            gas_maxPriorityFeePerGas =
                              (if using1559 fee then Some (fd_maxPriorityFeePerGas fee) else None),
                            gas_gasPrice =
                              (if using1559 fee then None else Some (fd_gasPrice fee))\<rparr>,
                           s2))))"


subsection \<open>Flash-loan availability\<close>

record candidate =
  c_type :: jsval
  c_token :: jsval
  c_addr :: jsval
  c_needed :: jsval

record flash_verdict =
  fl_ok :: bool
  fl_reason :: "string option"
  fl_aave :: "bool option"
  fl_balancer :: "bool option"

text \<open>\<^verbatim>\<open>checkBalance\<close>: the comparison with \<^verbatim>\<open>BigInt(needed)\<close> runs inside the read, so a
  value that cannot be cast fails the attempt; a rejected read counts as \<open>false\<close>.\<close>

definition checkBalance :: "config \<Rightarrow> world \<Rightarrow> candidate \<Rightarrow> state \<Rightarrow> bool \<times> state" where
  "checkBalance cfg w c s =
     readCall_or w (BalanceOf (c_token c))
       (\<lambda>k. case balanceOf w (c_token c) (c_addr c) k of
              None \<Rightarrow> None
            | Some bal \<Rightarrow>
                (case BigInt cfg (c_needed c) of
                   Inl e \<Rightarrow> None
                 | Inr n \<Rightarrow> Some (js_ge cfg bal (JBig n))))
       False s"

text \<open>The loop over the candidates of one source stops at the first that is funded.\<close>

fun first_funded :: "config \<Rightarrow> world \<Rightarrow> candidate list \<Rightarrow> state \<Rightarrow> bool \<times> state" where
  "first_funded cfg w [] s = (False, s)"
| "first_funded cfg w (c # cs) s =
     (let (funded, s1) = checkBalance cfg w c s
      in if funded then (True, s1) else first_funded cfg w cs s1)"

definition isFlashLoanAvailable ::
  "config \<Rightarrow> world \<Rightarrow> candidate list \<Rightarrow> state \<Rightarrow> flash_verdict \<times> state" where
  "isFlashLoanAvailable cfg w candidates s =
     (if \<not> AAVE_LOAN cfg \<and> \<not> BAL_LOAN cfg then
        (\<lparr>fl_ok = False, fl_reason = Some ''loansDisabledInEnv'', fl_aave = None,
          fl_balancer = None\<rparr>, s)
      else
        let (aaveOk, s1) =
              (if AAVE_LOAN cfg
               then first_funded cfg w (filter (\<lambda>c. c_type c = JStr ''aave'') candidates) s
               else (False, s));
            (balOk, s2) =
              (if BAL_LOAN cfg
               then first_funded cfg w (filter (\<lambda>c. c_type c = JStr ''balancer'') candidates) s1
               else (False, s1))
        in if aaveOk \<or> balOk then
             (\<lparr>fl_ok = True, fl_reason = None, fl_aave = Some aaveOk, fl_balancer = Some balOk\<rparr>, s2)
           else
             (\<lparr>fl_ok = False, fl_reason = Some ''noLiquidity'', fl_aave = Some aaveOk,
               fl_balancer = Some balOk\<rparr>, s2))"

subsection \<open>Fallback token\<close>

record fallback_verdict =
  fb_ok :: bool
  fb_token :: "jsval option"
  fb_balance :: "jsval option"

fun chooseFallbackToken ::
  "config \<Rightarrow> world \<Rightarrow> jsval \<Rightarrow> jsval list \<Rightarrow> jsval \<Rightarrow> state \<Rightarrow> fallback_verdict \<times> state" where
  "chooseFallbackToken cfg w wallet [] minAmt s =
     (\<lparr>fb_ok = False, fb_token = None, fb_balance = None\<rparr>, s)"
| "chooseFallbackToken cfg w wallet (t # ts) minAmt s =
     (let (res, s1) = readCall_or w (BalanceOf t) (balanceOf w t wallet) JNull s
      in if truthy res \<and> js_gt cfg res minAmt
         then (\<lparr>fb_ok = True, fb_token = Some t, fb_balance = Some res\<rparr>, s1)
         else chooseFallbackToken cfg w wallet ts minAmt s1)"

text \<open>\<^verbatim>\<open>_resolveFlashFallbackTokens\<close>: the runtime list when it is not empty, else the
  configured one; at most five tokens.\<close>

definition resolveFlashFallbackTokens :: "config \<Rightarrow> jsval list \<Rightarrow> jsval list" where
  "resolveFlashFallbackTokens cfg runtimeList =
     take 5 (if runtimeList \<noteq> [] then runtimeList else map JStr (FLASH_FALLBACK_TOKENS cfg))"

subsection \<open>Wallet balance\<close>

record wallet_verdict =
  wb_ok :: bool
  wb_balance :: jsval

text \<open>\<^verbatim>\<open>BigInt(needed)\<close> stands outside every \<^verbatim>\<open>try\<close> and \<^verbatim>\<open>catch\<close>: when it throws, the
  promise that \<open>hasWalletBalance\<close> returns rejects. A falsy token and the zero address ask
  for the native balance.\<close>

definition hasWalletBalance ::
  "config \<Rightarrow> world \<Rightarrow> jsval \<Rightarrow> jsval \<Rightarrow> jsval \<Rightarrow> state \<Rightarrow> (error + wallet_verdict) \<times> state" where
  "hasWalletBalance cfg w wallet token needed s =
     (case BigInt cfg needed of
        Inl e \<Rightarrow> (Inl e, s)
      | Inr minRequiredWei \<Rightarrow>
          (if \<not> truthy token \<or> token = JStr (ZeroAddress cfg) then
             (let (bal, s1) = readCall_or w GetBalance (getBalance w wallet) JNull s
              in (Inr \<lparr>wb_ok = (\<not> nullish bal \<and> js_ge cfg bal (JBig minRequiredWei)),
                       wb_balance = js_coalesce bal (JBig 0)\<rparr>, s1))
           else
             (let (ercBal, s1) = readCall_or w (BalanceOf token) (balanceOf w token wallet) JNull s
              in (Inr \<lparr>wb_ok = (\<not> nullish ercBal \<and> js_ge cfg ercBal (JBig minRequiredWei)),
                       wb_balance = js_coalesce ercBal (JBig 0)\<rparr>, s1))))"

subsection \<open>Pool state\<close>

datatype pool_state =
  V2State jsval jsval jsval jsval number number
  | V3State jsval jsval jsval jsval number

text \<open>\<^verbatim>\<open>getV2Reserves\<close> and \<^verbatim>\<open>getV3State\<close>: a snapshot stamped with the clock, or \<open>null\<close>.\<close>

definition getV2Reserves :: "config \<Rightarrow> world \<Rightarrow> jsval \<Rightarrow> state \<Rightarrow> pool_state option \<times> state" where
  "getV2Reserves cfg w pair s =
     (case readCall_or w (V2GetReserves pair) (\<lambda>k. map_option Some (v2_getReserves w pair k)) None s of
        (None, s1) \<Rightarrow> (None, s1)
      | (Some raw, s1) \<Rightarrow>
          (let (now, s2) = Date_now s1
           in (Some (V2State (v2_token0 raw) (v2_token1 raw) (v2_reserve0 raw) (v2_reserve1 raw)
                       (Number cfg (v2_blockTimestampLast raw)) now), s2)))"

definition getV3State :: "config \<Rightarrow> world \<Rightarrow> jsval \<Rightarrow> state \<Rightarrow> pool_state option \<times> state" where
  "getV3State cfg w pool s =
     (case readCall_or w (V3Slot0 pool) (\<lambda>k. map_option Some (v3_slot0 w pool k)) None s of
        (None, s1) \<Rightarrow> (None, s1)
      | (Some raw, s1) \<Rightarrow>
          (let (now, s2) = Date_now s1
           in (Some (V3State (v3_token0 raw) (v3_token1 raw)
                       (js_coalesce (v3_sqrtPriceX96 raw) (JBig 0)) (v3_liquidity raw) now), s2)))"

subsection \<open>Profit threshold through the price feeds\<close>

text \<open>
  \<^verbatim>\<open>meetsProfitThresholdUSD_Chainlink\<close> runs its four reads concurrently inside one
  \<^verbatim>\<open>try\<close>; the world gives what they come to. It returns a verdict in every case.
\<close>

definition meetsProfitThresholdUSD_Chainlink ::
  "config \<Rightarrow> world \<Rightarrow> jsval \<Rightarrow> jsval \<Rightarrow> jsval \<Rightarrow> jsval \<Rightarrow> state \<Rightarrow> profit_verdict \<times> state" where
  "meetsProfitThresholdUSD_Chainlink cfg w profitToken profitAmountWei notionalToken
       notionalAmountWei s =
     (let s1 = s\<lparr>calls := calls s @ chainlink_calls w, ticks := ticks s + chainlink_ticks w\<rparr>
      in case chainlink w profitToken profitAmountWei notionalToken notionalAmountWei of
           FeedMissing \<Rightarrow> (profit_failure ''missingOrStaleFeed'', s1)
         | ChainlinkThrows \<Rightarrow> (profit_failure ''chainlinkError'', s1)
         | UsdFigures profitUsd notionalUsd \<Rightarrow>
             (meetsProfitThresholdUSD cfg (JNum profitUsd) (JNum notionalUsd), s1))"

subsection \<open>Reserve trade check\<close>

datatype pool_info = V2Info jsval jsval int int | V3Info jsval jsval int jsval

record reserve_check =
  safeAmount :: int
  info :: "pool_info option"

text \<open>\<open>ToNumber\<close>, as \<^verbatim>\<open>Math.floor\<close> applies it: a BigInt throws.\<close>

definition ToNumber :: "config \<Rightarrow> jsval \<Rightarrow> error + number" where
  "ToNumber cfg v = (case to_numeric cfg v of NNum n \<Rightarrow> Inr n | NBig i \<Rightarrow> Inl TypeError)"

text \<open>\<^verbatim>\<open>toLowerCase\<close> exists on strings only; the letters of an address are ASCII.\<close>

definition lower_char :: "char \<Rightarrow> char" where
  "lower_char c =
     (if (65::nat) \<le> of_char c \<and> (of_char c :: nat) \<le> 90 then char_of (of_char c + (32::nat)) else c)"

definition toLowerCase :: "jsval \<Rightarrow> error + string" where
  "toLowerCase v = (case v of JStr s \<Rightarrow> Inr (map lower_char s) | _ \<Rightarrow> Inl TypeError)"

record reserve_query =
  poolType :: jsval
  poolAddress :: jsval
  pairAddress :: jsval
  tokenIn :: jsval
  desiredAmount :: jsval
  slippagePercent :: jsval

text \<open>\<^verbatim>\<open>Math.max(0, Math.min(99, Math.floor(slippagePercent || 1)))\<close>, after the default of
  1 for an \<open>undefined\<close> argument.\<close>

definition clamp_slippage :: "config \<Rightarrow> jsval \<Rightarrow> error + number" where
  "clamp_slippage cfg sp =
     and_then (ToNumber cfg (js_or (if sp = JUndefined then JNum (Fin 1) else sp) (JNum (Fin 1))))
       (\<lambda>n. Inr (math_max (Fin 0) (math_min (Fin 99) (math_floor n))))"

text \<open>\<^verbatim>\<open>(base * BigInt(100 - slippagePercent)) / 100n\<close>, lowered to \<^verbatim>\<open>BigInt(desiredAmount)\<close>
  when that is smaller.\<close>

definition capped_amount :: "config \<Rightarrow> int \<Rightarrow> number \<Rightarrow> jsval \<Rightarrow> error + int" where
  "capped_amount cfg base pct desired =
     and_then (BigInt cfg (JNum (num_sub (Fin 100) pct))) (\<lambda>keep.
     and_then (bigint_div (base * keep) 100) (\<lambda>safe.
     and_then (BigInt cfg desired) (\<lambda>want.
       Inr (if want < safe then want else safe))))"

text \<open>The body of the \<^verbatim>\<open>try\<close> block. The contract reads go to the caller's provider, once:
  the world's first-attempt answers.\<close>

definition reserveTradeCheck_try :: "config \<Rightarrow> world \<Rightarrow> reserve_query \<Rightarrow> error + reserve_check" where
  "reserveTradeCheck_try cfg w q =
     and_then (clamp_slippage cfg (slippagePercent q)) (\<lambda>pct.
       if poolType q = JStr ''V2'' then
         (case v2_getReserves w (pairAddress q) 0 of
            None \<Rightarrow> Inl Rejected
          | Some raw \<Rightarrow>
              and_then (BigInt cfg (v2_reserve0 raw)) (\<lambda>r0.
              and_then (BigInt cfg (v2_reserve1 raw)) (\<lambda>r1.
              and_then (toLowerCase (v2_token0 raw)) (\<lambda>t0.
              and_then (toLowerCase (tokenIn q)) (\<lambda>tin.
              and_then (capped_amount cfg (if t0 = tin then r0 else r1) pct (desiredAmount q))
                (\<lambda>safe.
                   Inr \<lparr>safeAmount = safe,
                        info = Some (V2Info (v2_token0 raw) (v2_token1 raw) r0 r1)\<rparr>))))))
       else if poolType q = JStr ''V3'' then
         (case v3_slot0 w (poolAddress q) 0 of
            None \<Rightarrow> Inl Rejected
          | Some raw \<Rightarrow>
              and_then (BigInt cfg (v3_liquidity raw)) (\<lambda>liq.
              and_then (capped_amount cfg liq pct (desiredAmount q)) (\<lambda>safe.
                Inr \<lparr>safeAmount = safe,
                     info = Some (V3Info (v3_token0 raw) (v3_token1 raw) liq
                                    (js_coalesce (v3_sqrtPriceX96 raw) (JBig 0)))\<rparr>)))
       else Inr \<lparr>safeAmount = 0, info = None\<rparr>)"

definition reserveTradeCheck :: "config \<Rightarrow> world \<Rightarrow> reserve_query \<Rightarrow> reserve_check" where
  "reserveTradeCheck cfg w q =
     (case reserveTradeCheck_try cfg w q of
        Inl err \<Rightarrow> \<lparr>safeAmount = 0, info = None\<rparr>
      | Inr r \<Rightarrow> r)"

text \<open>
  The cap in the words of the specification: the slippage percentage clamped to
  \<open>[0, 99]\<close>, and \<open>baseQuantity * (100 - slippagePercent) / 100\<close> as an integer, rounded down.
\<close>

definition clamp_pct :: "rat \<Rightarrow> rat" where
  "clamp_pct p = max 0 (min 99 p)"

definition cap_bound :: "int \<Rightarrow> rat \<Rightarrow> int" where
  "cap_bound base p = \<lfloor>of_int base * (100 - clamp_pct p) / 100\<rfloor>"

section \<open>The composed guard\<close>

record needed_balance =
  nb_token :: jsval
  nb_amountWei :: jsval

text \<open>The parameters of a run. The feed map of the oracle-derived profit guard belongs to
  the remote world.\<close>

record params =
  routeKey :: jsval
  expectedOut :: jsval
  minOut :: jsval
  txRequest :: tx_request
  profitUsd :: jsval
  notionalUsd :: jsval
  profitToken :: jsval
  profitAmountWei :: jsval
  notionalToken :: jsval
  notionalAmountWei :: jsval
  wallet :: jsval
  v2PairAddr :: jsval
  v3PoolAddr :: jsval
  fallbackTokens :: "jsval list"
  neededBalance :: "needed_balance option"
  flashCandidates :: "candidate list"

datatype details =
  DCooldown cooldown_verdict
  | DMev mev_verdict
  | DSlippage slip_verdict
  | DProfit profit_verdict
  | DGas gas_verdict
  | DWallet wallet_verdict
  | DFlash flash_verdict
  | DAll slip_verdict profit_verdict gas_verdict "pool_state option" "fallback_verdict option"
      lock_split

record verdict =
  ok :: bool
  reason :: "string option"
  details :: details
  trace :: "(string \<times> number) list"

text \<open>\<^verbatim>\<open>step(name)\<close> pushes the name and the time since the start of the run.\<close>

definition step ::
  "string \<Rightarrow> number \<Rightarrow> (string \<times> number) list \<Rightarrow> state \<Rightarrow> (string \<times> number) list \<times> state" where
  "step name t0 tr s = (let (now, s1) = Date_now s in (tr @ [(name, num_sub now t0)], s1))"

definition rejected :: "string \<Rightarrow> details \<Rightarrow> (string \<times> number) list \<Rightarrow> verdict" where
  "rejected r d tr = \<lparr>ok = False, reason = Some r, details = d, trace = tr\<rparr>"

text \<open>\<^verbatim>\<open>Number.isFinite(v)\<close> converts nothing: only a finite Number passes.\<close>

definition isFiniteNumber :: "jsval \<Rightarrow> bool" where
  "isFiniteNumber v = (case v of JNum n \<Rightarrow> is_finite n | _ \<Rightarrow> False)"

text \<open>\<^verbatim>\<open>neededBalance?.token\<close> and \<^verbatim>\<open>neededBalance.amountWei\<close>\<close>

definition needed_token :: "params \<Rightarrow> jsval" where
  "needed_token P = (case neededBalance P of None \<Rightarrow> JUndefined | Some nb \<Rightarrow> nb_token nb)"

definition needed_amount :: "params \<Rightarrow> jsval" where
  "needed_amount P = (case neededBalance P of None \<Rightarrow> JUndefined | Some nb \<Rightarrow> nb_amountWei nb)"

text \<open>
  \<open>runProtections\<close> is given from its last statements to its first, one definition for
  each guard and what follows it. The last part fetches the pool state, chooses a
  fallback token, splits the profit, and returns \<open>ok = true\<close>.
\<close>

definition run_enrich ::
  "config \<Rightarrow> world \<Rightarrow> params \<Rightarrow> number \<Rightarrow> (string \<times> number) list \<Rightarrow> slip_verdict \<Rightarrow>
   profit_verdict \<Rightarrow> gas_verdict \<Rightarrow> state \<Rightarrow> verdict \<times> state" where
  "run_enrich cfg w P t0 tr slip pt gas s =
     (let (reserves, s1) =
            (if truthy (v2PairAddr P) then getV2Reserves cfg w (v2PairAddr P) s
             else if truthy (v3PoolAddr P) then getV3State cfg w (v3PoolAddr P) s
             else (None, s));
          (tr1, s2) = step ''poolState'' t0 tr s1;
          fbTokens = resolveFlashFallbackTokens cfg (fallbackTokens P);
          (fallback, s3) =
            (if fbTokens \<noteq> []
             then (let (f, s') = chooseFallbackToken cfg w (wallet P) fbTokens (JBig 0) s2
                   in (Some f, s'))
             else (None, s2));
          (tr2, s4) = step ''fallback'' t0 tr1 s3;
          lock = lockProfit (case pt_profitUsd pt of
                               Some n \<Rightarrow> JNum n
                             | None \<Rightarrow> js_coalesce (profitUsd P) (JNum (Fin 0)))
                   (Fin (3 / 4));
          (tr3, s5) = step ''lock'' t0 tr2 s4
      in (\<lparr>ok = True, reason = None, details = DAll slip pt gas reserves fallback lock,
           trace = tr3\<rparr>, s5))"

definition run_flash ::
  "config \<Rightarrow> world \<Rightarrow> params \<Rightarrow> number \<Rightarrow> (string \<times> number) list \<Rightarrow> slip_verdict \<Rightarrow>
   profit_verdict \<Rightarrow> gas_verdict \<Rightarrow> state \<Rightarrow> verdict \<times> state" where
  "run_flash cfg w P t0 tr slip pt gas s =
     (if flashCandidates P \<noteq> [] then
        (let (fl, s1) = isFlashLoanAvailable cfg w (flashCandidates P) s;
             (tr1, s2) = step ''flashLoan'' t0 tr s1
         in if \<not> fl_ok fl then (rejected ''flashNotAvailable'' (DFlash fl) tr1, s2)
            else run_enrich cfg w P t0 tr1 slip pt gas s2)
      else
        (let (tr1, s1) = step ''flashLoan'' t0 tr s
         in run_enrich cfg w P t0 tr1 slip pt gas s1))"

definition run_wallet ::
  "config \<Rightarrow> world \<Rightarrow> params \<Rightarrow> number \<Rightarrow> (string \<times> number) list \<Rightarrow> slip_verdict \<Rightarrow>
   profit_verdict \<Rightarrow> gas_verdict \<Rightarrow> state \<Rightarrow> (error + verdict) \<times> state" where
  "run_wallet cfg w P t0 tr slip pt gas s =
     (if truthy (needed_token P) then
        (case hasWalletBalance cfg w (wallet P) (needed_token P) (needed_amount P) s of
           (Inl e, s1) \<Rightarrow> (Inl e, s1)
         | (Inr wb, s1) \<Rightarrow>
             (let (tr1, s2) = step ''walletBalance'' t0 tr s1
              in if \<not> wb_ok wb then (Inr (rejected ''insufficientBalance'' (DWallet wb) tr1), s2)
                 else (let (v, s3) = run_flash cfg w P t0 tr1 slip pt gas s2 in (Inr v, s3))))
      else
        (let (tr1, s1) = step ''walletBalance'' t0 tr s;
             (v, s2) = run_flash cfg w P t0 tr1 slip pt gas s1
         in (Inr v, s2)))"

definition run_gas ::
  "config \<Rightarrow> world \<Rightarrow> params \<Rightarrow> number \<Rightarrow> (string \<times> number) list \<Rightarrow> slip_verdict \<Rightarrow>
   profit_verdict \<Rightarrow> state \<Rightarrow> (error + verdict) \<times> state" where
  "run_gas cfg w P t0 tr slip pt s =
     (let (gas, s1) = assessGas cfg w (txRequest P) s;
          (tr1, s2) = step ''gas'' t0 tr s1
      in if \<not> gas_ok gas then (Inr (rejected ''gasBad'' (DGas gas) tr1), s2)
         else run_wallet cfg w P t0 tr1 slip pt gas s2)"

text \<open>The profit guard: on the USD figures when both are finite Numbers, else through the
  price feeds, on a provider that \<^verbatim>\<open>getReadProvider()\<close> must first deliver.\<close>

definition assess_profit :: "config \<Rightarrow> world \<Rightarrow> params \<Rightarrow> state \<Rightarrow> profit_verdict \<times> state" where
  "assess_profit cfg w P s =
     (if isFiniteNumber (profitUsd P) \<and> isFiniteNumber (notionalUsd P)
      then (meetsProfitThresholdUSD cfg (profitUsd P) (notionalUsd P), s)
      else meetsProfitThresholdUSD_Chainlink cfg w (profitToken P) (profitAmountWei P)
             (notionalToken P) (notionalAmountWei P) s)"

definition run_profit ::
  "config \<Rightarrow> world \<Rightarrow> params \<Rightarrow> number \<Rightarrow> (string \<times> number) list \<Rightarrow> slip_verdict \<Rightarrow>
   state \<Rightarrow> (error + verdict) \<times> state" where
  "run_profit cfg w P t0 tr slip s =
     (if \<not> (isFiniteNumber (profitUsd P) \<and> isFiniteNumber (notionalUsd P)) \<and> \<not> providerUp w
      then (Inl Rejected, s)
      else
        let (pt, s1) = assess_profit cfg w P s;
            (tr1, s2) = step ''profit'' t0 tr s1
        in if \<not> pt_ok pt then (Inr (rejected ''profitBelowThreshold'' (DProfit pt) tr1), s2)
           else run_gas cfg w P t0 tr1 slip pt s2)"

definition run_slippage ::
  "config \<Rightarrow> world \<Rightarrow> params \<Rightarrow> number \<Rightarrow> (string \<times> number) list \<Rightarrow> state \<Rightarrow>
   (error + verdict) \<times> state" where
  "run_slippage cfg w P t0 tr s =
     (case validateSlippage cfg (expectedOut P) (minOut P) of
        Inl e \<Rightarrow> (Inl e, s)
      | Inr slip \<Rightarrow>
          (let (tr1, s1) = step ''slippage'' t0 tr s
           in if \<not> slip_ok slip then (Inr (rejected ''slippage'' (DSlippage slip) tr1), s1)
              else run_profit cfg w P t0 tr1 slip s1))"

definition run_mev ::
  "config \<Rightarrow> world \<Rightarrow> params \<Rightarrow> number \<Rightarrow> (string \<times> number) list \<Rightarrow> state \<Rightarrow>
   (error + verdict) \<times> state" where
  "run_mev cfg w P t0 tr s =
     (let (mev, s1) = isMEVRisk cfg s;
          (tr1, s2) = step ''mev'' t0 tr s1
      in if risk mev then (Inr (rejected ''mevRisk'' (DMev mev) tr1), s2)
         else run_slippage cfg w P t0 tr1 s2)"

definition runProtections ::
  "config \<Rightarrow> world \<Rightarrow> params \<Rightarrow> state \<Rightarrow> (error + verdict) \<times> state" where
  "runProtections cfg w P s =
     (let (t0, s0) = Date_now s;
          (cd, s1) = enforceCooldown cfg (routeKey P) s0;
          (tr1, s2) = step ''cooldown'' t0 [] s1
      in if \<not> cd_ok cd then (Inr (rejected ''cooldown'' (DCooldown cd) tr1), s2)
         else run_mev cfg w P t0 tr1 s2)"

subsection \<open>The order of the steps, in the words of the specification\<close>

definition pipeline_steps :: "string list" where
  "pipeline_steps =
     [''cooldown'', ''mev'', ''slippage'', ''profit'', ''gas'', ''walletBalance'', ''flashLoan'',
      ''poolState'', ''fallback'', ''lock'']"

text \<open>For the details of a guard that failed: that they report a failure, the reason the
  pipeline gives for that guard, and the position of the guard among the steps.\<close>

definition failing_details :: "details \<Rightarrow> bool" where
  "failing_details d =
     (case d of
        DCooldown cd \<Rightarrow> \<not> cd_ok cd
      | DMev m \<Rightarrow> risk m
      | DSlippage sl \<Rightarrow> \<not> slip_ok sl
      | DProfit pt \<Rightarrow> \<not> pt_ok pt
      | DGas g \<Rightarrow> \<not> gas_ok g
      | DWallet wb \<Rightarrow> \<not> wb_ok wb
      | DFlash fl \<Rightarrow> \<not> fl_ok fl
      | DAll sl pt g r f l \<Rightarrow> False)"

definition guard_reason :: "details \<Rightarrow> string" where
  "guard_reason d =
     (case d of
        DCooldown cd \<Rightarrow> ''cooldown''
      | DMev m \<Rightarrow> ''mevRisk''
      | DSlippage sl \<Rightarrow> ''slippage''
      | DProfit pt \<Rightarrow> ''profitBelowThreshold''
      | DGas g \<Rightarrow> ''gasBad''
      | DWallet wb \<Rightarrow> ''insufficientBalance''
      | DFlash fl \<Rightarrow> ''flashNotAvailable''
      | DAll sl pt g r f l \<Rightarrow> [])"

definition guard_index :: "details \<Rightarrow> nat" where
  "guard_index d =
     (case d of
        DCooldown cd \<Rightarrow> 1
      | DMev m \<Rightarrow> 2
      | DSlippage sl \<Rightarrow> 3
      | DProfit pt \<Rightarrow> 4
      | DGas g \<Rightarrow> 5
      | DWallet wb \<Rightarrow> 6
      | DFlash fl \<Rightarrow> 7
      | DAll sl pt g r f l \<Rightarrow> 0)"

text \<open>The details are the verdict that their guard returns, on the parameters of the run,
  in the state \<open>s0\<close>.\<close>

definition guard_verdict_of :: "config \<Rightarrow> world \<Rightarrow> params \<Rightarrow> state \<Rightarrow> details \<Rightarrow> bool" where
  "guard_verdict_of cfg w P s0 d =
     (case d of
        DCooldown cd \<Rightarrow> cd = fst (enforceCooldown cfg (routeKey P) s0)
      | DMev m \<Rightarrow> m = fst (isMEVRisk cfg s0)
      | DSlippage sl \<Rightarrow> validateSlippage cfg (expectedOut P) (minOut P) = Inr sl
      | DProfit pt \<Rightarrow> pt = fst (assess_profit cfg w P s0)
      | DGas g \<Rightarrow> g = fst (assessGas cfg w (txRequest P) s0)
      | DWallet wb \<Rightarrow>
          fst (hasWalletBalance cfg w (wallet P) (needed_token P) (needed_amount P) s0) = Inr wb
      | DFlash fl \<Rightarrow> fl = fst (isFlashLoanAvailable cfg w (flashCandidates P) s0)
      | DAll sl pt g r f l \<Rightarrow> False)"

text \<open>
  A verdict is in order when its trace names the steps from the first one on, in their
  fixed order; when it is \<open>ok\<close> exactly if the trace has all ten steps, and then carries no
  reason and the passing verdicts of the slippage, profit and gas guards; and when
  otherwise the trace ends at one of the seven guards, whose failing verdict, as the guard
  returned it, and whose reason it carries, the wallet-balance guard being among them only
  for a truthy \<^verbatim>\<open>neededBalance.token\<close>.
\<close>

definition in_order :: "config \<Rightarrow> world \<Rightarrow> params \<Rightarrow> verdict \<Rightarrow> bool" where
  "in_order cfg w P v =
     (map fst (trace v) = take (length (trace v)) pipeline_steps \<and>
      (ok v \<longleftrightarrow> length (trace v) = 10) \<and>
      (if ok v then
         reason v = None \<and>
         (\<exists>sl pt g r f l. details v = DAll sl pt g r f l \<and> slip_ok sl \<and> pt_ok pt \<and> gas_ok g)
       else
         failing_details (details v) \<and> reason v = Some (guard_reason (details v)) \<and>
         length (trace v) = guard_index (details v) \<and>
         (\<exists>s0. guard_verdict_of cfg w P s0 (details v)) \<and>
         (\<forall>wb. details v = DWallet wb \<longrightarrow> truthy (needed_token P))))"

section \<open>A sample configuration\<close>

text \<open>
  The defaults the module takes when the environment sets nothing: a 1% profit threshold,
  a 3 second cooldown, a 100 bps slippage ceiling, a 300 gwei fee ceiling, a 2,000,000 gas
  ceiling, a 10 second MEV window, both flash-loan sources off. The string conversions of
  this instance read strings of decimal digits and reject every other string; it serves to
  evaluate the model at concrete inputs. Its \<open>ObjectToNumber\<close> is right on objects
  (\<open>NaN\<close>), on the empty array (\<open>0\<close>) and on an array of one Number.
\<close>

fun digits_value :: "string \<Rightarrow> int \<Rightarrow> int option" where
  "digits_value [] acc = Some acc"
| "digits_value (c # cs) acc =
     (if (48::nat) \<le> of_char c \<and> (of_char c :: nat) \<le> 57
      then digits_value cs (10 * acc + (int (of_char c) - 48)) else None)"

definition sample_config :: config where
  "sample_config =
     \<lparr>PROFIT_THRESHOLD_BPS = Fin 100, PROFIT_THRESHOLD_USD = Fin 0, COOLDOWN_MS = Fin 3000,
      MAX_SLIPPAGE_BPS = Fin 100, HIGH_GAS_WEI = 300000000000, GAS_LIMIT_MAX = 2000000,
      MEV_LOOKBACK_MS = Fin 10000, FLASH_FALLBACK_TOKENS = [], AAVE_LOAN = False,
      BAL_LOAN = False, ZeroAddress = ''0x0000000000000000000000000000000000000000'',
      StringToNumber = (\<lambda>s. case digits_value s 0 of None \<Rightarrow> NaN | Some i \<Rightarrow> num_of_int i),
      StringToBigInt = (\<lambda>s. digits_value s 0),
      ObjectToNumber = (\<lambda>j. case j of JArr [] \<Rightarrow> Fin 0 | JArr [JPrim (JNum n)] \<Rightarrow> n | _ \<Rightarrow> NaN)\<rparr>"

text \<open>A state with an empty cooldown map, no MEV queue file, and a clock that stands still.\<close>

definition fresh_state :: state where
  "fresh_state = \<lparr>lastActionAt = Map.empty, clock = (\<lambda>n. 1700000000000),
     ticks = 0, mev_file = Absent, mev_writable = True, calls = [], rotations = 0\<rparr>"

text \<open>A queue file holding one entry, stamped five seconds before the clock of \<open>fresh_state\<close>.\<close>

definition mev_entry :: json where
  "mev_entry = JObj [(''timestamp'', JPrim (JNum (Fin 1699999995000)))]"

definition queued_state :: state where
  "queued_state = fresh_state\<lparr>mev_file := Content (JArr [mev_entry])\<rparr>"


text \<open>
  A remote world in which every read answers at the first attempt: EIP-1559 fees of 50 and
  2 gwei beside a legacy gas price of 30 gwei, a gas estimate of 210,000, balances of one
  ether, no pool and no oracle feed. \<open>no_overrides\<close> is a request that sets no fee field.
\<close>

definition sample_fees :: fee_data where
  "sample_fees = \<lparr>fd_gasPrice = JBig 30000000000, fd_maxFeePerGas = JBig 50000000000,
     fd_maxPriorityFeePerGas = JBig 2000000000\<rparr>"

definition sample_world :: world where
  "sample_world =
     \<lparr>providerUp = True, getFeeData = (\<lambda>k. Some sample_fees),
      estimateGas = (\<lambda>k. Some (JBig 210000)),
      getBalance = (\<lambda>a k. Some (JBig 1000000000000000000)),
      balanceOf = (\<lambda>t a k. Some (JBig 1000000000000000000)),
      v2_getReserves = (\<lambda>p k. None), v3_slot0 = (\<lambda>p k. None),
      chainlink = (\<lambda>pt pa nt na. FeedMissing), chainlink_calls = [], chainlink_ticks = 0\<rparr>"

definition no_overrides :: tx_request where
  "no_overrides = \<lparr>tx_gasPrice = JUndefined, tx_maxFeePerGas = JUndefined,
     tx_maxPriorityFeePerGas = JUndefined\<rparr>"

text \<open>A world with one pair and one pool, and a query to each.\<close>

definition pool_v2 :: v2_raw where
  "pool_v2 = \<lparr>v2_token0 = JStr ''0xAAA'', v2_token1 = JStr ''0xbbb'', v2_reserve0 = JBig 1000000,
     v2_reserve1 = JBig 5000, v2_blockTimestampLast = JBig 1699999990\<rparr>"

definition pool_v3 :: v3_raw where
  "pool_v3 = \<lparr>v3_token0 = JStr ''0xAAA'', v3_token1 = JStr ''0xbbb'', v3_sqrtPriceX96 = JBig 79,
     v3_liquidity = JBig 700\<rparr>"

definition pool_world :: world where
  "pool_world = sample_world\<lparr>v2_getReserves := (\<lambda>p k. if p = JStr ''pair'' then Some pool_v2 else None),
     v3_slot0 := (\<lambda>p k. if p = JStr ''pool'' then Some pool_v3 else None)\<rparr>"

definition v2_query :: reserve_query where
  "v2_query = \<lparr>poolType = JStr ''V2'', poolAddress = JUndefined, pairAddress = JStr ''pair'',
     tokenIn = JStr ''0xaaa'', desiredAmount = JBig 2000000, slippagePercent = JNum (Fin 1)\<rparr>"

definition v3_query :: reserve_query where
  "v3_query = \<lparr>poolType = JStr ''V3'', poolAddress = JStr ''pool'', pairAddress = JUndefined,
     tokenIn = JStr ''0xaaa'', desiredAmount = JBig 100, slippagePercent = JNum (Fin 5)\<rparr>"

text \<open>
  A run that every guard lets pass in \<open>sample_world\<close>: 100 bps of slippage, 50 USD of profit
  on 1000 USD, no balance requirement, no flash-loan candidate, one fallback token.
\<close>

definition sample_params :: params where
  "sample_params =
     \<lparr>routeKey = JStr ''r'', expectedOut = JBig 1000, minOut = JBig 990,
      txRequest = no_overrides, profitUsd = JNum (Fin 50), notionalUsd = JNum (Fin 1000),
      profitToken = JUndefined, profitAmountWei = JUndefined, notionalToken = JUndefined,
      notionalAmountWei = JUndefined, wallet = JStr ''0xw'', v2PairAddr = JStr ''pair'',
      v3PoolAddr = JUndefined, fallbackTokens = [JStr ''0xt''], neededBalance = None,
      flashCandidates = []\<rparr>"

text \<open>The verdict of that run: every guard passes; the pair of the sample parameters is
  not in \<open>sample_world\<close>, so the pool state is \<open>null\<close>.\<close>

definition passing_slip :: slip_verdict where
  "passing_slip = \<lparr>slip_ok = True, slippageBps = Fin 100, maxSlippageBps = Fin 100,
     slip_reason = None\<rparr>"

definition passing_profit :: profit_verdict where
  "passing_profit = \<lparr>pt_ok = True, pt_reason = None, pt_profitUsd = Some (Fin 50),
     pt_notionalUsd = Some (Fin 1000), pt_profitBps = Some (Fin 500),
     pt_thresholdBps = Some (Fin 100), pt_thresholdUsd = Some (Fin 0)\<rparr>"

definition passing_gas :: gas_verdict where
  "passing_gas = \<lparr>gas_ok = True, gas_reason = None, gas_hint = None,
     gas_gasLimit = Some (JBig 210000), gas_maxFeePerGas = Some (JBig 50000000000),
     gas_maxPriorityFeePerGas = Some (JBig 2000000000), gas_gasPrice = None\<rparr>"

definition passing_verdict :: verdict where
  "passing_verdict =
     \<lparr>ok = True, reason = None,
      details = DAll passing_slip passing_profit passing_gas None
        (Some \<lparr>fb_ok = True, fb_token = Some (JStr ''0xt''),
           fb_balance = Some (JBig 1000000000000000000)\<rparr>)
        \<lparr>locked = Fin (75 / 2), leftover = Fin (25 / 2)\<rparr>,
      trace = [(''cooldown'', Fin 0), (''mev'', Fin 0), (''slippage'', Fin 0), (''profit'', Fin 0),
        (''gas'', Fin 0), (''walletBalance'', Fin 0), (''flashLoan'', Fin 0),
        (''poolState'', Fin 0), (''fallback'', Fin 0), (''lock'', Fin 0)]\<rparr>"

section \<open>Rounding is exact on small integers\<close>

lemma bits_nonneg: "0 \<le> bits n"
proof (induction n rule: bits.induct)
  case (1 n)
  show ?case by (subst bits.simps) (use 1 in auto)
qed

lemma bits_pos: "0 < n \<Longrightarrow> 1 \<le> bits n"
  using bits_nonneg [of "n div 2"] by (subst bits.simps) simp

lemma bits_one: "bits 1 = 1"
  by (subst bits.simps, subst bits.simps) simp

lemma bits_bounds: "0 < n \<Longrightarrow> 2 ^ nat (bits n - 1) \<le> n \<and> n < 2 ^ nat (bits n)"
proof (induction n rule: bits.induct)
  case (1 n)
  show ?case
  proof (cases "n = 1")
    case True
    with bits_one show ?thesis by simp
  next
    case False
    with "1.prems" have h: "0 < n div 2" by simp
    have b: "bits n = 1 + bits (n div 2)" using "1.prems" by (subst bits.simps) simp
    from "1.IH" h "1.prems"
    have ih: "2 ^ nat (bits (n div 2) - 1) \<le> n div 2" "n div 2 < 2 ^ nat (bits (n div 2))"
      by auto
    have p: "1 \<le> bits (n div 2)" using bits_pos h by simp
    have e1: "nat (bits n - 1) = Suc (nat (bits (n div 2) - 1))" using b p by simp
    have e2: "nat (bits n) = Suc (nat (bits (n div 2)))" using b p by simp
    show ?thesis unfolding e1 e2 using ih by auto
  qed
qed

lemma bits_le_53:
  assumes "0 < n" "n < 2 ^ 53"
  shows "bits n \<le> 53"
proof (rule ccontr)
  assume "\<not> bits n \<le> 53"
  then have "53 \<le> nat (bits n - 1)" by simp
  then have "(2::int) ^ 53 \<le> 2 ^ nat (bits n - 1)" by (rule power_increasing) simp
  with bits_bounds [OF assms(1)] assms(2) show False by simp
qed

lemma ilog2_of_int:
  assumes "0 < n"
  shows "ilog2 (of_int n) = bits n - 1"
proof -
  have q: "quotient_of (of_int n) = (n, 1)"
    using quotient_of_int [of n] by (simp add: Rat.of_int_def)
  have p: "0 \<le> bits n - 1" using bits_pos [OF assms] by simp
  have "(2::int) ^ nat (bits n - 1) \<le> n" using bits_bounds [OF assms] by simp
  then have "(of_int ((2::int) ^ nat (bits n - 1)) :: rat) \<le> of_int n"
    by (simp only: of_int_le_iff)
  then have "pow2 (bits n - 1) \<le> of_int n" using p by (simp add: pow2_def)
  then show ?thesis by (simp add: ilog2_def q bits_one Let_def)
qed

lemma round_ties_even_of_int: "round_ties_even (of_int k) = k"
  by (simp add: round_ties_even_def Let_def)

lemma to_double_of_pos_int:
  assumes "0 < n" "n < 2 ^ 53"
  shows "to_double (of_int n) = Fin (of_int n)"
proof -
  define e where "e = bits n - 1"
  have e0: "0 \<le> e" "e \<le> 52"
    using bits_pos [OF assms(1)] bits_le_53 [OF assms] by (simp_all add: e_def)
  have il: "ilog2 \<bar>of_int n\<bar> = e"
    using assms(1) ilog2_of_int [OF assms(1)] by (simp add: e_def)
  have mx: "max e (- 1022) = e" using e0 by simp
  define k where "k = nat (52 - e)"
  have q: "pow2 (e - 52) = 1 / 2 ^ k"
    using e0 by (cases "e = 52") (auto simp: pow2_def k_def)
  have d: "\<bar>of_int n\<bar> / pow2 (e - 52) = (of_int (n * 2 ^ k) :: rat)"
    using assms(1) by (simp add: q)
  have r: "round_ties_even (\<bar>of_int n\<bar> / pow2 (e - 52)) = n * 2 ^ k"
    unfolding d by (rule round_ties_even_of_int)
  have ne: "(of_int n :: rat) \<noteq> 0" "\<not> (of_int n :: rat) < 0" using assms(1) by simp_all
  have ov: "\<not> (1024 \<le> e \<or> (e = 1023 \<and> 9007199254740992 \<le> n * 2 ^ k))" using e0 by simp
  show ?thesis
    unfolding to_double_def Let_def il mx r using ne ov by (simp add: q)
qed

lemma to_double_neg: "to_double (- x) = num_neg (to_double x)"
proof -
  define a where "a = \<bar>x\<bar>"
  have 1: "\<bar>- x\<bar> = a" "\<bar>x\<bar> = a" by (simp_all add: a_def)
  show ?thesis unfolding to_double_def Let_def 1 by (auto simp: num_neg_def)
qed

lemma to_double_of_int:
  assumes "\<bar>n\<bar> < 2 ^ 53"
  shows "to_double (of_int n) = Fin (of_int n)"
proof -
  consider "n = 0" | "0 < n" | "n < 0" by linarith
  then show ?thesis
  proof cases
    case 1
    then show ?thesis by (simp add: to_double_def)
  next
    case 2
    with assms show ?thesis by (simp add: to_double_of_pos_int)
  next
    case 3
    with assms have "to_double (of_int (- n)) = Fin (of_int (- n))"
      by (intro to_double_of_pos_int) simp_all
    then have "to_double (- of_int n) = Fin (- of_int n)" by simp
    then show ?thesis by (simp add: to_double_neg num_neg_def split: number.splits)
  qed
qed

lemma num_of_int_exact: "\<bar>n\<bar> < 2 ^ 53 \<Longrightarrow> num_of_int n = Fin (of_int n)"
  by (simp add: num_of_int_def to_double_of_int)

subsection \<open>The slippage guard\<close>

lemma js_le_big: "js_le cfg (JBig a) (JBig b) = (a \<le> b)"
  by (auto simp: js_le_def js_lessThan_def to_numeric_def)

lemma js_gt_big: "js_gt cfg (JBig a) (JBig b) = (b < a)"
  by (auto simp: js_gt_def js_lessThan_def to_numeric_def)

lemma js_sub_big: "js_sub cfg (JBig a) (JBig b) = Inr (JBig (a - b))"
  by (simp add: js_sub_def to_numeric_def)

lemma js_mul_big: "js_mul cfg (JBig a) (JBig b) = Inr (JBig (a * b))"
  by (simp add: js_mul_def to_numeric_def)

lemma js_div_big:
  "js_div cfg (JBig a) (JBig b) = (case bigint_div a b of Inl e \<Rightarrow> Inl e | Inr q \<Rightarrow> Inr (JBig q))"
  by (simp add: js_div_def to_numeric_def)

lemma bigint_div_nonneg: "0 \<le> a \<Longrightarrow> 0 < b \<Longrightarrow> bigint_div a b = Inr (a div b)"
  by (cases "a = 0") (simp_all add: bigint_div_def)

lemma slippage_quotient_bounds:
  assumes "0 < e" "0 \<le> m" "m \<le> (e::int)"
  shows "0 \<le> (e - m) * 10000 div e" "(e - m) * 10000 div e \<le> 10000"
proof -
  show "0 \<le> (e - m) * 10000 div e" using assms by (simp add: pos_imp_zdiv_nonneg_iff)
  have "(e - m) * 10000 \<le> 10000 * e" using assms by simp
  then have "(e - m) * 10000 div e \<le> 10000 * e div e" by (rule zdiv_mono1) (use assms in simp)
  then show "(e - m) * 10000 div e \<le> 10000" using assms by simp
qed

text \<open>
  Claim C2. On BigInt amounts with \<open>0 < expectedOut\<close> and \<open>0 \<le> minOut \<le> expectedOut\<close>,
  \<open>validateSlippage\<close> returns \<open>slippageBps = \<lfloor>(expectedOut - minOut) * 10000 / expectedOut\<rfloor>\<close>
  (the BigInt quotient, at most 10000, converts to a Number exactly) and \<open>ok\<close> is the
  comparison \<open>slippageBps \<le> MAX_SLIPPAGE_BPS\<close>, which includes equality. A non-positive
  \<open>expectedOut\<close> fails with reason \<open>expectedOut<=0\<close>; otherwise a \<open>minOut\<close> above
  \<open>expectedOut\<close> fails with reason \<open>minOut>expectedOut\<close>.
\<close>

theorem validateSlippage_bigint:
  "(e \<le> 0 \<longrightarrow>
      validateSlippage cfg (JBig e) (JBig m) =
        Inr \<lparr>slip_ok = False, slippageBps = Fin 10000, maxSlippageBps = MAX_SLIPPAGE_BPS cfg,
             slip_reason = Some ''expectedOut<=0''\<rparr>) \<and>
   (0 < e \<and> e < m \<longrightarrow>
      validateSlippage cfg (JBig e) (JBig m) =
        Inr \<lparr>slip_ok = False, slippageBps = Fin 10000, maxSlippageBps = MAX_SLIPPAGE_BPS cfg,
             slip_reason = Some ''minOut>expectedOut''\<rparr>) \<and>
   (0 < e \<and> 0 \<le> m \<and> m \<le> e \<longrightarrow>
      validateSlippage cfg (JBig e) (JBig m) =
        Inr \<lparr>slip_ok = num_le (Fin (of_int ((e - m) * 10000 div e))) (MAX_SLIPPAGE_BPS cfg),
             slippageBps = Fin (of_int ((e - m) * 10000 div e)),
             maxSlippageBps = MAX_SLIPPAGE_BPS cfg, slip_reason = None\<rparr>) \<and>
   (\<forall>q c. num_le (Fin q) (Fin c) = (q \<le> c))"
proof (intro conjI impI allI)
  assume "e \<le> 0"
  then show "validateSlippage cfg (JBig e) (JBig m) =
        Inr \<lparr>slip_ok = False, slippageBps = Fin 10000, maxSlippageBps = MAX_SLIPPAGE_BPS cfg,
             slip_reason = Some ''expectedOut<=0''\<rparr>"
    by (simp add: validateSlippage_def js_le_big)
next
  assume "0 < e \<and> e < m"
  then show "validateSlippage cfg (JBig e) (JBig m) =
        Inr \<lparr>slip_ok = False, slippageBps = Fin 10000, maxSlippageBps = MAX_SLIPPAGE_BPS cfg,
             slip_reason = Some ''minOut>expectedOut''\<rparr>"
    by (simp add: validateSlippage_def js_le_big js_gt_big)
next
  assume h: "0 < e \<and> 0 \<le> m \<and> m \<le> e"
  define p where "p = (e - m) * 10000"
  define q where "q = p div e"
  have qe: "(e - m) * 10000 div e = q" by (simp add: q_def p_def)
  have b: "0 \<le> q" "q \<le> 10000"
    using slippage_quotient_bounds [of e m] h unfolding qe by blast+
  have s1: "js_sub cfg (JBig e) (JBig m) = Inr (JBig (e - m))" by (rule js_sub_big)
  have s2: "js_mul cfg (JBig (e - m)) (JBig 10000) = Inr (JBig p)"
    unfolding p_def by (rule js_mul_big)
  have "bigint_div p e = Inr q"
    unfolding q_def by (rule bigint_div_nonneg) (use h in \<open>simp_all add: p_def\<close>)
  then have s3: "js_div cfg (JBig p) (JBig e) = Inr (JBig q)" by (simp add: js_div_big)
  have n: "Number cfg (JBig q) = Fin (of_int q)"
    using b by (simp add: Number_def to_numeric_def num_of_int_exact)
  have c: "\<not> js_le cfg (JBig e) (JBig 0)" "\<not> js_gt cfg (JBig m) (JBig e)"
    using h by (simp_all add: js_le_big js_gt_big)
  show "validateSlippage cfg (JBig e) (JBig m) =
        Inr \<lparr>slip_ok = num_le (Fin (of_int ((e - m) * 10000 div e))) (MAX_SLIPPAGE_BPS cfg),
             slippageBps = Fin (of_int ((e - m) * 10000 div e)),
             maxSlippageBps = MAX_SLIPPAGE_BPS cfg, slip_reason = None\<rparr>"
    unfolding qe validateSlippage_def using c by (simp add: and_then_def s1 s2 s3 n Let_def)
next
  fix q c show "num_le (Fin q) (Fin c) = (q \<le> c)" by (auto simp: num_le_def)
qed

theorem validateSlippage_bigint_witness:
  "validateSlippage sample_config (JBig 1000) (JBig 990) =
     Inr \<lparr>slip_ok = True, slippageBps = Fin 100, maxSlippageBps = Fin 100, slip_reason = None\<rparr> \<and>
   validateSlippage sample_config (JBig 1000) (JBig 900) =
     Inr \<lparr>slip_ok = False, slippageBps = Fin 1000, maxSlippageBps = Fin 100, slip_reason = None\<rparr> \<and>
   validateSlippage sample_config (JBig 0) (JBig 5) =
     Inr \<lparr>slip_ok = False, slippageBps = Fin 10000, maxSlippageBps = Fin 100,
          slip_reason = Some ''expectedOut<=0''\<rparr> \<and>
   validateSlippage sample_config (JBig 5) (JBig 7) =
     Inr \<lparr>slip_ok = False, slippageBps = Fin 10000, maxSlippageBps = Fin 100,
          slip_reason = Some ''minOut>expectedOut''\<rparr>"
  using validateSlippage_bigint [of 1000 sample_config 990]
    validateSlippage_bigint [of 1000 sample_config 900]
    validateSlippage_bigint [of 0 sample_config 5]
    validateSlippage_bigint [of 5 sample_config 7]
  by (simp add: sample_config_def)

subsection \<open>The cooldown guard\<close>

lemma Date_now_simps:
  "fst (Date_now s) = Fin (of_int (clock s (ticks s)))"
  "snd (Date_now s) = s\<lparr>ticks := Suc (ticks s)\<rparr>"
  by (simp_all add: Date_now_def)

lemma num_sub_self: "num_sub (Fin x) (Fin x) = Fin 0"
  by (simp add: num_sub_def num_neg_def to_double_def)

text \<open>
  Claim C8. With \<open>now\<close> the clock reading and \<open>last\<close> the stored timestamp of the key (0 when
  there is none), \<open>enforceCooldown\<close> returns \<open>ok = false\<close> with
  \<open>msRemaining = window - (now - last)\<close> exactly when \<open>now - last < window\<close>, and then leaves
  the map of timestamps unchanged; otherwise it stores \<open>now\<close> under the key and returns
  \<open>ok = true\<close>. A call that passes, followed by a call for the same key at the same clock
  reading, is followed by \<open>ok = false\<close> with \<open>msRemaining = window - 0\<close>, for a positive window.
\<close>

theorem enforceCooldown_check_then_set:
  "(let now = Fin (of_int (clock s (ticks s)));
        elapsed = num_sub now (last_action s key);
        window = COOLDOWN_MS cfg
    in (num_lt elapsed window \<longrightarrow>
          enforceCooldown cfg key s =
            (\<lparr>cd_ok = False, msRemaining = Some (num_sub window elapsed)\<rparr>,
             s\<lparr>ticks := Suc (ticks s)\<rparr>)) \<and>
       (\<not> num_lt elapsed window \<longrightarrow>
          enforceCooldown cfg key s =
            (\<lparr>cd_ok = True, msRemaining = None\<rparr>,
             s\<lparr>ticks := Suc (ticks s), lastActionAt := (lastActionAt s)(key \<mapsto> now)\<rparr>)) \<and>
       (\<not> cd_ok (fst (enforceCooldown cfg key s)) \<longleftrightarrow> num_lt elapsed window) \<and>
       (\<not> cd_ok (fst (enforceCooldown cfg key s)) \<longrightarrow>
          lastActionAt (snd (enforceCooldown cfg key s)) = lastActionAt s) \<and>
       (cd_ok (fst (enforceCooldown cfg key s)) \<and>
        clock s (Suc (ticks s)) = clock s (ticks s) \<and> num_lt (Fin 0) window \<longrightarrow>
          fst (enforceCooldown cfg key (snd (enforceCooldown cfg key s))) =
            \<lparr>cd_ok = False, msRemaining = Some (num_sub window (Fin 0))\<rparr> \<and>
          lastActionAt (snd (enforceCooldown cfg key (snd (enforceCooldown cfg key s)))) =
            lastActionAt (snd (enforceCooldown cfg key s))))"
proof -
  define now where "now = Fin (of_int (clock s (ticks s)))"
  define elapsed where "elapsed = num_sub now (last_action s key)"
  define window where "window = COOLDOWN_MS cfg"
  define s1 where "s1 = s\<lparr>ticks := Suc (ticks s)\<rparr>"
  have la: "last_action s1 key = last_action s key" by (simp add: last_action_def s1_def)
  have fail: "enforceCooldown cfg key s =
      (\<lparr>cd_ok = False, msRemaining = Some (num_sub window elapsed)\<rparr>, s1)"
    if "num_lt elapsed window"
    using that la
    by (simp add: enforceCooldown_def Date_now_def Let_def now_def elapsed_def window_def s1_def)
  have pass: "enforceCooldown cfg key s =
      (\<lparr>cd_ok = True, msRemaining = None\<rparr>, s1\<lparr>lastActionAt := (lastActionAt s)(key \<mapsto> now)\<rparr>)"
    if "\<not> num_lt elapsed window"
    using that la
    by (simp add: enforceCooldown_def Date_now_def Let_def now_def elapsed_def window_def s1_def)
  have iff: "\<not> cd_ok (fst (enforceCooldown cfg key s)) \<longleftrightarrow> num_lt elapsed window"
    using fail pass by (cases "num_lt elapsed window") simp_all
  have keep: "lastActionAt (snd (enforceCooldown cfg key s)) = lastActionAt s"
    if "\<not> cd_ok (fst (enforceCooldown cfg key s))"
    using that iff fail by (simp add: s1_def)
  have twice: "fst (enforceCooldown cfg key (snd (enforceCooldown cfg key s))) =
            \<lparr>cd_ok = False, msRemaining = Some (num_sub window (Fin 0))\<rparr> \<and>
          lastActionAt (snd (enforceCooldown cfg key (snd (enforceCooldown cfg key s)))) =
            lastActionAt (snd (enforceCooldown cfg key s))"
    if h: "cd_ok (fst (enforceCooldown cfg key s)) \<and>
        clock s (Suc (ticks s)) = clock s (ticks s) \<and> num_lt (Fin 0) window"
  proof -
    define s2 where "s2 = s1\<lparr>lastActionAt := (lastActionAt s)(key \<mapsto> now)\<rparr>"
    from h iff have "\<not> num_lt elapsed window" by blast
    then have e1: "enforceCooldown cfg key s = (\<lparr>cd_ok = True, msRemaining = None\<rparr>, s2)"
      using pass by (simp add: s2_def)
    have now2: "Fin (of_int (clock s2 (ticks s2))) = now"
      using h by (simp add: s2_def s1_def now_def)
    have l2: "last_action (s2\<lparr>ticks := Suc (ticks s2)\<rparr>) key = now"
      by (auto simp: last_action_def s2_def s1_def truthy_def now_def)
    have el: "num_sub now now = Fin 0" by (simp add: now_def num_sub_self)
    have "enforceCooldown cfg key s2 =
      (\<lparr>cd_ok = False, msRemaining = Some (num_sub window (Fin 0))\<rparr>, s2\<lparr>ticks := Suc (ticks s2)\<rparr>)"
      using h l2 el now2
      by (simp add: enforceCooldown_def Date_now_def Let_def window_def)
    then show ?thesis by (simp add: e1)
  qed
  show ?thesis
    unfolding Let_def now_def [symmetric] elapsed_def [symmetric] window_def [symmetric]
    using fail pass iff keep twice by (simp add: s1_def)
qed

lemma to_double_numeral:
  "(numeral k :: int) < 9007199254740992 \<Longrightarrow> to_double (numeral k) = Fin (numeral k)"
  using to_double_of_int [of "numeral k"] by simp

lemma to_double_zero: "to_double 0 = Fin 0"
  by (simp add: to_double_def)

lemmas num_eval = num_sub_def num_neg_def num_lt_def num_le_def num_gt_def num_ge_def
  to_double_numeral to_double_zero

lemma sample_config_fields:
  "PROFIT_THRESHOLD_BPS sample_config = Fin 100"
  "PROFIT_THRESHOLD_USD sample_config = Fin 0"
  "COOLDOWN_MS sample_config = Fin 3000"
  "MAX_SLIPPAGE_BPS sample_config = Fin 100"
  "HIGH_GAS_WEI sample_config = 300000000000"
  "GAS_LIMIT_MAX sample_config = 2000000"
  "MEV_LOOKBACK_MS sample_config = Fin 10000"
  "FLASH_FALLBACK_TOKENS sample_config = []"
  "AAVE_LOAN sample_config = False"
  "BAL_LOAN sample_config = False"
  "ZeroAddress sample_config = ''0x0000000000000000000000000000000000000000''"
  by (simp_all add: sample_config_def)

lemma fresh_state_fields:
  "lastActionAt fresh_state = Map.empty"
  "clock fresh_state = (\<lambda>n. 1700000000000)"
  "ticks fresh_state = 0"
  "mev_file fresh_state = Absent"
  "mev_writable fresh_state = True"
  "calls fresh_state = []"
  "rotations fresh_state = 0"
  by (simp_all add: fresh_state_def)

theorem enforceCooldown_check_then_set_witness:
  "fst (enforceCooldown sample_config (JStr ''r'') fresh_state) = \<lparr>cd_ok = True, msRemaining = None\<rparr> \<and>
   lastActionAt (snd (enforceCooldown sample_config (JStr ''r'') fresh_state)) (JStr ''r'')
     = Some (Fin 1700000000000) \<and>
   fst (enforceCooldown sample_config (JStr ''r'')
          (snd (enforceCooldown sample_config (JStr ''r'') fresh_state)))
     = \<lparr>cd_ok = False, msRemaining = Some (Fin 3000)\<rparr> \<and>
   enforceCooldown sample_config (JStr ''r'')
      (fresh_state\<lparr>lastActionAt := [JStr ''r'' \<mapsto> Fin 1699999999000]\<rparr>)
     = (\<lparr>cd_ok = False, msRemaining = Some (Fin 2000)\<rparr>,
        fresh_state\<lparr>lastActionAt := [JStr ''r'' \<mapsto> Fin 1699999999000], ticks := 1\<rparr>)"
proof -
  let ?k = "JStr ''r''"
  let ?c = "fresh_state\<lparr>lastActionAt := [?k \<mapsto> Fin 1699999999000]\<rparr>"
  note t1 = enforceCooldown_check_then_set [of fresh_state ?k sample_config, unfolded Let_def]
  note t2 = enforceCooldown_check_then_set [of ?c ?k sample_config, unfolded Let_def]
  have r1: "enforceCooldown sample_config ?k fresh_state =
      (\<lparr>cd_ok = True, msRemaining = None\<rparr>,
       fresh_state\<lparr>ticks := Suc (ticks fresh_state),
         lastActionAt := (lastActionAt fresh_state)(?k \<mapsto> Fin 1700000000000)\<rparr>)"
    using t1 [THEN conjunct2, THEN conjunct1]
    by (simp add: fresh_state_fields sample_config_fields last_action_def num_eval)
  have a: "fst (enforceCooldown sample_config ?k fresh_state) = \<lparr>cd_ok = True, msRemaining = None\<rparr>"
    by (simp add: r1)
  have b: "lastActionAt (snd (enforceCooldown sample_config ?k fresh_state)) ?k
     = Some (Fin 1700000000000)"
    by (simp add: r1)
  have h: "cd_ok (fst (enforceCooldown sample_config ?k fresh_state)) \<and>
      clock fresh_state (Suc (ticks fresh_state)) = clock fresh_state (ticks fresh_state) \<and>
      num_lt (Fin 0) (COOLDOWN_MS sample_config)"
    by (simp add: a fresh_state_fields sample_config_fields num_eval)
  have w: "num_sub (COOLDOWN_MS sample_config) (Fin 0) = Fin 3000"
    by (simp add: sample_config_fields num_eval)
  have c: "fst (enforceCooldown sample_config ?k (snd (enforceCooldown sample_config ?k fresh_state)))
     = \<lparr>cd_ok = False, msRemaining = Some (Fin 3000)\<rparr>"
    using t1 [THEN conjunct2, THEN conjunct2, THEN conjunct2, THEN conjunct2] h
    unfolding w by blast
  have d: "enforceCooldown sample_config ?k ?c
     = (\<lparr>cd_ok = False, msRemaining = Some (Fin 2000)\<rparr>,
        fresh_state\<lparr>lastActionAt := [?k \<mapsto> Fin 1699999999000], ticks := 1\<rparr>)"
    using t2 [THEN conjunct1]
    by (simp add: fresh_state_fields sample_config_fields last_action_def truthy_def num_eval)
  show ?thesis by (rule conjI [OF a conjI [OF b conjI [OF c d]]])
qed

subsection \<open>The MEV risk guard\<close>



lemma and_then_Inr: "and_then (Inr v) f = f v"
  by (simp add: and_then_def)

lemma stringify_plain:
  "json_plain j \<Longrightarrow> JSON_stringify j = Inr (Some j)"
  "plain_elements es \<Longrightarrow> stringify_elements es = Inr es"
  "plain_members kvs \<Longrightarrow> stringify_members kvs = Inr kvs"
proof (induction j and es and kvs rule: JSON_stringify_stringify_elements_stringify_members.induct)
  case (1 v)
  then show ?case by (cases v) simp_all
qed (simp_all add: and_then_Inr)

lemma plain_elements_iff: "plain_elements es \<longleftrightarrow> (\<forall>e \<in> set es. json_plain e)"
  by (induction es) simp_all

lemma write_mev_file_plain:
  assumes "\<forall>e \<in> set keep. json_plain e"
  shows "write_mev_file keep s = (if mev_writable s then s\<lparr>mev_file := Content (JArr keep)\<rparr> else s)"
  using assms by (simp add: write_mev_file_def stringify_plain plain_elements_iff and_then_Inr)









subsection \<open>The direct-USD profit guard\<close>

lemma Number_or_zero_Fin: "Number cfg (js_or (JNum (Fin x)) (JNum (Fin 0))) = Fin x"
  by (simp add: Number_def js_or_def truthy_def to_numeric_def)

lemma Number_or_zero_NaN: "Number cfg (js_or (JNum NaN) (JNum (Fin 0))) = Fin 0"
  by (simp add: Number_def js_or_def truthy_def to_numeric_def)

lemma Number_or_zero_Inf:
  "Number cfg (js_or (JNum PInf) (JNum (Fin 0))) = PInf"
  "Number cfg (js_or (JNum NInf) (JNum (Fin 0))) = NInf"
  by (simp_all add: Number_def js_or_def truthy_def to_numeric_def)

text \<open>
  On finite Numbers the guard passes exactly when the profit reaches the USD threshold and
  the basis-point figure \<open>\<lfloor>profit / notional * 10000\<rfloor>\<close>, computed in double arithmetic and 0 for
  a notional that is not positive, reaches the bps threshold.
\<close>

lemma meetsProfitThresholdUSD_finite:
  "meetsProfitThresholdUSD cfg (JNum (Fin p)) (JNum (Fin n)) =
     (let bps = (if 0 < n then math_floor (num_mul (num_div (Fin p) (Fin n)) (Fin 10000))
                 else Fin 0)
      in \<lparr>pt_ok = (num_ge (Fin p) (PROFIT_THRESHOLD_USD cfg) \<and> num_ge bps (PROFIT_THRESHOLD_BPS cfg)),
          pt_reason = None, pt_profitUsd = Some (Fin p), pt_notionalUsd = Some (Fin n),
          pt_profitBps = Some bps, pt_thresholdBps = Some (PROFIT_THRESHOLD_BPS cfg),
          pt_thresholdUsd = Some (PROFIT_THRESHOLD_USD cfg)\<rparr>)"
  by (simp add: meetsProfitThresholdUSD_def Number_or_zero_Fin Let_def is_finite_def num_gt_def)

lemma meetsProfitThresholdUSD_infinite:
  "a \<in> {PInf, NInf} \<or> b \<in> {PInf, NInf} \<Longrightarrow> a \<noteq> NaN \<Longrightarrow> b \<noteq> NaN \<Longrightarrow>
   meetsProfitThresholdUSD cfg (JNum a) (JNum b) = profit_failure ''invalidInputs''"
  by (cases a; cases b)
    (auto simp: meetsProfitThresholdUSD_def Number_def js_or_def truthy_def to_numeric_def
      is_finite_def Let_def)

text \<open>
  Claim C5 says that a \<open>NaN\<close> input fails with reason \<open>invalidInputs\<close>. The guard coerces
  its inputs with \<^verbatim>\<open>Number(x || 0)\<close> before it tests them with \<^verbatim>\<open>Number.isFinite\<close>, and
  \<open>NaN\<close> is falsy: a \<open>NaN\<close> profit is assessed as a profit of 0, with no reason reported,
  and passes the guard when the thresholds are 0.
\<close>

theorem meetsProfitThresholdUSD_NaN_not_rejected:
  "meetsProfitThresholdUSD sample_config (JNum NaN) (JNum (Fin 100)) =
     \<lparr>pt_ok = False, pt_reason = None, pt_profitUsd = Some (Fin 0),
      pt_notionalUsd = Some (Fin 100), pt_profitBps = Some (Fin 0),
      pt_thresholdBps = Some (Fin 100), pt_thresholdUsd = Some (Fin 0)\<rparr> \<and>
   meetsProfitThresholdUSD (sample_config\<lparr>PROFIT_THRESHOLD_BPS := Fin 0\<rparr>) (JNum NaN) (JNum NaN) =
     \<lparr>pt_ok = True, pt_reason = None, pt_profitUsd = Some (Fin 0),
      pt_notionalUsd = Some (Fin 0), pt_profitBps = Some (Fin 0),
      pt_thresholdBps = Some (Fin 0), pt_thresholdUsd = Some (Fin 0)\<rparr>"
  by (simp add: meetsProfitThresholdUSD_def Number_or_zero_NaN Number_or_zero_Fin Let_def
      is_finite_def sample_config_fields num_eval num_div_def num_mul_def math_floor_def)

theorem meetsProfitThresholdUSD_NaN_not_rejected_witness:
  "pt_reason (meetsProfitThresholdUSD sample_config (JNum NaN) (JNum (Fin 100))) = None \<and>
   pt_ok (meetsProfitThresholdUSD (sample_config\<lparr>PROFIT_THRESHOLD_BPS := Fin 0\<rparr>)
            (JNum NaN) (JNum NaN))"
  using meetsProfitThresholdUSD_NaN_not_rejected by simp

section \<open>Rounding error of the conversion to a double\<close>

lemma pow2_powi: "pow2 e = 2 powi e"
  by (simp add: pow2_def power_int_def field_simps)

lemma pow2_pos: "0 < pow2 e"
  by (simp add: pow2_powi)

lemma pow2_add: "pow2 (a + b) = pow2 a * pow2 b"
  by (simp add: pow2_powi power_int_add)

lemma pow2_diff: "pow2 (a - b) = pow2 a / pow2 b"
  by (simp add: pow2_powi power_int_diff)

lemma pow2_mono: "a \<le> b \<Longrightarrow> pow2 a \<le> pow2 b"
  by (simp add: pow2_powi power_int_increasing)

lemma pow2_strict_mono: "a < b \<Longrightarrow> pow2 a < pow2 b"
  by (simp add: pow2_powi power_int_strict_increasing)

lemma pow2_nat: "0 \<le> e \<Longrightarrow> pow2 e = of_int (2 ^ nat e)"
  by (simp add: pow2_def)

lemma ilog2_bounds:
  assumes "0 < x"
  shows "pow2 (ilog2 x) \<le> x \<and> x < pow2 (ilog2 x + 1)"
proof -
  obtain p q where pq: "quotient_of x = (p, q)" by force
  have q0: "0 < q" using quotient_of_denom_pos [OF pq] .
  have x: "x = of_int p / of_int q" using quotient_of_div [OF pq] .
  have p0: "0 < p" using assms q0 by (simp add: x zero_less_divide_iff)
  define d where "d = bits p - bits q"
  have bp: "pow2 (bits p - 1) \<le> of_int p" "of_int p < pow2 (bits p)"
    using bits_bounds [OF p0] bits_pos [OF p0]
    by (simp_all add: pow2_nat del: of_int_power)
  have bq: "pow2 (bits q - 1) \<le> of_int q" "of_int q < pow2 (bits q)"
    using bits_bounds [OF q0] bits_pos [OF q0]
    by (simp_all add: pow2_nat del: of_int_power)
  have qr: "(0::rat) < of_int q" using q0 by simp
  have up: "x < pow2 (d + 1)"
  proof -
    have "x < pow2 (bits p) / of_int q" unfolding x using bp(2) qr by (simp add: divide_strict_right_mono)
    also have "\<dots> \<le> pow2 (bits p) / pow2 (bits q - 1)"
      using bq(1) pow2_pos [of "bits p"] pow2_pos [of "bits q - 1"] by (simp add: frac_le)
    also have "\<dots> = pow2 (d + 1)" by (simp add: d_def pow2_diff [symmetric] algebra_simps)
    finally show ?thesis .
  qed
  have lo: "pow2 (d - 1) < x"
  proof -
    have "pow2 (d - 1) = pow2 (bits p - 1) / pow2 (bits q)"
      by (simp add: d_def pow2_diff [symmetric] algebra_simps)
    also have "\<dots> < pow2 (bits p - 1) / of_int q"
      using bq(2) pow2_pos [of "bits p - 1"] qr by (simp add: frac_less2)
    also have "\<dots> \<le> x" unfolding x using bp(1) qr by (simp add: divide_right_mono)
    finally show ?thesis .
  qed
  have il: "ilog2 x = (if pow2 d \<le> x then d else d - 1)"
    by (simp add: ilog2_def pq d_def Let_def)
  show ?thesis
  proof (cases "pow2 d \<le> x")
    case True
    then show ?thesis using up by (simp add: il)
  next
    case False
    then show ?thesis using lo by (simp add: il)
  qed
qed

lemma ilog2_less: "0 < x \<Longrightarrow> x < pow2 k \<Longrightarrow> ilog2 x < k"
  using ilog2_bounds [of x] pow2_mono [of k "ilog2 x"] by (cases "ilog2 x < k") auto

lemma ilog2_ge: "0 < x \<Longrightarrow> pow2 k \<le> x \<Longrightarrow> k \<le> ilog2 x"
  using ilog2_bounds [of x] pow2_mono [of "ilog2 x + 1" k] by (cases "k \<le> ilog2 x") auto

lemma round_ties_even_nonneg: "0 \<le> z \<Longrightarrow> 0 \<le> round_ties_even z"
  by (auto simp: round_ties_even_def Let_def)

lemma round_ties_even_le: 
  assumes "z \<le> of_int N" shows "round_ties_even z \<le> N"
proof -
  have f: "\<lfloor>z\<rfloor> \<le> N" using assms by (simp add: floor_le_iff) 
  show ?thesis
  proof (cases "z = of_int \<lfloor>z\<rfloor>")
    case True
    then have "z - of_int \<lfloor>z\<rfloor> = 0" by simp
    then show ?thesis using f by (simp add: round_ties_even_def Let_def)
  next
    case False
    then have "of_int \<lfloor>z\<rfloor> < z" using of_int_floor_le [of z] by linarith
    with assms have "(of_int \<lfloor>z\<rfloor> :: rat) < of_int N" by linarith
    then have "\<lfloor>z\<rfloor> < N" by (simp only: of_int_less_iff)
    then show ?thesis by (auto simp: round_ties_even_def Let_def)
  qed
qed

lemma to_double_exact:
  assumes "0 < x" "- 1022 \<le> ilog2 x" "ilog2 x \<le> 1023"
    and "x / pow2 (ilog2 x - 52) = of_int m"
  shows "to_double x = Fin x"
proof -
  have mx: "max (ilog2 x) (- 1022) = ilog2 x" using assms(2) by simp
  have r: "round_ties_even (x / pow2 (ilog2 x - 52)) = m"
    using assms(4) by (simp add: round_ties_even_of_int)
  have v: "of_int m * pow2 (ilog2 x - 52) = x"
    using assms(4) pow2_pos [of "ilog2 x - 52"] by (simp add: field_simps)
  have "x < pow2 (ilog2 x + 1)" using ilog2_bounds [OF assms(1)] by simp
  then have "x / pow2 (ilog2 x - 52) < pow2 (ilog2 x + 1) / pow2 (ilog2 x - 52)"
    using pow2_pos [of "ilog2 x - 52"] by (simp add: divide_strict_right_mono)
  also have "\<dots> = pow2 53" by (simp add: pow2_diff [symmetric])
  finally have "(of_int m :: rat) < of_int 9007199254740992"
    using assms(4) by (simp add: pow2_def)
  then have m: "m < 9007199254740992" by (simp only: of_int_less_iff)
  have a: "\<bar>x\<bar> = x" "x \<noteq> 0" "\<not> x < 0" using assms(1) by simp_all
  have ov: "\<not> (1024 \<le> ilog2 x \<or> (ilog2 x = 1023 \<and> 9007199254740992 \<le> m))"
    using assms(3) m by simp
  show ?thesis
    unfolding to_double_def Let_def a mx r v using a ov by simp
qed

lemma to_double_quarters:
  assumes "0 \<le> k" "k < 2 ^ 53"
  shows "to_double (of_int k / 4) = Fin (of_int k / 4)"
proof (cases "k = 0")
  case True
  then show ?thesis by (simp add: to_double_def)
next
  case False
  define x :: rat where "x = of_int k / 4"
  have k1: "1 \<le> k" using assms False by simp
  have x0: "0 < x" using k1 by (simp add: x_def)
  have "pow2 (- 2) \<le> x" using k1 by (simp add: x_def pow2_def)
  then have lo: "- 2 \<le> ilog2 x" using x0 by (rule ilog2_ge [rotated])
  have "(of_int k :: rat) < of_int (2 ^ 53)" using assms(2) by (simp only: of_int_less_iff)
  then have "x < pow2 51" by (simp add: x_def pow2_def)
  then have hi: "ilog2 x < 51" using x0 by (rule ilog2_less [rotated])
  define j where "j = nat (50 - ilog2 x)"
  have "x / pow2 (ilog2 x - 52) = x * pow2 (52 - ilog2 x)"
    using pow2_diff [of 0 "ilog2 x - 52"] by (simp add: pow2_def [of 0] field_simps)
  also have "pow2 (52 - ilog2 x) = pow2 2 * pow2 (50 - ilog2 x)"
    using pow2_add [of 2 "50 - ilog2 x"] by simp
  also have "pow2 (50 - ilog2 x) = of_int (2 ^ j)" using hi by (simp add: pow2_nat j_def)
  finally have "x / pow2 (ilog2 x - 52) = of_int (k * 2 ^ j)"
    by (simp add: x_def pow2_def)
  then have "to_double x = Fin x"
    using x0 lo hi by (intro to_double_exact [where m = "k * 2 ^ j"]) simp_all
  then show ?thesis by (simp add: x_def)
qed

lemma to_double_below_pow2:
  assumes "0 < y" "y < pow2 k" "- 1022 \<le> k" "k \<le> 1023"
  shows "\<exists>r. to_double y = Fin r \<and> 0 \<le> r \<and> r \<le> pow2 k"
proof -
  define e where "e = max (ilog2 y) (- 1022)"
  define q where "q = pow2 (e - 52)"
  define m where "m = round_ties_even (y / q)"
  have e1: "e \<le> k" "e \<le> 1022"
    using ilog2_less [OF assms(1,2)] assms(3,4) by (simp_all add: e_def)
  have q0: "0 < q" by (simp add: q_def pow2_pos)
  define N where "N = (2::int) ^ nat (k - e + 52)"
  have N: "pow2 k / q = of_int N"
    using e1 by (simp add: q_def pow2_diff [symmetric] N_def pow2_nat algebra_simps)
  have "y / q \<le> pow2 k / q" using assms(2) q0 by (simp add: divide_right_mono)
  then have mN: "m \<le> N" unfolding m_def N by (rule round_ties_even_le)
  have m0: "0 \<le> m" unfolding m_def using assms(1) q0 by (intro round_ties_even_nonneg) simp
  have "of_int m * q \<le> of_int N * q" using mN q0 by (simp add: mult_right_mono)
  also have "\<dots> = pow2 k" using N q0 by (simp add: field_simps)
  finally have r: "of_int m * q \<le> pow2 k" .
  have r0: "0 \<le> of_int m * q" using m0 q0 by simp
  have a: "\<bar>y\<bar> = y" "y \<noteq> 0" "\<not> y < 0" using assms(1) by simp_all
  have "to_double y = Fin (of_int m * q)"
    unfolding to_double_def Let_def a e_def [symmetric] q_def [symmetric] m_def [symmetric]
    using e1 a by simp
  then show ?thesis using r r0 by blast
qed

subsection \<open>The profit lock\<close>

lemma num_mul_Fin: "num_mul (Fin a) (Fin b) = to_double (a * b)"
  by (simp add: num_mul_def)

lemma num_div_Fin: "b \<noteq> 0 \<Longrightarrow> num_div (Fin a) (Fin b) = to_double (a / b)"
  by (simp add: num_div_def)

lemma num_sub_Fin: "num_sub (Fin a) (Fin b) = to_double (a - b)"
  by (simp add: num_sub_def num_neg_def)

lemma lockProfit_not_positive:
  "\<not> is_finite n \<or> num_le n (Fin 0) \<Longrightarrow>
   lockProfit (JNum n) pct = \<lparr>locked = Fin 0, leftover = Fin 0\<rparr>"
  by (auto simp: lockProfit_def)

lemma lockProfit_not_number:
  "\<forall>n. v \<noteq> JNum n \<Longrightarrow> lockProfit v pct = \<lparr>locked = Fin 0, leftover = Fin 0\<rparr>"
  by (cases v) (auto simp: lockProfit_def)

lemma lockProfit_in_cents:
  assumes "0 < p" "p < 2 ^ 44"
  shows "\<exists>C L. 0 \<le> L \<and> L \<le> C \<and>
           math_round (num_mul (Fin p) (Fin 100)) = Fin (of_int C) \<and>
           math_round (num_mul (Fin (of_int C)) (Fin (3 / 4))) = Fin (of_int L) \<and>
           L = \<lfloor>3 * of_int C / 4 + 1 / 2 :: rat\<rfloor> \<and>
           lockProfit (JNum (Fin p)) (Fin (3 / 4)) =
             \<lparr>locked = to_double (of_int L / 100),
              leftover = to_double (of_int (C - L) / 100)\<rparr>"
proof -
  have y: "0 < p * 100" "p * 100 < pow2 51" using assms by (simp_all add: pow2_def)
  obtain x where x: "to_double (p * 100) = Fin x" "0 \<le> x" "x \<le> pow2 51"
    using to_double_below_pow2 [OF y] by auto
  define C where "C = \<lfloor>x + 1 / 2\<rfloor>"
  define L where "L = \<lfloor>3 * of_int C / 4 + 1 / 2 :: rat\<rfloor>"
  have C0: "0 \<le> C" using x(2) by (simp add: C_def)
  have "x + 1 / 2 < of_int (2 ^ 51 + 1)" using x(3) by (simp add: pow2_def)
  then have "C < 2 ^ 51 + 1" unfolding C_def by (simp only: floor_less_iff)
  then have C1: "C \<le> 2 ^ 51" by simp
  have L0: "0 \<le> L" using C0 by (simp add: L_def)
  have "3 * of_int C / 4 + 1 / 2 < (of_int (C + 1) :: rat)" using C0 by simp
  then have "L < C + 1" unfolding L_def by (simp only: floor_less_iff)
  then have L1: "L \<le> C" by simp
  have cents: "math_round (num_mul (Fin p) (Fin 100)) = Fin (of_int C)"
    by (simp add: num_mul_Fin x(1) math_round_def C_def)
  have tq: "to_double (of_int (3 * C) / 4) = Fin (of_int (3 * C) / 4)"
    using C0 C1 by (intro to_double_quarters) simp_all
  have "num_mul (Fin (of_int C)) (Fin (3 / 4)) = to_double (of_int (3 * C) / 4)"
    by (simp add: num_mul_Fin mult.commute)
  also note tq
  also have "Fin (of_int (3 * C) / 4) = Fin (3 * of_int C / 4)" by simp
  finally have q: "num_mul (Fin (of_int C)) (Fin (3 / 4)) = Fin (3 * of_int C / 4)" .
  have lk: "math_round (num_mul (Fin (of_int C)) (Fin (3 / 4))) = Fin (of_int L)"
    by (simp add: q math_round_def L_def)
  have "\<bar>C - L\<bar> < 2 ^ 53" using C0 C1 L0 L1 by simp
  then have "to_double (of_int (C - L)) = Fin (of_int (C - L))" by (rule to_double_of_int)
  then have sb: "num_sub (Fin (of_int C)) (Fin (of_int L)) = Fin (of_int (C - L))"
    by (simp add: num_sub_Fin)
  have pos: "is_finite (Fin p)" "\<not> num_le (Fin p) (Fin 0)"
    using assms(1) by (simp_all add: is_finite_def num_le_def)
  have res: "lockProfit (JNum (Fin p)) (Fin (3 / 4)) =
             \<lparr>locked = to_double (of_int L / 100),
              leftover = to_double (of_int (C - L) / 100)\<rparr>"
    using pos by (simp add: lockProfit_def Let_def cents lk sb num_div_Fin)
  show ?thesis
    by (rule exI [of _ C], rule exI [of _ L]) (intro conjI L0 L1 cents lk L_def res)
qed

text \<open>
  Claim C4, as amended. For a finite \<open>profitUsd\<close> with \<open>0 < profitUsd < 2\<^sup>4\<^sup>4\<close> and the lock
  fraction 0.75, \<open>lockProfit\<close> splits a whole number of cents: \<open>C = round(profitUsd * 100)\<close>,
  \<open>L = round(C * 0.75) = \<lfloor>3C/4 + 1/2\<rfloor>\<close>, \<open>0 \<le> L \<le> C\<close>, and it returns \<open>locked = L / 100\<close> and
  \<open>leftover = (C - L) / 100\<close>, each the double nearest to its quotient. The cents add up
  exactly, \<open>L + (C - L) = C\<close>; nothing is said of the Number sum of the two returned doubles.
  A \<open>profitUsd\<close> that is not positive, not finite or not a Number gives \<open>{locked: 0, leftover: 0}\<close>.
\<close>

theorem lockProfit_split_in_cents:
  "(0 < p \<and> p < 2 ^ 44 \<longrightarrow>
      (\<exists>C L. 0 \<le> L \<and> L \<le> C \<and>
         math_round (num_mul (Fin p) (Fin 100)) = Fin (of_int C) \<and>
         math_round (num_mul (Fin (of_int C)) (Fin (3 / 4))) = Fin (of_int L) \<and>
         L = \<lfloor>3 * of_int C / 4 + 1 / 2 :: rat\<rfloor> \<and>
         lockProfit (JNum (Fin p)) (Fin (3 / 4)) =
           \<lparr>locked = to_double (of_int L / 100),
            leftover = to_double (of_int (C - L) / 100)\<rparr>)) \<and>
   (\<not> is_finite n \<or> num_le n (Fin 0) \<longrightarrow>
      lockProfit (JNum n) pct = \<lparr>locked = Fin 0, leftover = Fin 0\<rparr>) \<and>
   ((\<forall>n. v \<noteq> JNum n) \<longrightarrow> lockProfit v pct = \<lparr>locked = Fin 0, leftover = Fin 0\<rparr>)"
  by (intro conjI impI lockProfit_in_cents lockProfit_not_positive lockProfit_not_number)
    simp_all

text \<open>
  Claim C4 as stated fails: at \<open>profitUsd = 0.06\<close> the cents are 6, of which 5 are locked, and
  the sum of the returned doubles \<open>0.05 + 0.01\<close> is \<open>0.060000000000000005\<close>, not the double
  \<open>0.06 = round(profitUsd * 100) / 100\<close>.
\<close>

theorem lockProfit_sum_drifts:
  "num_add (locked (lockProfit (JNum (to_double (6 / 100))) (Fin (3 / 4))))
           (leftover (lockProfit (JNum (to_double (6 / 100))) (Fin (3 / 4))))
     \<noteq> num_div (math_round (num_mul (to_double (6 / 100)) (Fin 100))) (Fin 100)"
  by code_simp

theorem lockProfit_split_in_cents_witness:
  "lockProfit (JNum (Fin 1)) (Fin (3 / 4)) =
     \<lparr>locked = to_double (75 / 100), leftover = to_double (25 / 100)\<rparr> \<and>
   lockProfit (JNum (Fin (- 5))) (Fin (3 / 4)) = \<lparr>locked = Fin 0, leftover = Fin 0\<rparr> \<and>
   lockProfit (JNum NaN) (Fin (3 / 4)) = \<lparr>locked = Fin 0, leftover = Fin 0\<rparr> \<and>
   lockProfit (JStr ''12'') (Fin (3 / 4)) = \<lparr>locked = Fin 0, leftover = Fin 0\<rparr>"
proof -
  note t = lockProfit_split_in_cents
  have h: "(0::rat) < 1 \<and> (1::rat) < 2 ^ 44" by simp
  obtain C L where cl: "0 \<le> L \<and> L \<le> C \<and>
         math_round (num_mul (Fin 1) (Fin 100)) = Fin (of_int C) \<and>
         math_round (num_mul (Fin (of_int C)) (Fin (3 / 4))) = Fin (of_int L) \<and>
         L = \<lfloor>3 * of_int C / 4 + 1 / 2 :: rat\<rfloor> \<and>
         lockProfit (JNum (Fin 1)) (Fin (3 / 4)) =
           \<lparr>locked = to_double (of_int L / 100),
            leftover = to_double (of_int (C - L) / 100)\<rparr>"
    using t [of 1, THEN conjunct1, THEN mp, OF h] by (elim exE) (rule that)
  note c = cl [THEN conjunct2, THEN conjunct2, THEN conjunct1]
  note l = cl [THEN conjunct2, THEN conjunct2, THEN conjunct2, THEN conjunct2, THEN conjunct1]
  note r = cl [THEN conjunct2, THEN conjunct2, THEN conjunct2, THEN conjunct2, THEN conjunct2]
  have f1: "\<lfloor>201 / 2 :: rat\<rfloor> = 100" by (rule floor_unique) simp_all
  have f2: "\<lfloor>151 / 2 :: rat\<rfloor> = 75" by (rule floor_unique) simp_all
  have "math_round (num_mul (Fin 1) (Fin 100)) = Fin 100"
    by (simp add: num_mul_Fin to_double_numeral math_round_def f1)
  with c have "(of_int C :: rat) = of_int 100" by simp
  then have C: "C = 100" by (simp only: of_int_eq_iff)
  have L: "L = 75" unfolding l C by (simp add: f2)
  have a: "lockProfit (JNum (Fin 1)) (Fin (3 / 4)) =
     \<lparr>locked = to_double (75 / 100), leftover = to_double (25 / 100)\<rparr>"
    using r by (simp add: C L)
  have b: "lockProfit (JNum (Fin (- 5))) (Fin (3 / 4)) = \<lparr>locked = Fin 0, leftover = Fin 0\<rparr>"
    using t [where n = "Fin (- 5)" and pct = "Fin (3 / 4)", THEN conjunct2, THEN conjunct1]
    by (simp add: num_le_def)
  have d: "lockProfit (JNum NaN) (Fin (3 / 4)) = \<lparr>locked = Fin 0, leftover = Fin 0\<rparr>"
    using t [where n = NaN and pct = "Fin (3 / 4)", THEN conjunct2, THEN conjunct1]
    by (simp add: is_finite_def)
  have e: "lockProfit (JStr ''12'') (Fin (3 / 4)) = \<lparr>locked = Fin 0, leftover = Fin 0\<rparr>"
    using t [where v = "JStr ''12''" and pct = "Fin (3 / 4)", THEN conjunct2, THEN conjunct2]
    by simp
  show ?thesis by (rule conjI [OF a conjI [OF b conjI [OF d e]]])
qed

subsection \<open>The gas guard\<close>













subsection \<open>The reserve trade check\<close>

lemma BigInt_of_int: "BigInt cfg (JNum (Fin (of_int m))) = Inr m"
  by (simp add: BigInt_def)

text \<open>The percentage that the check uses for a finite Number \<open>x\<close>: 1 for 0, else the floor
  of \<open>x\<close> clamped to \<open>[0, 99]\<close>.\<close>

lemma clamp_floor:
  "math_max (Fin 0) (math_min (Fin 99) (math_floor (Fin x))) = Fin (of_int (max 0 (min 99 \<lfloor>x\<rfloor>)))"
proof -
  define f where "f = \<lfloor>x\<rfloor>"
  have "math_max (Fin 0) (math_min (Fin 99) (Fin (of_int f))) = Fin (of_int (max 0 (min 99 f)))"
    by (simp add: math_min_def math_max_def num_lt_def max_def min_def)
  then show ?thesis by (simp add: math_floor_def f_def)
qed

lemma clamp_slippage_Fin:
  "clamp_slippage cfg (JNum (Fin x)) =
     Inr (Fin (of_int (if x = 0 then 1 else max 0 (min 99 \<lfloor>x\<rfloor>))))"
proof (cases "x = 0")
  case True
  show ?thesis using True
    by (simp add: clamp_slippage_def js_or_def truthy_def ToNumber_def to_numeric_def and_then_def
        math_floor_def math_min_def math_max_def num_lt_def)
next
  case False
  show ?thesis using False clamp_floor [of x]
    by (simp add: clamp_slippage_def js_or_def truthy_def ToNumber_def to_numeric_def and_then_def)
qed

lemma clamp_slippage_default:
  "clamp_slippage cfg JUndefined = Inr (Fin 1)"
  by (simp add: clamp_slippage_def js_or_def truthy_def ToNumber_def to_numeric_def and_then_def
        math_floor_def math_min_def math_max_def num_lt_def)

lemma clamp_slippage_range:
  assumes "clamp_slippage cfg sp = Inr (Fin y)"
  shows "\<exists>p. y = of_int p \<and> 0 \<le> p \<and> p \<le> 99"
proof -
  obtain n where n: "ToNumber cfg (js_or (if sp = JUndefined then JNum (Fin 1) else sp) (JNum (Fin 1)))
      = Inr n" and y: "math_max (Fin 0) (math_min (Fin 99) (math_floor n)) = Fin y"
    using assms by (auto simp: clamp_slippage_def and_then_def split: sum.splits)
  show ?thesis
  proof (cases n)
    case (Fin x)
    from clamp_floor [of x] y Fin have "y = of_int (max 0 (min 99 \<lfloor>x\<rfloor>))" by simp
    then show ?thesis by (intro exI [of _ "max 0 (min 99 \<lfloor>x\<rfloor>)"]) simp
  next
    case NaN
    with y show ?thesis by (simp add: math_floor_def math_min_def math_max_def)
  next
    case PInf
    with y have "y = of_int 99"
      by (simp add: math_floor_def math_min_def math_max_def num_lt_def)
    then show ?thesis by (intro exI [of _ 99]) simp
  next
    case NInf
    with y have "y = of_int 0"
      by (simp add: math_floor_def math_min_def math_max_def num_lt_def)
    then show ?thesis by (intro exI [of _ 0]) simp
  qed
qed

text \<open>BigInt division by 100 of a product with a positive factor.\<close>

lemma bigint_div_100:
  assumes "0 < c"
  shows "bigint_div (base * c) 100 = Inr (sgn base * (\<bar>base\<bar> * c div 100))"
  using assms by (simp add: bigint_div_def sgn_mult abs_mult)

lemma capped_amount_int:
  assumes "0 \<le> p" "p \<le> 99" "BigInt cfg desired = Inr d"
  shows "capped_amount cfg base (Fin (of_int p)) desired
      = Inr (min d (sgn base * (\<bar>base\<bar> * (100 - p) div 100)))"
proof -
  have "to_double (of_int (100 - p)) = Fin (of_int (100 - p))"
    using assms(1,2) by (intro to_double_of_int) simp
  then have k: "num_sub (Fin 100) (Fin (of_int p)) = Fin (of_int (100 - p))"
    by (simp add: num_sub_def num_neg_def)
  have dv: "bigint_div (base * (100 - p)) 100 = Inr (sgn base * (\<bar>base\<bar> * (100 - p) div 100))"
    using assms(2) by (intro bigint_div_100) simp
  show ?thesis
    unfolding capped_amount_def k BigInt_of_int
    by (simp add: and_then_def dv assms(3) min_def)
qed

lemma capped_amount_le:
  assumes "capped_amount cfg base pct desired = Inr safe" "BigInt cfg desired = Inr d"
  shows "safe \<le> d"
  using assms
  by (auto simp: capped_amount_def and_then_def split: sum.splits if_splits)

text \<open>On a non-negative base and an integral percentage, the amount of the check is within
  the cap of the specification: taking 1 for 0 only lowers it.\<close>

lemma cap_bound_int:
  "cap_bound base (of_int k) = base * (100 - max 0 (min 99 k)) div 100"
proof -
  have c: "clamp_pct (of_int k) = of_int (max 0 (min 99 k))"
    by (simp add: clamp_pct_def max_def min_def)
  have "of_int base * (100 - clamp_pct (of_int k)) / 100
      = (of_int (base * (100 - max 0 (min 99 k))) :: rat) / of_int 100"
    unfolding c by simp
  then show ?thesis unfolding cap_bound_def by (simp only: floor_divide_of_int_eq)
qed

lemma cap_le_bound:
  assumes "0 \<le> base" "p = (if k = 0 then 1 else max 0 (min 99 k))"
  shows "min d (sgn base * (\<bar>base\<bar> * (100 - p) div 100)) \<le> cap_bound base (of_int k)"
proof -
  have le: "max 0 (min 99 k) \<le> p" using assms(2) by simp
  have "base * (100 - p) \<le> base * (100 - max 0 (min 99 k))"
    using assms(1) le by (intro mult_left_mono) simp_all
  then have "base * (100 - p) div 100 \<le> cap_bound base (of_int k)"
    unfolding cap_bound_int by (rule zdiv_mono1) simp
  moreover have "sgn base * (\<bar>base\<bar> * (100 - p) div 100) = base * (100 - p) div 100"
    using assms(1) by (cases "base = 0") simp_all
  ultimately show ?thesis by simp
qed

lemma reserveTradeCheck_error:
  "reserveTradeCheck_try cfg w q = Inl e \<Longrightarrow>
   reserveTradeCheck cfg w q = \<lparr>safeAmount = 0, info = None\<rparr>"
  by (simp add: reserveTradeCheck_def)

lemma reserveTradeCheck_unknown_pool:
  "poolType q \<noteq> JStr ''V2'' \<Longrightarrow> poolType q \<noteq> JStr ''V3'' \<Longrightarrow>
   reserveTradeCheck cfg w q = \<lparr>safeAmount = 0, info = None\<rparr>"
  by (auto simp: reserveTradeCheck_def reserveTradeCheck_try_def and_then_def split: sum.splits)

lemma reserveTradeCheck_le_desired:
  assumes "BigInt cfg (desiredAmount q) = Inr d"
  shows "safeAmount (reserveTradeCheck cfg w q) \<le> max 0 d"
    and "info (reserveTradeCheck cfg w q) \<noteq> None \<Longrightarrow> safeAmount (reserveTradeCheck cfg w q) \<le> d"
proof -
  have "safeAmount (reserveTradeCheck cfg w q) \<le> d \<or>
      reserveTradeCheck cfg w q = \<lparr>safeAmount = 0, info = None\<rparr>"
  proof (cases "reserveTradeCheck_try cfg w q")
    case (Inl e)
    then show ?thesis by (simp add: reserveTradeCheck_def)
  next
    case (Inr r)
    then have "safeAmount r \<le> d \<or> r = \<lparr>safeAmount = 0, info = None\<rparr>"
      using assms
      by (auto simp: reserveTradeCheck_try_def and_then_def
          split: sum.splits if_splits option.splits dest: capped_amount_le)
    then show ?thesis using Inr by (simp add: reserveTradeCheck_def)
  qed
  then show "safeAmount (reserveTradeCheck cfg w q) \<le> max 0 d"
    and "info (reserveTradeCheck cfg w q) \<noteq> None \<Longrightarrow> safeAmount (reserveTradeCheck cfg w q) \<le> d"
    by auto
qed

lemma reserveTradeCheck_V2:
  assumes "poolType q = JStr ''V2''" "v2_getReserves w (pairAddress q) 0 = Some raw"
    and "BigInt cfg (v2_reserve0 raw) = Inr r0" "BigInt cfg (v2_reserve1 raw) = Inr r1"
    and "toLowerCase (v2_token0 raw) = Inr t0" "toLowerCase (tokenIn q) = Inr tin"
    and "clamp_slippage cfg (slippagePercent q) = Inr (Fin (of_int p))"
    and "BigInt cfg (desiredAmount q) = Inr d"
  shows "reserveTradeCheck cfg w q =
           \<lparr>safeAmount = min d (sgn (if t0 = tin then r0 else r1)
                                 * (\<bar>if t0 = tin then r0 else r1\<bar> * (100 - p) div 100)),
            info = Some (V2Info (v2_token0 raw) (v2_token1 raw) r0 r1)\<rparr>"
proof -
  from clamp_slippage_range [OF assms(7)] have r: "0 \<le> p" "p \<le> 99" by auto
  note ca = capped_amount_int [OF r assms(8)]
  show ?thesis
    unfolding reserveTradeCheck_def reserveTradeCheck_try_def assms(7)
    using assms(1-6) by (simp add: and_then_def ca)
qed

lemma reserveTradeCheck_V3:
  assumes "poolType q = JStr ''V3''" "v3_slot0 w (poolAddress q) 0 = Some raw"
    and "BigInt cfg (v3_liquidity raw) = Inr liq"
    and "clamp_slippage cfg (slippagePercent q) = Inr (Fin (of_int p))"
    and "BigInt cfg (desiredAmount q) = Inr d"
  shows "reserveTradeCheck cfg w q =
           \<lparr>safeAmount = min d (sgn liq * (\<bar>liq\<bar> * (100 - p) div 100)),
            info = Some (V3Info (v3_token0 raw) (v3_token1 raw) liq
                           (js_coalesce (v3_sqrtPriceX96 raw) (JBig 0)))\<rparr>"
proof -
  from clamp_slippage_range [OF assms(4)] have r: "0 \<le> p" "p \<le> 99" by auto
  note ca = capped_amount_int [OF r assms(5)]
  show ?thesis
    unfolding reserveTradeCheck_def reserveTradeCheck_try_def assms(4)
    using assms(1-3) by (simp add: and_then_def ca)
qed

lemma capped_amount_Inr:
  assumes "capped_amount cfg base pct desired = Inr safe"
  shows "(\<exists>y. pct = Fin y) \<and> (\<exists>d. BigInt cfg desired = Inr d)"
proof -
  obtain keep where k: "BigInt cfg (JNum (num_sub (Fin 100) pct)) = Inr keep"
    using assms by (auto simp: capped_amount_def and_then_def split: sum.splits)
  have "\<exists>y. pct = Fin y"
    using k by (cases pct) (simp_all add: BigInt_def num_sub_def num_neg_def)
  moreover have "\<exists>d. BigInt cfg desired = Inr d"
    using assms by (auto simp: capped_amount_def and_then_def split: sum.splits)
  ultimately show ?thesis by simp
qed

lemma reserveTradeCheck_try_V2:
  assumes "reserveTradeCheck_try cfg w q = Inr r" "poolType q = JStr ''V2''"
  shows "\<exists>raw r0 r1 t0 tin p d.
       v2_getReserves w (pairAddress q) 0 = Some raw \<and>
       BigInt cfg (v2_reserve0 raw) = Inr r0 \<and> BigInt cfg (v2_reserve1 raw) = Inr r1 \<and>
       toLowerCase (v2_token0 raw) = Inr t0 \<and> toLowerCase (tokenIn q) = Inr tin \<and>
       clamp_slippage cfg (slippagePercent q) = Inr (Fin (of_int p)) \<and>
       BigInt cfg (desiredAmount q) = Inr d"
proof -
  obtain pct where pc: "clamp_slippage cfg (slippagePercent q) = Inr pct"
    using assms(1) by (cases "clamp_slippage cfg (slippagePercent q)")
      (simp_all add: reserveTradeCheck_try_def and_then_def)
  obtain raw where rw: "v2_getReserves w (pairAddress q) 0 = Some raw"
    using assms pc by (cases "v2_getReserves w (pairAddress q) 0")
      (simp_all add: reserveTradeCheck_try_def and_then_def)
  obtain r0 where a: "BigInt cfg (v2_reserve0 raw) = Inr r0"
    using assms pc rw by (cases "BigInt cfg (v2_reserve0 raw)")
      (simp_all add: reserveTradeCheck_try_def and_then_def)
  obtain r1 where b: "BigInt cfg (v2_reserve1 raw) = Inr r1"
    using assms pc rw a by (cases "BigInt cfg (v2_reserve1 raw)")
      (simp_all add: reserveTradeCheck_try_def and_then_def)
  obtain t0 where c: "toLowerCase (v2_token0 raw) = Inr t0"
    using assms pc rw a b by (cases "toLowerCase (v2_token0 raw)")
      (simp_all add: reserveTradeCheck_try_def and_then_def)
  obtain tin where d: "toLowerCase (tokenIn q) = Inr tin"
    using assms pc rw a b c by (cases "toLowerCase (tokenIn q)")
      (simp_all add: reserveTradeCheck_try_def and_then_def)
  obtain safe where e: "capped_amount cfg (if t0 = tin then r0 else r1) pct (desiredAmount q)
      = Inr safe"
    using assms pc rw a b c d
    by (cases "capped_amount cfg (if t0 = tin then r0 else r1) pct (desiredAmount q)")
      (simp_all add: reserveTradeCheck_try_def and_then_def)
  from capped_amount_Inr [OF e] obtain y dd where y: "pct = Fin y"
    and dd: "BigInt cfg (desiredAmount q) = Inr dd" by auto
  from clamp_slippage_range [OF pc [unfolded y]] obtain p where p: "y = of_int p" by auto
  show ?thesis
    using rw a b c d pc dd unfolding y p by blast
qed

lemma reserveTradeCheck_try_V3:
  assumes "reserveTradeCheck_try cfg w q = Inr r" "poolType q = JStr ''V3''"
  shows "\<exists>raw liq p d.
       v3_slot0 w (poolAddress q) 0 = Some raw \<and>
       BigInt cfg (v3_liquidity raw) = Inr liq \<and>
       clamp_slippage cfg (slippagePercent q) = Inr (Fin (of_int p)) \<and>
       BigInt cfg (desiredAmount q) = Inr d"
proof -
  obtain pct where pc: "clamp_slippage cfg (slippagePercent q) = Inr pct"
    using assms(1) by (cases "clamp_slippage cfg (slippagePercent q)")
      (simp_all add: reserveTradeCheck_try_def and_then_def)
  obtain raw where rw: "v3_slot0 w (poolAddress q) 0 = Some raw"
    using assms pc by (cases "v3_slot0 w (poolAddress q) 0")
      (simp_all add: reserveTradeCheck_try_def and_then_def)
  obtain liq where a: "BigInt cfg (v3_liquidity raw) = Inr liq"
    using assms pc rw by (cases "BigInt cfg (v3_liquidity raw)")
      (simp_all add: reserveTradeCheck_try_def and_then_def)
  obtain safe where e: "capped_amount cfg liq pct (desiredAmount q) = Inr safe"
    using assms pc rw a
    by (cases "capped_amount cfg liq pct (desiredAmount q)")
      (simp_all add: reserveTradeCheck_try_def and_then_def)
  from capped_amount_Inr [OF e] obtain y dd where y: "pct = Fin y"
    and dd: "BigInt cfg (desiredAmount q) = Inr dd" by auto
  from clamp_slippage_range [OF pc [unfolded y]] obtain p where p: "y = of_int p" by auto
  show ?thesis
    using rw a pc dd unfolding y p by blast
qed

text \<open>
  Claim C9, as amended. Whatever is thrown inside \<open>reserveTradeCheck\<close>, and an unrecognised
  pool type, give \<open>{safeAmount: 0, info: null}\<close>. The percentage used is
  \<open>p = clamp(floor(slippagePercent || 1), 0, 99)\<close>: an integer of \<open>[0, 99]\<close>, 1 for 0 and for
  \<open>undefined\<close>, and the floor for a fraction. Every other result, which takes the reads
  and the conversions of its pool type to succeed, is
  \<open>min(desiredAmount, base * (100 - p) / 100)\<close> in BigInt arithmetic, \<open>base\<close> being the reserve of
  the \<open>tokenIn\<close> side for V2 and the liquidity for V3. So \<open>safeAmount\<close> never exceeds
  \<open>desiredAmount\<close>, except that the zero result exceeds a negative one; and on a non-negative
  base and an integral \<open>slippagePercent\<close> it never exceeds
  \<open>base * (100 - clamp(slippagePercent, 0, 99)) / 100\<close>.
\<close>

theorem reserveTradeCheck_cap:
  "(\<forall>e. reserveTradeCheck_try cfg w q = Inl e \<longrightarrow>
       reserveTradeCheck cfg w q = \<lparr>safeAmount = 0, info = None\<rparr>) \<and>
   (poolType q \<noteq> JStr ''V2'' \<and> poolType q \<noteq> JStr ''V3'' \<longrightarrow>
       reserveTradeCheck cfg w q = \<lparr>safeAmount = 0, info = None\<rparr>) \<and>
   (\<forall>d. BigInt cfg (desiredAmount q) = Inr d \<longrightarrow>
       safeAmount (reserveTradeCheck cfg w q) \<le> max 0 d \<and>
       (info (reserveTradeCheck cfg w q) \<noteq> None \<longrightarrow> safeAmount (reserveTradeCheck cfg w q) \<le> d)) \<and>
   (\<forall>x. clamp_slippage cfg (JNum (Fin x)) =
          Inr (Fin (of_int (if x = 0 then 1 else max 0 (min 99 \<lfloor>x\<rfloor>))))) \<and>
   clamp_slippage cfg JUndefined = Inr (Fin 1) \<and>
   (\<forall>y. clamp_slippage cfg (slippagePercent q) = Inr (Fin y) \<longrightarrow>
       (\<exists>p. y = of_int p \<and> 0 \<le> p \<and> p \<le> 99)) \<and>
   (\<forall>raw r0 r1 t0 tin p d.
       poolType q = JStr ''V2'' \<and> v2_getReserves w (pairAddress q) 0 = Some raw \<and>
       BigInt cfg (v2_reserve0 raw) = Inr r0 \<and> BigInt cfg (v2_reserve1 raw) = Inr r1 \<and>
       toLowerCase (v2_token0 raw) = Inr t0 \<and> toLowerCase (tokenIn q) = Inr tin \<and>
       clamp_slippage cfg (slippagePercent q) = Inr (Fin (of_int p)) \<and>
       BigInt cfg (desiredAmount q) = Inr d \<longrightarrow>
       reserveTradeCheck cfg w q =
         \<lparr>safeAmount = min d (sgn (if t0 = tin then r0 else r1)
                               * (\<bar>if t0 = tin then r0 else r1\<bar> * (100 - p) div 100)),
          info = Some (V2Info (v2_token0 raw) (v2_token1 raw) r0 r1)\<rparr> \<and>
       (\<forall>k. slippagePercent q = JNum (Fin (of_int k)) \<and> 0 \<le> (if t0 = tin then r0 else r1) \<longrightarrow>
          safeAmount (reserveTradeCheck cfg w q)
            \<le> cap_bound (if t0 = tin then r0 else r1) (of_int k))) \<and>
   (\<forall>raw liq p d.
       poolType q = JStr ''V3'' \<and> v3_slot0 w (poolAddress q) 0 = Some raw \<and>
       BigInt cfg (v3_liquidity raw) = Inr liq \<and>
       clamp_slippage cfg (slippagePercent q) = Inr (Fin (of_int p)) \<and>
       BigInt cfg (desiredAmount q) = Inr d \<longrightarrow>
       reserveTradeCheck cfg w q =
         \<lparr>safeAmount = min d (sgn liq * (\<bar>liq\<bar> * (100 - p) div 100)),
          info = Some (V3Info (v3_token0 raw) (v3_token1 raw) liq
                         (js_coalesce (v3_sqrtPriceX96 raw) (JBig 0)))\<rparr> \<and>
       (\<forall>k. slippagePercent q = JNum (Fin (of_int k)) \<and> 0 \<le> liq \<longrightarrow>
          safeAmount (reserveTradeCheck cfg w q) \<le> cap_bound liq (of_int k))) \<and>
   (\<forall>r. reserveTradeCheck_try cfg w q = Inr r \<and> poolType q = JStr ''V2'' \<longrightarrow>
       (\<exists>raw r0 r1 t0 tin p d.
          v2_getReserves w (pairAddress q) 0 = Some raw \<and>
          BigInt cfg (v2_reserve0 raw) = Inr r0 \<and> BigInt cfg (v2_reserve1 raw) = Inr r1 \<and>
          toLowerCase (v2_token0 raw) = Inr t0 \<and> toLowerCase (tokenIn q) = Inr tin \<and>
          clamp_slippage cfg (slippagePercent q) = Inr (Fin (of_int p)) \<and>
          BigInt cfg (desiredAmount q) = Inr d)) \<and>
   (\<forall>r. reserveTradeCheck_try cfg w q = Inr r \<and> poolType q = JStr ''V3'' \<longrightarrow>
       (\<exists>raw liq p d.
          v3_slot0 w (poolAddress q) 0 = Some raw \<and>
          BigInt cfg (v3_liquidity raw) = Inr liq \<and>
          clamp_slippage cfg (slippagePercent q) = Inr (Fin (of_int p)) \<and>
          BigInt cfg (desiredAmount q) = Inr d))"
proof (intro conjI allI impI)
  fix e assume "reserveTradeCheck_try cfg w q = Inl e"
  then show "reserveTradeCheck cfg w q = \<lparr>safeAmount = 0, info = None\<rparr>"
    by (rule reserveTradeCheck_error)
next
  assume "poolType q \<noteq> JStr ''V2'' \<and> poolType q \<noteq> JStr ''V3''"
  then show "reserveTradeCheck cfg w q = \<lparr>safeAmount = 0, info = None\<rparr>"
    by (simp add: reserveTradeCheck_unknown_pool)
next
  fix d assume "BigInt cfg (desiredAmount q) = Inr d"
  then show "safeAmount (reserveTradeCheck cfg w q) \<le> max 0 d"
    by (rule reserveTradeCheck_le_desired(1))
next
  fix d assume "BigInt cfg (desiredAmount q) = Inr d" "info (reserveTradeCheck cfg w q) \<noteq> None"
  then show "safeAmount (reserveTradeCheck cfg w q) \<le> d"
    by (rule reserveTradeCheck_le_desired(2))
next
  fix x show "clamp_slippage cfg (JNum (Fin x)) =
          Inr (Fin (of_int (if x = 0 then 1 else max 0 (min 99 \<lfloor>x\<rfloor>))))"
    by (rule clamp_slippage_Fin)
next
  show "clamp_slippage cfg JUndefined = Inr (Fin 1)" by (rule clamp_slippage_default)
next
  fix y assume "clamp_slippage cfg (slippagePercent q) = Inr (Fin y)"
  then show "\<exists>p. y = of_int p \<and> 0 \<le> p \<and> p \<le> 99" by (rule clamp_slippage_range)
next
  fix raw r0 r1 t0 tin p d
  assume h: "poolType q = JStr ''V2'' \<and> v2_getReserves w (pairAddress q) 0 = Some raw \<and>
       BigInt cfg (v2_reserve0 raw) = Inr r0 \<and> BigInt cfg (v2_reserve1 raw) = Inr r1 \<and>
       toLowerCase (v2_token0 raw) = Inr t0 \<and> toLowerCase (tokenIn q) = Inr tin \<and>
       clamp_slippage cfg (slippagePercent q) = Inr (Fin (of_int p)) \<and>
       BigInt cfg (desiredAmount q) = Inr d"
  then have r: "reserveTradeCheck cfg w q =
         \<lparr>safeAmount = min d (sgn (if t0 = tin then r0 else r1)
                               * (\<bar>if t0 = tin then r0 else r1\<bar> * (100 - p) div 100)),
          info = Some (V2Info (v2_token0 raw) (v2_token1 raw) r0 r1)\<rparr>"
    by (intro reserveTradeCheck_V2) simp_all
  show "reserveTradeCheck cfg w q =
         \<lparr>safeAmount = min d (sgn (if t0 = tin then r0 else r1)
                               * (\<bar>if t0 = tin then r0 else r1\<bar> * (100 - p) div 100)),
          info = Some (V2Info (v2_token0 raw) (v2_token1 raw) r0 r1)\<rparr>" by (rule r)
  fix k assume k: "slippagePercent q = JNum (Fin (of_int k)) \<and> 0 \<le> (if t0 = tin then r0 else r1)"
  have "p = (if k = 0 then 1 else max 0 (min 99 k))"
    using h k clamp_slippage_Fin [of cfg "of_int k"] by (auto split: if_splits)
  from cap_le_bound [OF conjunct2 [OF k] this, of d]
  show "safeAmount (reserveTradeCheck cfg w q) \<le> cap_bound (if t0 = tin then r0 else r1) (of_int k)"
    unfolding r by simp
next
  fix raw liq p d
  assume h: "poolType q = JStr ''V3'' \<and> v3_slot0 w (poolAddress q) 0 = Some raw \<and>
       BigInt cfg (v3_liquidity raw) = Inr liq \<and>
       clamp_slippage cfg (slippagePercent q) = Inr (Fin (of_int p)) \<and>
       BigInt cfg (desiredAmount q) = Inr d"
  then have r: "reserveTradeCheck cfg w q =
         \<lparr>safeAmount = min d (sgn liq * (\<bar>liq\<bar> * (100 - p) div 100)),
          info = Some (V3Info (v3_token0 raw) (v3_token1 raw) liq
                         (js_coalesce (v3_sqrtPriceX96 raw) (JBig 0)))\<rparr>"
    by (intro reserveTradeCheck_V3) simp_all
  show "reserveTradeCheck cfg w q =
         \<lparr>safeAmount = min d (sgn liq * (\<bar>liq\<bar> * (100 - p) div 100)),
          info = Some (V3Info (v3_token0 raw) (v3_token1 raw) liq
                         (js_coalesce (v3_sqrtPriceX96 raw) (JBig 0)))\<rparr>" by (rule r)
  fix k assume k: "slippagePercent q = JNum (Fin (of_int k)) \<and> 0 \<le> liq"
  have "p = (if k = 0 then 1 else max 0 (min 99 k))"
    using h k clamp_slippage_Fin [of cfg "of_int k"] by (auto split: if_splits)
  from cap_le_bound [OF conjunct2 [OF k] this, of d]
  show "safeAmount (reserveTradeCheck cfg w q) \<le> cap_bound liq (of_int k)"
    unfolding r by simp
next
  fix r assume "reserveTradeCheck_try cfg w q = Inr r \<and> poolType q = JStr ''V2''"
  then show "\<exists>raw r0 r1 t0 tin p d.
          v2_getReserves w (pairAddress q) 0 = Some raw \<and>
          BigInt cfg (v2_reserve0 raw) = Inr r0 \<and> BigInt cfg (v2_reserve1 raw) = Inr r1 \<and>
          toLowerCase (v2_token0 raw) = Inr t0 \<and> toLowerCase (tokenIn q) = Inr tin \<and>
          clamp_slippage cfg (slippagePercent q) = Inr (Fin (of_int p)) \<and>
          BigInt cfg (desiredAmount q) = Inr d"
    by (intro reserveTradeCheck_try_V2) simp_all
next
  fix r assume "reserveTradeCheck_try cfg w q = Inr r \<and> poolType q = JStr ''V3''"
  then show "\<exists>raw liq p d.
          v3_slot0 w (poolAddress q) 0 = Some raw \<and>
          BigInt cfg (v3_liquidity raw) = Inr liq \<and>
          clamp_slippage cfg (slippagePercent q) = Inr (Fin (of_int p)) \<and>
          BigInt cfg (desiredAmount q) = Inr d"
    by (intro reserveTradeCheck_try_V3) simp_all
qed


lemma lower_samples:
  "toLowerCase (JStr ''0xAAA'') = Inr ''0xaaa''"
  "toLowerCase (JStr ''0xaaa'') = Inr ''0xaaa''"
  by code_simp+

theorem reserveTradeCheck_cap_witness:
  "reserveTradeCheck sample_config pool_world v2_query =
     \<lparr>safeAmount = 990000, info = Some (V2Info (JStr ''0xAAA'') (JStr ''0xbbb'') 1000000 5000)\<rparr> \<and>
   reserveTradeCheck sample_config pool_world v3_query =
     \<lparr>safeAmount = 100, info = Some (V3Info (JStr ''0xAAA'') (JStr ''0xbbb'') 700 (JBig 79))\<rparr> \<and>
   reserveTradeCheck sample_config pool_world (v2_query\<lparr>poolType := JStr ''V4''\<rparr>) =
     \<lparr>safeAmount = 0, info = None\<rparr> \<and>
   reserveTradeCheck sample_config pool_world (v2_query\<lparr>desiredAmount := JUndefined\<rparr>) =
     \<lparr>safeAmount = 0, info = None\<rparr> \<and>
   safeAmount (reserveTradeCheck sample_config sample_world v2_query) \<le> 2000000 \<and>
   clamp_slippage sample_config (JNum (Fin (7 / 2))) = Inr (Fin 3) \<and>
   reserveTradeCheck sample_config pool_world (v2_query\<lparr>slippagePercent := JNum (Fin (7 / 2))\<rparr>) =
     \<lparr>safeAmount = 970000, info = Some (V2Info (JStr ''0xAAA'') (JStr ''0xbbb'') 1000000 5000)\<rparr> \<and>
   safeAmount (reserveTradeCheck sample_config pool_world v2_query) \<le> cap_bound 1000000 1"
proof -
  note t = reserveTradeCheck_cap
  note pct = reserveTradeCheck_cap [where cfg = sample_config, THEN conjunct2, THEN conjunct2,
      THEN conjunct2, THEN conjunct1, rule_format]
  note v2 = reserveTradeCheck_cap [THEN conjunct2, THEN conjunct2, THEN conjunct2, THEN conjunct2,
      THEN conjunct2, THEN conjunct2, THEN conjunct1, rule_format]
  note v3 = reserveTradeCheck_cap [THEN conjunct2, THEN conjunct2, THEN conjunct2, THEN conjunct2,
      THEN conjunct2, THEN conjunct2, THEN conjunct2, THEN conjunct1, rule_format]
  have f1: "\<lfloor>7 / 2 :: rat\<rfloor> = 3" by (rule floor_unique) simp_all
  have p1: "clamp_slippage sample_config (JNum (Fin 1)) = Inr (Fin (of_int 1))"
    using pct [of 1] by simp
  have p5: "clamp_slippage sample_config (JNum (Fin 5)) = Inr (Fin (of_int 5))"
    using pct [of 5] by simp
  have p3: "clamp_slippage sample_config (JNum (Fin (7 / 2))) = Inr (Fin (of_int 3))"
    using pct [of "7 / 2"] by (simp add: f1)
  have wv2: "v2_getReserves pool_world (pairAddress v2_query) 0 = Some pool_v2"
    and wv3: "v3_slot0 pool_world (poolAddress v3_query) 0 = Some pool_v3"
    by (simp_all add: pool_world_def v2_query_def v3_query_def)
  have h2: "poolType v2_query = JStr ''V2'' \<and>
      v2_getReserves pool_world (pairAddress v2_query) 0 = Some pool_v2 \<and>
      BigInt sample_config (v2_reserve0 pool_v2) = Inr 1000000 \<and>
      BigInt sample_config (v2_reserve1 pool_v2) = Inr 5000 \<and>
      toLowerCase (v2_token0 pool_v2) = Inr ''0xaaa'' \<and>
      toLowerCase (tokenIn v2_query) = Inr ''0xaaa'' \<and>
      clamp_slippage sample_config (slippagePercent v2_query) = Inr (Fin (of_int 1)) \<and>
      BigInt sample_config (desiredAmount v2_query) = Inr 2000000"
    using wv2 p1 by (simp add: v2_query_def pool_v2_def BigInt_def lower_samples)
  have a: "reserveTradeCheck sample_config pool_world v2_query =
     \<lparr>safeAmount = 990000, info = Some (V2Info (JStr ''0xAAA'') (JStr ''0xbbb'') 1000000 5000)\<rparr>"
    using v2 [OF h2, THEN conjunct1] by (simp add: pool_v2_def)
  have h3: "poolType v3_query = JStr ''V3'' \<and>
      v3_slot0 pool_world (poolAddress v3_query) 0 = Some pool_v3 \<and>
      BigInt sample_config (v3_liquidity pool_v3) = Inr 700 \<and>
      clamp_slippage sample_config (slippagePercent v3_query) = Inr (Fin (of_int 5)) \<and>
      BigInt sample_config (desiredAmount v3_query) = Inr 100"
    using wv3 p5 by (simp add: v3_query_def pool_v3_def BigInt_def)
  have b: "reserveTradeCheck sample_config pool_world v3_query =
     \<lparr>safeAmount = 100, info = Some (V3Info (JStr ''0xAAA'') (JStr ''0xbbb'') 700 (JBig 79))\<rparr>"
    using v3 [OF h3, THEN conjunct1] by (simp add: pool_v3_def js_coalesce_def nullish_def)
  have c: "reserveTradeCheck sample_config pool_world (v2_query\<lparr>poolType := JStr ''V4''\<rparr>) =
     \<lparr>safeAmount = 0, info = None\<rparr>"
    using t [of sample_config pool_world "v2_query\<lparr>poolType := JStr ''V4''\<rparr>",
        THEN conjunct2, THEN conjunct1]
    by simp
  have "reserveTradeCheck_try sample_config pool_world (v2_query\<lparr>desiredAmount := JUndefined\<rparr>)
      = Inl TypeError"
    using wv2 p1
    by (simp add: reserveTradeCheck_try_def v2_query_def and_then_def
        pool_v2_def BigInt_def lower_samples capped_amount_def num_eval bigint_div_def)
  then have d: "reserveTradeCheck sample_config pool_world (v2_query\<lparr>desiredAmount := JUndefined\<rparr>) =
     \<lparr>safeAmount = 0, info = None\<rparr>"
    using t [of sample_config pool_world "v2_query\<lparr>desiredAmount := JUndefined\<rparr>",
        THEN conjunct1, rule_format, of TypeError]
    by simp
  have e: "safeAmount (reserveTradeCheck sample_config sample_world v2_query) \<le> 2000000"
    using t [of sample_config sample_world v2_query, THEN conjunct2, THEN conjunct2,
        THEN conjunct1, rule_format, of 2000000, THEN conjunct1]
    by (simp add: v2_query_def BigInt_def)
  have f: "clamp_slippage sample_config (JNum (Fin (7 / 2))) = Inr (Fin 3)"
    using p3 by simp
  let ?q = "v2_query\<lparr>slippagePercent := JNum (Fin (7 / 2))\<rparr>"
  have hq: "poolType ?q = JStr ''V2'' \<and>
      v2_getReserves pool_world (pairAddress ?q) 0 = Some pool_v2 \<and>
      BigInt sample_config (v2_reserve0 pool_v2) = Inr 1000000 \<and>
      BigInt sample_config (v2_reserve1 pool_v2) = Inr 5000 \<and>
      toLowerCase (v2_token0 pool_v2) = Inr ''0xaaa'' \<and>
      toLowerCase (tokenIn ?q) = Inr ''0xaaa'' \<and>
      clamp_slippage sample_config (slippagePercent ?q) = Inr (Fin (of_int 3)) \<and>
      BigInt sample_config (desiredAmount ?q) = Inr 2000000"
    using wv2 p3 by (simp add: v2_query_def pool_v2_def BigInt_def lower_samples)
  have g: "reserveTradeCheck sample_config pool_world ?q =
     \<lparr>safeAmount = 970000, info = Some (V2Info (JStr ''0xAAA'') (JStr ''0xbbb'') 1000000 5000)\<rparr>"
    using v2 [OF hq, THEN conjunct1] by (simp add: pool_v2_def)
  have k: "slippagePercent v2_query = JNum (Fin (of_int 1)) \<and>
      0 \<le> (if ''0xaaa'' = ''0xaaa'' then 1000000 else (5000::int))"
    by (simp add: v2_query_def)
  have h: "safeAmount (reserveTradeCheck sample_config pool_world v2_query) \<le> cap_bound 1000000 1"
    using v2 [OF h2, THEN conjunct2, rule_format, OF k] by simp
  show ?thesis
    by (rule conjI [OF a conjI [OF b conjI [OF c conjI [OF d conjI [OF e conjI [OF f
          conjI [OF g h]]]]]]])
qed

text \<open>
  Claim C9 as stated fails. The check floors the percentage before it clamps it: at
  \<^verbatim>\<open>slippagePercent = 0.5\<close> it takes 0, and returns the whole reserve of 1000000 for a
  desired amount of 2000000, above the cap \<open>1000000 * (100 - 0.5) / 100 = 995000\<close> of the
  claim. And the result for an unrecognised pool type, 0, exceeds a desired amount of -5.
\<close>

theorem reserveTradeCheck_exceeds_cap:
  "safeAmount (reserveTradeCheck sample_config pool_world
      (v2_query\<lparr>slippagePercent := JNum (Fin (1 / 2))\<rparr>)) = 1000000 \<and>
   cap_bound 1000000 (1 / 2) = 995000 \<and>
   safeAmount (reserveTradeCheck sample_config pool_world
      (v2_query\<lparr>poolType := JStr ''V4'', desiredAmount := JBig (- 5)\<rparr>)) = 0"
  by code_simp

section \<open>The composed guard keeps the order of its steps\<close>

lemma step_trace:
  "step name t0 tr s = (tr', s') \<Longrightarrow>
   map fst tr' = map fst tr @ [name] \<and> length tr' = Suc (length tr)"
  by (auto simp: step_def Date_now_def)

lemma run_enrich_ok:
  "ok (fst (run_enrich cfg w P t0 tr slip pt gas s)) \<and>
   reason (fst (run_enrich cfg w P t0 tr slip pt gas s)) = None \<and>
   (\<exists>r f l. details (fst (run_enrich cfg w P t0 tr slip pt gas s)) = DAll slip pt gas r f l) \<and>
   map fst (trace (fst (run_enrich cfg w P t0 tr slip pt gas s)))
     = map fst tr @ [''poolState'', ''fallback'', ''lock'']"
  by (auto simp: run_enrich_def Let_def step_def Date_now_def split: prod.splits)

lemma run_enrich_in_order:
  assumes "map fst tr = [''cooldown'', ''mev'', ''slippage'', ''profit'', ''gas'',
      ''walletBalance'', ''flashLoan'']"
    and "slip_ok slip" "pt_ok pt" "gas_ok gas"
  shows "in_order cfg w P (fst (run_enrich cfg w P t0 tr slip pt gas s))"
proof -
  let ?v = "fst (run_enrich cfg w P t0 tr slip pt gas s)"
  note e = run_enrich_ok [of cfg w P t0 tr slip pt gas s]
  have n: "map fst (trace ?v) = pipeline_steps" using e assms(1) by (simp add: pipeline_steps_def)
  then have "length (map fst (trace ?v)) = 10" by (simp add: pipeline_steps_def)
  then have l: "length (trace ?v) = 10" by simp
  have tk: "take 10 pipeline_steps = pipeline_steps" by (simp add: pipeline_steps_def)
  show ?thesis unfolding in_order_def using e n l assms(2-4) by (auto simp: tk)
qed

lemma run_flash_in_order:
  assumes "map fst tr = [''cooldown'', ''mev'', ''slippage'', ''profit'', ''gas'',
      ''walletBalance'']"
    and "slip_ok slip" "pt_ok pt" "gas_ok gas"
  shows "in_order cfg w P (fst (run_flash cfg w P t0 tr slip pt gas s))"
proof (cases "flashCandidates P \<noteq> []")
  case True
  obtain fl s1 where g: "isFlashLoanAvailable cfg w (flashCandidates P) s = (fl, s1)" by force
  obtain tr1 s2 where st: "step ''flashLoan'' t0 tr s1 = (tr1, s2)" by force
  note t = step_trace [OF st]
  have n: "map fst tr1 = [''cooldown'', ''mev'', ''slippage'', ''profit'', ''gas'',
      ''walletBalance'', ''flashLoan'']" using t assms(1) by simp
  show ?thesis
  proof (cases "fl_ok fl")
    case True
    then have "fst (run_flash cfg w P t0 tr slip pt gas s)
        = fst (run_enrich cfg w P t0 tr1 slip pt gas s2)"
      using \<open>flashCandidates P \<noteq> []\<close> by (simp add: run_flash_def g st)
    then show ?thesis using run_enrich_in_order [OF n assms(2-4)] by simp
  next
    case False
    then have r: "fst (run_flash cfg w P t0 tr slip pt gas s)
        = rejected ''flashNotAvailable'' (DFlash fl) tr1"
      using \<open>flashCandidates P \<noteq> []\<close> by (simp add: run_flash_def g st)
    have "length (map fst tr1) = 7" unfolding n by simp
    then have l: "length tr1 = 7" by simp
    have gv: "guard_verdict_of cfg w P s (DFlash fl)" using g by (simp add: guard_verdict_of_def)
    show ?thesis
      unfolding r in_order_def
      using False n l gv
      by (auto simp: rejected_def pipeline_steps_def failing_details_def guard_reason_def
          guard_index_def)
  qed
next
  case False
  obtain tr1 s1 where st: "step ''flashLoan'' t0 tr s = (tr1, s1)" by force
  note t = step_trace [OF st]
  have n: "map fst tr1 = [''cooldown'', ''mev'', ''slippage'', ''profit'', ''gas'',
      ''walletBalance'', ''flashLoan'']" using t assms(1) by simp
  have "fst (run_flash cfg w P t0 tr slip pt gas s)
        = fst (run_enrich cfg w P t0 tr1 slip pt gas s1)"
    using False by (simp add: run_flash_def st)
  then show ?thesis using run_enrich_in_order [OF n assms(2-4)] by simp
qed


lemma rejected_in_order:
  assumes "map fst tr1 = take (guard_index d) pipeline_steps"
    and "failing_details d" "guard_verdict_of cfg w P s0 d"
    and "\<forall>wb. d = DWallet wb \<longrightarrow> truthy (needed_token P)"
  shows "in_order cfg w P (rejected (guard_reason d) d tr1)"
proof -
  have gi: "guard_index d \<le> 7"
    by (cases d) (simp_all add: guard_index_def)
  have "length (map fst tr1) = guard_index d"
    unfolding assms(1) using gi by (simp add: pipeline_steps_def)
  then have l: "length tr1 = guard_index d" by simp
  show ?thesis
    unfolding in_order_def using assms gi l by (auto simp: rejected_def)
qed

lemma run_wallet_in_order:
  assumes "map fst tr = [''cooldown'', ''mev'', ''slippage'', ''profit'', ''gas'']"
    and "slip_ok slip" "pt_ok pt" "gas_ok gas"
    and "run_wallet cfg w P t0 tr slip pt gas s = (Inr v, s')"
  shows "in_order cfg w P v"
proof (cases "truthy (needed_token P)")
  case True
  obtain r s1 where g: "hasWalletBalance cfg w (wallet P) (needed_token P) (needed_amount P) s
      = (r, s1)" by force
  with True assms(5) obtain wb where r: "r = Inr wb"
    by (cases r) (auto simp: run_wallet_def)
  obtain tr1 s2 where st: "step ''walletBalance'' t0 tr s1 = (tr1, s2)" by force
  have n: "map fst tr1 = [''cooldown'', ''mev'', ''slippage'', ''profit'', ''gas'',
      ''walletBalance'']" using step_trace [OF st] assms(1) by simp
  show ?thesis
  proof (cases "wb_ok wb")
    case True
    then have "v = fst (run_flash cfg w P t0 tr1 slip pt gas s2)"
      using \<open>truthy (needed_token P)\<close> assms(5)
      by (simp add: run_wallet_def g r st split: prod.splits)
    then show ?thesis using run_flash_in_order [OF n assms(2-4)] by simp
  next
    case False
    then have v: "v = rejected (guard_reason (DWallet wb)) (DWallet wb) tr1"
      using \<open>truthy (needed_token P)\<close> assms(5)
      by (simp add: run_wallet_def g r st guard_reason_def)
    show ?thesis unfolding v
      by (rule rejected_in_order [where ?s0.0 = s])
        (use n False g r \<open>truthy (needed_token P)\<close> in
          \<open>simp_all add: guard_index_def pipeline_steps_def failing_details_def
            guard_verdict_of_def\<close>)
  qed
next
  case False
  obtain tr1 s1 where st: "step ''walletBalance'' t0 tr s = (tr1, s1)" by force
  have n: "map fst tr1 = [''cooldown'', ''mev'', ''slippage'', ''profit'', ''gas'',
      ''walletBalance'']" using step_trace [OF st] assms(1) by simp
  have "v = fst (run_flash cfg w P t0 tr1 slip pt gas s1)"
    using False assms(5) by (simp add: run_wallet_def st split: prod.splits)
  then show ?thesis using run_flash_in_order [OF n assms(2-4)] by simp
qed

lemma run_gas_in_order:
  assumes "map fst tr = [''cooldown'', ''mev'', ''slippage'', ''profit'']"
    and "slip_ok slip" "pt_ok pt"
    and "run_gas cfg w P t0 tr slip pt s = (Inr v, s')"
  shows "in_order cfg w P v"
proof -
  obtain gas s1 where g: "assessGas cfg w (txRequest P) s = (gas, s1)" by force
  obtain tr1 s2 where st: "step ''gas'' t0 tr s1 = (tr1, s2)" by force
  have n: "map fst tr1 = [''cooldown'', ''mev'', ''slippage'', ''profit'', ''gas'']"
    using step_trace [OF st] assms(1) by simp
  show ?thesis
  proof (cases "gas_ok gas")
    case True
    then have "run_wallet cfg w P t0 tr1 slip pt gas s2 = (Inr v, s')"
      using assms(4) by (simp add: run_gas_def g st)
    then show ?thesis by (rule run_wallet_in_order [OF n assms(2,3) True])
  next
    case False
    then have v: "v = rejected (guard_reason (DGas gas)) (DGas gas) tr1"
      using assms(4) by (simp add: run_gas_def g st guard_reason_def)
    show ?thesis unfolding v
      by (rule rejected_in_order [where ?s0.0 = s])
        (use n False g in \<open>simp_all add: guard_index_def pipeline_steps_def failing_details_def
          guard_verdict_of_def\<close>)
  qed
qed

lemma run_profit_in_order:
  assumes "map fst tr = [''cooldown'', ''mev'', ''slippage'']"
    and "slip_ok slip"
    and "run_profit cfg w P t0 tr slip s = (Inr v, s')"
  shows "in_order cfg w P v"
proof -
  have np: "\<not> (\<not> (isFiniteNumber (profitUsd P) \<and> isFiniteNumber (notionalUsd P)) \<and> \<not> providerUp w)"
    using assms(3) by (auto simp: run_profit_def split: if_splits)
  have unf: "run_profit cfg w P t0 tr slip s =
      (let (pt, s1) = assess_profit cfg w P s;
           (tr1, s2) = step ''profit'' t0 tr s1
       in if \<not> pt_ok pt then (Inr (rejected ''profitBelowThreshold'' (DProfit pt) tr1), s2)
          else run_gas cfg w P t0 tr1 slip pt s2)"
    unfolding run_profit_def by (rule if_not_P [OF np])
  obtain pt s1 where g: "assess_profit cfg w P s = (pt, s1)" by force
  obtain tr1 s2 where st: "step ''profit'' t0 tr s1 = (tr1, s2)" by force
  have n: "map fst tr1 = [''cooldown'', ''mev'', ''slippage'', ''profit'']"
    using step_trace [OF st] assms(1) by simp
  show ?thesis
  proof (cases "pt_ok pt")
    case True
    then have "run_gas cfg w P t0 tr1 slip pt s2 = (Inr v, s')"
      using assms(3) by (simp add: unf g st)
    then show ?thesis by (rule run_gas_in_order [OF n assms(2) True])
  next
    case False
    then have v: "v = rejected (guard_reason (DProfit pt)) (DProfit pt) tr1"
      using assms(3) by (simp add: unf g st guard_reason_def)
    show ?thesis unfolding v
      by (rule rejected_in_order [where ?s0.0 = s])
        (use n False g in \<open>simp_all add: guard_index_def pipeline_steps_def failing_details_def
          guard_verdict_of_def\<close>)
  qed
qed

lemma run_slippage_in_order:
  assumes "map fst tr = [''cooldown'', ''mev'']"
    and "run_slippage cfg w P t0 tr s = (Inr v, s')"
  shows "in_order cfg w P v"
proof -
  obtain slip where g: "validateSlippage cfg (expectedOut P) (minOut P) = Inr slip"
    using assms(2) by (cases "validateSlippage cfg (expectedOut P) (minOut P)")
      (auto simp: run_slippage_def)
  obtain tr1 s1 where st: "step ''slippage'' t0 tr s = (tr1, s1)" by force
  have n: "map fst tr1 = [''cooldown'', ''mev'', ''slippage'']"
    using step_trace [OF st] assms(1) by simp
  show ?thesis
  proof (cases "slip_ok slip")
    case True
    then have "run_profit cfg w P t0 tr1 slip s1 = (Inr v, s')"
      using assms(2) by (simp add: run_slippage_def g st)
    then show ?thesis by (rule run_profit_in_order [OF n True])
  next
    case False
    then have v: "v = rejected (guard_reason (DSlippage slip)) (DSlippage slip) tr1"
      using assms(2) by (simp add: run_slippage_def g st guard_reason_def)
    show ?thesis unfolding v
      by (rule rejected_in_order [where ?s0.0 = s])
        (use n False g in \<open>simp_all add: guard_index_def pipeline_steps_def failing_details_def
          guard_verdict_of_def\<close>)
  qed
qed

lemma run_mev_in_order:
  assumes "map fst tr = [''cooldown'']"
    and "run_mev cfg w P t0 tr s = (Inr v, s')"
  shows "in_order cfg w P v"
proof -
  obtain mev s1 where g: "isMEVRisk cfg s = (mev, s1)" by force
  obtain tr1 s2 where st: "step ''mev'' t0 tr s1 = (tr1, s2)" by force
  have n: "map fst tr1 = [''cooldown'', ''mev'']"
    using step_trace [OF st] assms(1) by simp
  show ?thesis
  proof (cases "risk mev")
    case False
    then have "run_slippage cfg w P t0 tr1 s2 = (Inr v, s')"
      using assms(2) by (simp add: run_mev_def g st)
    then show ?thesis by (rule run_slippage_in_order [OF n])
  next
    case True
    then have v: "v = rejected (guard_reason (DMev mev)) (DMev mev) tr1"
      using assms(2) by (simp add: run_mev_def g st guard_reason_def)
    show ?thesis unfolding v
      by (rule rejected_in_order [where ?s0.0 = s])
        (use n True g in \<open>simp_all add: guard_index_def pipeline_steps_def failing_details_def
          guard_verdict_of_def\<close>)
  qed
qed

lemma runProtections_in_order:
  assumes "runProtections cfg w P s = (Inr v, s')"
  shows "in_order cfg w P v"
proof -
  obtain t0 s0 where d: "Date_now s = (t0, s0)" by force
  obtain cd s1 where g: "enforceCooldown cfg (routeKey P) s0 = (cd, s1)" by force
  obtain tr1 s2 where st: "step ''cooldown'' t0 [] s1 = (tr1, s2)" by force
  have n: "map fst tr1 = [''cooldown'']" using step_trace [OF st] by simp
  show ?thesis
  proof (cases "cd_ok cd")
    case True
    then have "run_mev cfg w P t0 tr1 s2 = (Inr v, s')"
      using assms by (simp add: runProtections_def d g st)
    then show ?thesis by (rule run_mev_in_order [OF n])
  next
    case False
    then have v: "v = rejected (guard_reason (DCooldown cd)) (DCooldown cd) tr1"
      using assms by (simp add: runProtections_def d g st guard_reason_def)
    show ?thesis unfolding v
      by (rule rejected_in_order [where ?s0.0 = s0])
        (use n False g in \<open>simp_all add: guard_index_def pipeline_steps_def failing_details_def
          guard_verdict_of_def\<close>)
  qed
qed

lemma runProtections_forward:
  "(Date_now s = (t0, s0) \<and> enforceCooldown cfg (routeKey P) s0 = (cd, s1) \<and>
    step ''cooldown'' t0 [] s1 = (tr1, s2) \<longrightarrow>
     (\<not> cd_ok cd \<longrightarrow>
        runProtections cfg w P s = (Inr (rejected ''cooldown'' (DCooldown cd) tr1), s2)) \<and>
     (cd_ok cd \<and> isMEVRisk cfg s2 = (mev, s3) \<and> step ''mev'' t0 tr1 s3 = (tr2, s4) \<longrightarrow>
        (risk mev \<longrightarrow>
           runProtections cfg w P s = (Inr (rejected ''mevRisk'' (DMev mev) tr2), s4)) \<and>
        (\<not> risk mev \<and> validateSlippage cfg (expectedOut P) (minOut P) = Inr slip \<and>
         step ''slippage'' t0 tr2 s4 = (tr3, s5) \<longrightarrow>
           (\<not> slip_ok slip \<longrightarrow>
              runProtections cfg w P s = (Inr (rejected ''slippage'' (DSlippage slip) tr3), s5)) \<and>
           (slip_ok slip \<and>
            (isFiniteNumber (profitUsd P) \<and> isFiniteNumber (notionalUsd P) \<or> providerUp w) \<and>
            assess_profit cfg w P s5 = (pt, s6) \<and> step ''profit'' t0 tr3 s6 = (tr4, s7) \<longrightarrow>
              (\<not> pt_ok pt \<longrightarrow>
                 runProtections cfg w P s =
                   (Inr (rejected ''profitBelowThreshold'' (DProfit pt) tr4), s7)) \<and>
              (pt_ok pt \<and> assessGas cfg w (txRequest P) s7 = (gas, s8) \<and>
               step ''gas'' t0 tr4 s8 = (tr5, s9) \<longrightarrow>
                 (\<not> gas_ok gas \<longrightarrow>
                    runProtections cfg w P s = (Inr (rejected ''gasBad'' (DGas gas) tr5), s9)) \<and>
                 (gas_ok gas \<and>
                  (if truthy (needed_token P)
                   then hasWalletBalance cfg w (wallet P) (needed_token P) (needed_amount P) s9
                          = (Inr wb, s10)
                   else s10 = s9) \<and>
                  step ''walletBalance'' t0 tr5 s10 = (tr6, s11) \<longrightarrow>
                    (truthy (needed_token P) \<and> \<not> wb_ok wb \<longrightarrow>
                       runProtections cfg w P s =
                         (Inr (rejected ''insufficientBalance'' (DWallet wb) tr6), s11)) \<and>
                    ((truthy (needed_token P) \<longrightarrow> wb_ok wb) \<and>
                     (if flashCandidates P \<noteq> []
                      then isFlashLoanAvailable cfg w (flashCandidates P) s11 = (fl, s12)
                      else s12 = s11) \<and>
                     step ''flashLoan'' t0 tr6 s12 = (tr7, s13) \<longrightarrow>
                       (flashCandidates P \<noteq> [] \<and> \<not> fl_ok fl \<longrightarrow>
                          runProtections cfg w P s =
                            (Inr (rejected ''flashNotAvailable'' (DFlash fl) tr7), s13)) \<and>
                       ((flashCandidates P \<noteq> [] \<longrightarrow> fl_ok fl) \<longrightarrow>
                          runProtections cfg w P s =
                            (Inr (fst (run_enrich cfg w P t0 tr7 slip pt gas s13)),
                             snd (run_enrich cfg w P t0 tr7 slip pt gas s13))))))))))"
  by (auto simp: runProtections_def run_mev_def run_slippage_def run_profit_def run_gas_def
      run_wallet_def run_flash_def split: prod.splits if_splits)


lemma runProtections_converse:
  assumes d: "Date_now s = (t0, s0)" and cd: "enforceCooldown cfg (routeKey P) s0 = (cd, s1)"
    and st1: "step ''cooldown'' t0 [] s1 = (tr1, s2)"
    and mv: "isMEVRisk cfg s2 = (mev, s3)" and st2: "step ''mev'' t0 tr1 s3 = (tr2, s4)"
    and st3: "step ''slippage'' t0 tr2 s4 = (tr3, s5)"
    and pr: "assess_profit cfg w P s5 = (pt, s6)" and st4: "step ''profit'' t0 tr3 s6 = (tr4, s7)"
    and gs: "assessGas cfg w (txRequest P) s7 = (gas, s8)" and st5: "step ''gas'' t0 tr4 s8 = (tr5, s9)"
    and wl: "if truthy (needed_token P)
       then hasWalletBalance cfg w (wallet P) (needed_token P) (needed_amount P) s9 = (rwb, s10)
       else s10 = s9"
    and st6: "step ''walletBalance'' t0 tr5 s10 = (tr6, s11)"
    and fl: "if flashCandidates P \<noteq> []
       then isFlashLoanAvailable cfg w (flashCandidates P) s11 = (fl, s12)
       else s12 = s11"
    and st7: "step ''flashLoan'' t0 tr6 s12 = (tr7, s13)"
    and run: "runProtections cfg w P s = (Inr v, s')" and ok: "ok v"
  shows "cd_ok cd \<and> \<not> risk mev \<and>
     (\<exists>slip. validateSlippage cfg (expectedOut P) (minOut P) = Inr slip \<and> slip_ok slip \<and>
        v = fst (run_enrich cfg w P t0 tr7 slip pt gas s13) \<and>
        s' = snd (run_enrich cfg w P t0 tr7 slip pt gas s13)) \<and>
     (isFiniteNumber (profitUsd P) \<and> isFiniteNumber (notionalUsd P) \<or> providerUp w) \<and>
     pt_ok pt \<and> gas_ok gas \<and>
     (truthy (needed_token P) \<longrightarrow> (\<exists>wb. rwb = Inr wb \<and> wb_ok wb)) \<and>
     (flashCandidates P \<noteq> [] \<longrightarrow> fl_ok fl)"
proof -
  have c1: "cd_ok cd" and r1: "run_mev cfg w P t0 tr1 s2 = (Inr v, s')"
    using run ok by (auto simp: runProtections_def d cd st1 rejected_def split: if_splits)
  have c2: "\<not> risk mev" and r2: "run_slippage cfg w P t0 tr2 s4 = (Inr v, s')"
    using r1 ok by (auto simp: run_mev_def mv st2 rejected_def split: if_splits)
  obtain slip where sl: "validateSlippage cfg (expectedOut P) (minOut P) = Inr slip"
    using r2 by (cases "validateSlippage cfg (expectedOut P) (minOut P)")
      (auto simp: run_slippage_def)
  have c3: "slip_ok slip" and r3: "run_profit cfg w P t0 tr3 slip s5 = (Inr v, s')"
    using r2 ok by (auto simp: run_slippage_def sl st3 rejected_def split: if_splits)
  have np: "\<not> (\<not> (isFiniteNumber (profitUsd P) \<and> isFiniteNumber (notionalUsd P)) \<and> \<not> providerUp w)"
    using r3 by (auto simp: run_profit_def split: if_splits)
  have unf: "run_profit cfg w P t0 tr3 slip s5 =
      (let (pt, s1) = assess_profit cfg w P s5;
           (tr1, s2) = step ''profit'' t0 tr3 s1
       in if \<not> pt_ok pt then (Inr (rejected ''profitBelowThreshold'' (DProfit pt) tr1), s2)
          else run_gas cfg w P t0 tr1 slip pt s2)"
    unfolding run_profit_def by (rule if_not_P [OF np])
  have c4: "pt_ok pt" and r4: "run_gas cfg w P t0 tr4 slip pt s7 = (Inr v, s')"
    using r3 ok by (auto simp: unf pr st4 rejected_def split: if_splits)
  have c5: "gas_ok gas" and r5: "run_wallet cfg w P t0 tr5 slip pt gas s9 = (Inr v, s')"
    using r4 ok by (auto simp: run_gas_def gs st5 rejected_def split: if_splits)
  have c6: "truthy (needed_token P) \<longrightarrow> (\<exists>wb. rwb = Inr wb \<and> wb_ok wb)"
    and r6: "run_flash cfg w P t0 tr6 slip pt gas s11 = (v, s')"
  proof -
    show "truthy (needed_token P) \<longrightarrow> (\<exists>wb. rwb = Inr wb \<and> wb_ok wb)"
    proof
      assume t: "truthy (needed_token P)"
      with wl have h: "hasWalletBalance cfg w (wallet P) (needed_token P) (needed_amount P) s9
          = (rwb, s10)" by simp
      show "\<exists>wb. rwb = Inr wb \<and> wb_ok wb"
        using r5 ok t by (cases rwb)
          (auto simp: run_wallet_def h st6 rejected_def split: if_splits prod.splits)
    qed
    show "run_flash cfg w P t0 tr6 slip pt gas s11 = (v, s')"
    proof (cases "truthy (needed_token P)")
      case True
      with wl have h: "hasWalletBalance cfg w (wallet P) (needed_token P) (needed_amount P) s9
          = (rwb, s10)" by simp
      show ?thesis
        using r5 ok True by (cases rwb)
          (auto simp: run_wallet_def h st6 rejected_def split: if_splits prod.splits)
    next
      case False
      with wl have "s10 = s9" by simp
      then show ?thesis
        using r5 False st6 by (auto simp: run_wallet_def split: prod.splits)
    qed
  qed
  have c7: "flashCandidates P \<noteq> [] \<longrightarrow> fl_ok fl"
    and r7: "run_enrich cfg w P t0 tr7 slip pt gas s13 = (v, s')"
  proof -
    show "flashCandidates P \<noteq> [] \<longrightarrow> fl_ok fl"
    proof
      assume t: "flashCandidates P \<noteq> []"
      with fl have h: "isFlashLoanAvailable cfg w (flashCandidates P) s11 = (fl, s12)" by simp
      show "fl_ok fl"
        using r6 ok t by (auto simp: run_flash_def h st7 rejected_def split: if_splits)
    qed
    show "run_enrich cfg w P t0 tr7 slip pt gas s13 = (v, s')"
    proof (cases "flashCandidates P \<noteq> []")
      case True
      with fl have h: "isFlashLoanAvailable cfg w (flashCandidates P) s11 = (fl, s12)" by simp
      show ?thesis
        using r6 ok True by (auto simp: run_flash_def h st7 rejected_def split: if_splits)
    next
      case False
      with fl have "s12 = s11" by simp
      then show ?thesis using r6 False st7 by (auto simp: run_flash_def)
    qed
  qed
  have e: "\<exists>slip. validateSlippage cfg (expectedOut P) (minOut P) = Inr slip \<and> slip_ok slip \<and>
        v = fst (run_enrich cfg w P t0 tr7 slip pt gas s13) \<and>
        s' = snd (run_enrich cfg w P t0 tr7 slip pt gas s13)"
    by (rule exI [of _ slip]) (simp add: sl c3 r7)
  have p: "isFiniteNumber (profitUsd P) \<and> isFiniteNumber (notionalUsd P) \<or> providerUp w"
    using np by blast
  show ?thesis
    by (rule conjI [OF c1 conjI [OF c2 conjI [OF e conjI [OF p conjI [OF c4 conjI [OF c5
          conjI [OF c6 c7]]]]]]])
qed


lemma step_record:
  "step name t0 tr x = (tr', x') \<Longrightarrow>
   tr' = tr @ [(name, num_sub (fst (Date_now x)) t0)] \<and> x' = snd (Date_now x)"
  by (auto simp: step_def split: prod.splits)

text \<open>
  Claim C1. \<open>runProtections\<close> evaluates its guards in the order cooldown, MEV risk,
  slippage, profit, gas, wallet balance, flash loan, each in the state that the steps
  before it have left, and pushes the name of each step and the time since the start onto
  the trace. Naming the verdicts, traces and states of these steps one after the other: the
  first guard whose verdict fails makes the run return \<open>ok = false\<close> with the reason of that
  guard, that verdict as details, the trace up to that step, and the state as that step
  left it; the wallet-balance guard is evaluated only for a truthy token and the flash-loan
  guard only for a non-empty candidate list, and their steps are recorded either way. When
  all seven pass, the run returns what the last part returns, on the trace and in the state
  after the seventh step: it fetches the pool state, selects the fallback token and splits
  the profit, and is \<open>ok\<close> whatever these come to. Conversely a run returns an \<open>ok\<close> verdict
  only when every guard has passed. So every returned verdict has a trace that names the
  steps in their fixed order from the first one on, all ten exactly when it is \<open>ok\<close>.
\<close>

theorem runProtections_short_circuit:
  "(Date_now s = (t0, s0) \<and> enforceCooldown cfg (routeKey P) s0 = (cd, s1) \<and>
    step ''cooldown'' t0 [] s1 = (tr1, s2) \<longrightarrow>
     (\<not> cd_ok cd \<longrightarrow>
        runProtections cfg w P s = (Inr (rejected ''cooldown'' (DCooldown cd) tr1), s2)) \<and>
     (cd_ok cd \<and> isMEVRisk cfg s2 = (mev, s3) \<and> step ''mev'' t0 tr1 s3 = (tr2, s4) \<longrightarrow>
        (risk mev \<longrightarrow>
           runProtections cfg w P s = (Inr (rejected ''mevRisk'' (DMev mev) tr2), s4)) \<and>
        (\<not> risk mev \<and> validateSlippage cfg (expectedOut P) (minOut P) = Inr slip \<and>
         step ''slippage'' t0 tr2 s4 = (tr3, s5) \<longrightarrow>
           (\<not> slip_ok slip \<longrightarrow>
              runProtections cfg w P s = (Inr (rejected ''slippage'' (DSlippage slip) tr3), s5)) \<and>
           (slip_ok slip \<and>
            (isFiniteNumber (profitUsd P) \<and> isFiniteNumber (notionalUsd P) \<or> providerUp w) \<and>
            assess_profit cfg w P s5 = (pt, s6) \<and> step ''profit'' t0 tr3 s6 = (tr4, s7) \<longrightarrow>
              (\<not> pt_ok pt \<longrightarrow>
                 runProtections cfg w P s =
                   (Inr (rejected ''profitBelowThreshold'' (DProfit pt) tr4), s7)) \<and>
              (pt_ok pt \<and> assessGas cfg w (txRequest P) s7 = (gas, s8) \<and>
               step ''gas'' t0 tr4 s8 = (tr5, s9) \<longrightarrow>
                 (\<not> gas_ok gas \<longrightarrow>
                    runProtections cfg w P s = (Inr (rejected ''gasBad'' (DGas gas) tr5), s9)) \<and>
                 (gas_ok gas \<and>
                  (if truthy (needed_token P)
                   then hasWalletBalance cfg w (wallet P) (needed_token P) (needed_amount P) s9
                          = (Inr wb, s10)
                   else s10 = s9) \<and>
                  step ''walletBalance'' t0 tr5 s10 = (tr6, s11) \<longrightarrow>
                    (truthy (needed_token P) \<and> \<not> wb_ok wb \<longrightarrow>
                       runProtections cfg w P s =
                         (Inr (rejected ''insufficientBalance'' (DWallet wb) tr6), s11)) \<and>
                    ((truthy (needed_token P) \<longrightarrow> wb_ok wb) \<and>
                     (if flashCandidates P \<noteq> []
                      then isFlashLoanAvailable cfg w (flashCandidates P) s11 = (fl, s12)
                      else s12 = s11) \<and>
                     step ''flashLoan'' t0 tr6 s12 = (tr7, s13) \<longrightarrow>
                       (flashCandidates P \<noteq> [] \<and> \<not> fl_ok fl \<longrightarrow>
                          runProtections cfg w P s =
                            (Inr (rejected ''flashNotAvailable'' (DFlash fl) tr7), s13)) \<and>
                       ((flashCandidates P \<noteq> [] \<longrightarrow> fl_ok fl) \<longrightarrow>
                          runProtections cfg w P s =
                            (Inr (fst (run_enrich cfg w P t0 tr7 slip pt gas s13)),
                             snd (run_enrich cfg w P t0 tr7 slip pt gas s13)))))))))) \<and>
   (Date_now s = (t0, s0) \<and> enforceCooldown cfg (routeKey P) s0 = (cd, s1) \<and>
    step ''cooldown'' t0 [] s1 = (tr1, s2) \<and>
    isMEVRisk cfg s2 = (mev, s3) \<and> step ''mev'' t0 tr1 s3 = (tr2, s4) \<and>
    step ''slippage'' t0 tr2 s4 = (tr3, s5) \<and>
    assess_profit cfg w P s5 = (pt, s6) \<and> step ''profit'' t0 tr3 s6 = (tr4, s7) \<and>
    assessGas cfg w (txRequest P) s7 = (gas, s8) \<and> step ''gas'' t0 tr4 s8 = (tr5, s9) \<and>
    (if truthy (needed_token P)
     then hasWalletBalance cfg w (wallet P) (needed_token P) (needed_amount P) s9 = (rwb, s10)
     else s10 = s9) \<and>
    step ''walletBalance'' t0 tr5 s10 = (tr6, s11) \<and>
    (if flashCandidates P \<noteq> []
     then isFlashLoanAvailable cfg w (flashCandidates P) s11 = (fl, s12)
     else s12 = s11) \<and>
    step ''flashLoan'' t0 tr6 s12 = (tr7, s13) \<and>
    runProtections cfg w P s = (Inr v, s') \<and> ok v \<longrightarrow>
      cd_ok cd \<and> \<not> risk mev \<and>
      (\<exists>slip. validateSlippage cfg (expectedOut P) (minOut P) = Inr slip \<and> slip_ok slip \<and>
         v = fst (run_enrich cfg w P t0 tr7 slip pt gas s13) \<and>
         s' = snd (run_enrich cfg w P t0 tr7 slip pt gas s13)) \<and>
      (isFiniteNumber (profitUsd P) \<and> isFiniteNumber (notionalUsd P) \<or> providerUp w) \<and>
      pt_ok pt \<and> gas_ok gas \<and>
      (truthy (needed_token P) \<longrightarrow> (\<exists>wb. rwb = Inr wb \<and> wb_ok wb)) \<and>
      (flashCandidates P \<noteq> [] \<longrightarrow> fl_ok fl)) \<and>
   (\<forall>name tr x tr' x'. step name t0 tr x = (tr', x') \<longrightarrow>
      tr' = tr @ [(name, num_sub (fst (Date_now x)) t0)] \<and> x' = snd (Date_now x)) \<and>
   (\<forall>r d tr. \<not> ok (rejected r d tr) \<and> reason (rejected r d tr) = Some r \<and>
      details (rejected r d tr) = d \<and> trace (rejected r d tr) = tr) \<and>
   (\<forall>v s'. runProtections cfg w P s = (Inr v, s') \<longrightarrow>
      map fst (trace v) = take (length (trace v)) pipeline_steps \<and>
      (ok v \<longleftrightarrow> length (trace v) = 10) \<and>
      (ok v \<longrightarrow>
         reason v = None \<and>
         (\<exists>sl pt g r f l. details v = DAll sl pt g r f l \<and> slip_ok sl \<and> pt_ok pt \<and> gas_ok g)) \<and>
      (\<not> ok v \<longrightarrow>
         failing_details (details v) \<and> reason v = Some (guard_reason (details v)) \<and>
         length (trace v) = guard_index (details v) \<and>
         (\<exists>s0. guard_verdict_of cfg w P s0 (details v)))) \<and>
   (\<forall>t0 tr slip pt gas s1.
      ok (fst (run_enrich cfg w P t0 tr slip pt gas s1)) \<and>
      reason (fst (run_enrich cfg w P t0 tr slip pt gas s1)) = None \<and>
      (\<exists>r f l. details (fst (run_enrich cfg w P t0 tr slip pt gas s1)) = DAll slip pt gas r f l) \<and>
      map fst (trace (fst (run_enrich cfg w P t0 tr slip pt gas s1)))
        = map fst tr @ [''poolState'', ''fallback'', ''lock''])"
proof -
  note fw = runProtections_forward [of s t0 s0 cfg P cd s1 tr1 s2 w mev s3 tr2 s4 slip tr3 s5
      pt s6 tr4 s7 gas s8 tr5 s9 wb s10 tr6 s11 fl s12 tr7 s13]
  have cv: "Date_now s = (t0, s0) \<and> enforceCooldown cfg (routeKey P) s0 = (cd, s1) \<and>
    step ''cooldown'' t0 [] s1 = (tr1, s2) \<and>
    isMEVRisk cfg s2 = (mev, s3) \<and> step ''mev'' t0 tr1 s3 = (tr2, s4) \<and>
    step ''slippage'' t0 tr2 s4 = (tr3, s5) \<and>
    assess_profit cfg w P s5 = (pt, s6) \<and> step ''profit'' t0 tr3 s6 = (tr4, s7) \<and>
    assessGas cfg w (txRequest P) s7 = (gas, s8) \<and> step ''gas'' t0 tr4 s8 = (tr5, s9) \<and>
    (if truthy (needed_token P)
     then hasWalletBalance cfg w (wallet P) (needed_token P) (needed_amount P) s9 = (rwb, s10)
     else s10 = s9) \<and>
    step ''walletBalance'' t0 tr5 s10 = (tr6, s11) \<and>
    (if flashCandidates P \<noteq> []
     then isFlashLoanAvailable cfg w (flashCandidates P) s11 = (fl, s12)
     else s12 = s11) \<and>
    step ''flashLoan'' t0 tr6 s12 = (tr7, s13) \<and>
    runProtections cfg w P s = (Inr v, s') \<and> ok v \<longrightarrow>
      cd_ok cd \<and> \<not> risk mev \<and>
      (\<exists>slip. validateSlippage cfg (expectedOut P) (minOut P) = Inr slip \<and> slip_ok slip \<and>
         v = fst (run_enrich cfg w P t0 tr7 slip pt gas s13) \<and>
         s' = snd (run_enrich cfg w P t0 tr7 slip pt gas s13)) \<and>
      (isFiniteNumber (profitUsd P) \<and> isFiniteNumber (notionalUsd P) \<or> providerUp w) \<and>
      pt_ok pt \<and> gas_ok gas \<and>
      (truthy (needed_token P) \<longrightarrow> (\<exists>wb. rwb = Inr wb \<and> wb_ok wb)) \<and>
      (flashCandidates P \<noteq> [] \<longrightarrow> fl_ok fl)"
  proof (intro impI, elim conjE)
    assume "Date_now s = (t0, s0)" "enforceCooldown cfg (routeKey P) s0 = (cd, s1)"
      "step ''cooldown'' t0 [] s1 = (tr1, s2)" "isMEVRisk cfg s2 = (mev, s3)"
      "step ''mev'' t0 tr1 s3 = (tr2, s4)" "step ''slippage'' t0 tr2 s4 = (tr3, s5)"
      "assess_profit cfg w P s5 = (pt, s6)" "step ''profit'' t0 tr3 s6 = (tr4, s7)"
      "assessGas cfg w (txRequest P) s7 = (gas, s8)" "step ''gas'' t0 tr4 s8 = (tr5, s9)"
      "if truthy (needed_token P)
       then hasWalletBalance cfg w (wallet P) (needed_token P) (needed_amount P) s9 = (rwb, s10)
       else s10 = s9"
      "step ''walletBalance'' t0 tr5 s10 = (tr6, s11)"
      "if flashCandidates P \<noteq> []
       then isFlashLoanAvailable cfg w (flashCandidates P) s11 = (fl, s12)
       else s12 = s11"
      "step ''flashLoan'' t0 tr6 s12 = (tr7, s13)"
      "runProtections cfg w P s = (Inr v, s')" "ok v"
    then show "cd_ok cd \<and> \<not> risk mev \<and>
      (\<exists>slip. validateSlippage cfg (expectedOut P) (minOut P) = Inr slip \<and> slip_ok slip \<and>
         v = fst (run_enrich cfg w P t0 tr7 slip pt gas s13) \<and>
         s' = snd (run_enrich cfg w P t0 tr7 slip pt gas s13)) \<and>
      (isFiniteNumber (profitUsd P) \<and> isFiniteNumber (notionalUsd P) \<or> providerUp w) \<and>
      pt_ok pt \<and> gas_ok gas \<and>
      (truthy (needed_token P) \<longrightarrow> (\<exists>wb. rwb = Inr wb \<and> wb_ok wb)) \<and>
      (flashCandidates P \<noteq> [] \<longrightarrow> fl_ok fl)"
      by (rule runProtections_converse)
  qed
  have sr: "\<forall>name tr x tr' x'. step name t0 tr x = (tr', x') \<longrightarrow>
      tr' = tr @ [(name, num_sub (fst (Date_now x)) t0)] \<and> x' = snd (Date_now x)"
    using step_record by blast
  have rj: "\<forall>r d tr. \<not> ok (rejected r d tr) \<and> reason (rejected r d tr) = Some r \<and>
      details (rejected r d tr) = d \<and> trace (rejected r d tr) = tr"
    by (simp add: rejected_def)
  have a: "\<forall>v s'. runProtections cfg w P s = (Inr v, s') \<longrightarrow>
      map fst (trace v) = take (length (trace v)) pipeline_steps \<and>
      (ok v \<longleftrightarrow> length (trace v) = 10) \<and>
      (ok v \<longrightarrow>
         reason v = None \<and>
         (\<exists>sl pt g r f l. details v = DAll sl pt g r f l \<and> slip_ok sl \<and> pt_ok pt \<and> gas_ok g)) \<and>
      (\<not> ok v \<longrightarrow>
         failing_details (details v) \<and> reason v = Some (guard_reason (details v)) \<and>
         length (trace v) = guard_index (details v) \<and>
         (\<exists>s0. guard_verdict_of cfg w P s0 (details v)))"
  proof (intro allI impI)
    fix v s'
    assume r: "runProtections cfg w P s = (Inr v, s')"
    note io = runProtections_in_order [OF r, unfolded in_order_def]
    show "map fst (trace v) = take (length (trace v)) pipeline_steps \<and>
      (ok v \<longleftrightarrow> length (trace v) = 10) \<and>
      (ok v \<longrightarrow>
         reason v = None \<and>
         (\<exists>sl pt g r f l. details v = DAll sl pt g r f l \<and> slip_ok sl \<and> pt_ok pt \<and> gas_ok g)) \<and>
      (\<not> ok v \<longrightarrow>
         failing_details (details v) \<and> reason v = Some (guard_reason (details v)) \<and>
         length (trace v) = guard_index (details v) \<and>
         (\<exists>s0. guard_verdict_of cfg w P s0 (details v)))"
      using io by (cases "ok v") simp_all
  qed
  have b: "\<forall>t0 tr slip pt gas s1.
      ok (fst (run_enrich cfg w P t0 tr slip pt gas s1)) \<and>
      reason (fst (run_enrich cfg w P t0 tr slip pt gas s1)) = None \<and>
      (\<exists>r f l. details (fst (run_enrich cfg w P t0 tr slip pt gas s1)) = DAll slip pt gas r f l) \<and>
      map fst (trace (fst (run_enrich cfg w P t0 tr slip pt gas s1)))
        = map fst tr @ [''poolState'', ''fallback'', ''lock'']"
    using run_enrich_ok by blast
  show ?thesis by (rule conjI [OF fw conjI [OF cv conjI [OF sr conjI [OF rj conjI [OF a b]]]]])
qed


lemma sample_runs:
  "fst (runProtections sample_config sample_world sample_params fresh_state) = Inr passing_verdict"
  "fst (runProtections sample_config (sample_world\<lparr>balanceOf := \<lambda>t a k. None\<rparr>) sample_params
          fresh_state) =
     Inr (passing_verdict\<lparr>details := DAll passing_slip passing_profit passing_gas None
            (Some \<lparr>fb_ok = False, fb_token = None, fb_balance = None\<rparr>)
            \<lparr>locked = Fin (75 / 2), leftover = Fin (25 / 2)\<rparr>\<rparr>)"
  by code_simp+

lemma queued_run_steps:
  "cd_ok (fst (enforceCooldown sample_config (routeKey sample_params) (snd (Date_now queued_state))))"
  "fst (isMEVRisk sample_config
     (snd (step ''cooldown'' (fst (Date_now queued_state)) []
        (snd (enforceCooldown sample_config (routeKey sample_params)
           (snd (Date_now queued_state))))))) = \<lparr>risk = True\<rparr>"
  "fst (step ''mev'' (fst (Date_now queued_state))
     (fst (step ''cooldown'' (fst (Date_now queued_state)) []
        (snd (enforceCooldown sample_config (routeKey sample_params)
           (snd (Date_now queued_state))))))
     (snd (isMEVRisk sample_config
        (snd (step ''cooldown'' (fst (Date_now queued_state)) []
           (snd (enforceCooldown sample_config (routeKey sample_params)
              (snd (Date_now queued_state))))))))) = [(''cooldown'', Fin 0), (''mev'', Fin 0)]"
  by code_simp+

theorem runProtections_short_circuit_witness:
  "fst (runProtections sample_config sample_world sample_params queued_state) =
     Inr \<lparr>ok = False, reason = Some ''mevRisk'', details = DMev \<lparr>risk = True\<rparr>,
          trace = [(''cooldown'', Fin 0), (''mev'', Fin 0)]\<rparr> \<and>
   guard_index (DMev \<lparr>risk = True\<rparr>) = 2 \<and>
   fst (runProtections sample_config sample_world sample_params fresh_state) = Inr passing_verdict \<and>
   ok passing_verdict \<and> length (trace passing_verdict) = 10 \<and>
   map fst (trace passing_verdict) = take 10 pipeline_steps \<and>
   cd_ok (fst (enforceCooldown sample_config (routeKey sample_params) (snd (Date_now fresh_state)))) \<and>
   (\<exists>slip. validateSlippage sample_config (expectedOut sample_params) (minOut sample_params)
       = Inr slip \<and> slip_ok slip) \<and>
   ok (fst (run_enrich sample_config (sample_world\<lparr>balanceOf := \<lambda>t a k. None\<rparr>) sample_params
              (Fin 0) [] passing_slip passing_profit passing_gas fresh_state))"
proof -
  let ?c = sample_config and ?w = sample_world and ?P = sample_params
  define t0 where "t0 = fst (Date_now queued_state)"
  define s0 where "s0 = snd (Date_now queued_state)"
  define cd where "cd = fst (enforceCooldown ?c (routeKey ?P) s0)"
  define s1 where "s1 = snd (enforceCooldown ?c (routeKey ?P) s0)"
  define tr1 where "tr1 = fst (step ''cooldown'' t0 [] s1)"
  define s2 where "s2 = snd (step ''cooldown'' t0 [] s1)"
  define mev where "mev = fst (isMEVRisk ?c s2)"
  define s3 where "s3 = snd (isMEVRisk ?c s2)"
  define tr2 where "tr2 = fst (step ''mev'' t0 tr1 s3)"
  define s4 where "s4 = snd (step ''mev'' t0 tr1 s3)"
  have p1: "Date_now queued_state = (t0, s0) \<and> enforceCooldown ?c (routeKey ?P) s0 = (cd, s1) \<and>
      step ''cooldown'' t0 [] s1 = (tr1, s2)"
    by (simp add: t0_def s0_def cd_def s1_def tr1_def s2_def)
  have c1: "cd_ok cd"
    unfolding cd_def s0_def by (rule queued_run_steps(1))
  have m: "mev = \<lparr>risk = True\<rparr>"
    unfolding mev_def s2_def s1_def t0_def s0_def by (rule queued_run_steps(2))
  have tr: "tr2 = [(''cooldown'', Fin 0), (''mev'', Fin 0)]"
    unfolding tr2_def s3_def tr1_def s2_def s1_def t0_def s0_def by (rule queued_run_steps(3))
  have p2: "cd_ok cd \<and> isMEVRisk ?c s2 = (mev, s3) \<and> step ''mev'' t0 tr1 s3 = (tr2, s4)"
    using c1 by (simp add: mev_def s3_def tr2_def s4_def)
  have rk: "risk mev" using m by simp
  have q: "runProtections ?c ?w ?P queued_state = (Inr (rejected ''mevRisk'' (DMev mev) tr2), s4)"
    using runProtections_short_circuit [where s = queued_state and cfg = ?c and w = ?w and P = ?P
        and ?t0.0 = t0 and ?s0.0 = s0 and cd = cd and ?s1.0 = s1 and ?tr1.0 = tr1 and ?s2.0 = s2
        and mev = mev and ?s3.0 = s3 and ?tr2.0 = tr2 and ?s4.0 = s4,
        THEN conjunct1, THEN mp, OF p1, THEN conjunct2, THEN mp, OF p2, THEN conjunct1,
        THEN mp, OF rk] .
  have a: "fst (runProtections ?c ?w ?P queued_state) =
     Inr \<lparr>ok = False, reason = Some ''mevRisk'', details = DMev \<lparr>risk = True\<rparr>,
          trace = [(''cooldown'', Fin 0), (''mev'', Fin 0)]\<rparr>"
    unfolding q by (simp add: rejected_def m tr)
  let ?r2 = "runProtections ?c ?w ?P queued_state"
  have e2: "?r2 = (Inr \<lparr>ok = False, reason = Some ''mevRisk'', details = DMev \<lparr>risk = True\<rparr>,
          trace = [(''cooldown'', Fin 0), (''mev'', Fin 0)]\<rparr>, snd ?r2)"
    by (simp add: prod_eq_iff a)
  note shape = runProtections_short_circuit [THEN conjunct2, THEN conjunct2, THEN conjunct2,
      THEN conjunct2, THEN conjunct1, rule_format]
  have b: "guard_index (DMev \<lparr>risk = True\<rparr>) = 2" using shape [OF e2] by simp
  let ?r1 = "runProtections ?c ?w ?P fresh_state"
  have e1: "?r1 = (Inr passing_verdict, snd ?r1)" by (simp add: prod_eq_iff sample_runs(1))
  have k: "ok passing_verdict" by (simp add: passing_verdict_def)
  have l: "length (trace passing_verdict) = 10" using shape [OF e1] k by simp
  have n: "map fst (trace passing_verdict) = take 10 pipeline_steps" using shape [OF e1] l by simp
  define u0 where "u0 = fst (Date_now fresh_state)"
  define x0 where "x0 = snd (Date_now fresh_state)"
  define ucd where "ucd = fst (enforceCooldown ?c (routeKey ?P) x0)"
  define x1 where "x1 = snd (enforceCooldown ?c (routeKey ?P) x0)"
  define ur1 where "ur1 = fst (step ''cooldown'' u0 [] x1)"
  define x2 where "x2 = snd (step ''cooldown'' u0 [] x1)"
  define umev where "umev = fst (isMEVRisk ?c x2)"
  define x3 where "x3 = snd (isMEVRisk ?c x2)"
  define ur2 where "ur2 = fst (step ''mev'' u0 ur1 x3)"
  define x4 where "x4 = snd (step ''mev'' u0 ur1 x3)"
  define ur3 where "ur3 = fst (step ''slippage'' u0 ur2 x4)"
  define x5 where "x5 = snd (step ''slippage'' u0 ur2 x4)"
  define upt where "upt = fst (assess_profit ?c ?w ?P x5)"
  define x6 where "x6 = snd (assess_profit ?c ?w ?P x5)"
  define ur4 where "ur4 = fst (step ''profit'' u0 ur3 x6)"
  define x7 where "x7 = snd (step ''profit'' u0 ur3 x6)"
  define ugas where "ugas = fst (assessGas ?c ?w (txRequest ?P) x7)"
  define x8 where "x8 = snd (assessGas ?c ?w (txRequest ?P) x7)"
  define ur5 where "ur5 = fst (step ''gas'' u0 ur4 x8)"
  define x9 where "x9 = snd (step ''gas'' u0 ur4 x8)"
  define ur6 where "ur6 = fst (step ''walletBalance'' u0 ur5 x9)"
  define x11 where "x11 = snd (step ''walletBalance'' u0 ur5 x9)"
  define ur7 where "ur7 = fst (step ''flashLoan'' u0 ur6 x11)"
  define x13 where "x13 = snd (step ''flashLoan'' u0 ur6 x11)"
  have nt: "\<not> truthy (needed_token ?P)"
    by (simp add: needed_token_def sample_params_def truthy_def)
  have nf: "flashCandidates ?P = []" by (simp add: sample_params_def)
  have pc: "Date_now fresh_state = (u0, x0) \<and> enforceCooldown ?c (routeKey ?P) x0 = (ucd, x1) \<and>
    step ''cooldown'' u0 [] x1 = (ur1, x2) \<and>
    isMEVRisk ?c x2 = (umev, x3) \<and> step ''mev'' u0 ur1 x3 = (ur2, x4) \<and>
    step ''slippage'' u0 ur2 x4 = (ur3, x5) \<and>
    assess_profit ?c ?w ?P x5 = (upt, x6) \<and> step ''profit'' u0 ur3 x6 = (ur4, x7) \<and>
    assessGas ?c ?w (txRequest ?P) x7 = (ugas, x8) \<and> step ''gas'' u0 ur4 x8 = (ur5, x9) \<and>
    (if truthy (needed_token ?P)
     then hasWalletBalance ?c ?w (wallet ?P) (needed_token ?P) (needed_amount ?P) x9 = (Inl TypeError, x9)
     else x9 = x9) \<and>
    step ''walletBalance'' u0 ur5 x9 = (ur6, x11) \<and>
    (if flashCandidates ?P \<noteq> []
     then isFlashLoanAvailable ?c ?w (flashCandidates ?P) x11
            = (\<lparr>fl_ok = False, fl_reason = None, fl_aave = None, fl_balancer = None\<rparr>, x11)
     else x11 = x11) \<and>
    step ''flashLoan'' u0 ur6 x11 = (ur7, x13) \<and>
    ?r1 = (Inr passing_verdict, snd ?r1) \<and> ok passing_verdict"
    using e1 k
    by (simp add: nt nf u0_def x0_def ucd_def x1_def ur1_def x2_def umev_def x3_def ur2_def x4_def
        ur3_def x5_def upt_def x6_def ur4_def x7_def ugas_def x8_def ur5_def x9_def ur6_def
        x11_def ur7_def x13_def)
  note cv = runProtections_short_circuit [THEN conjunct2, THEN conjunct1, THEN mp, OF pc]
  have c: "cd_ok (fst (enforceCooldown ?c (routeKey ?P) (snd (Date_now fresh_state))))"
    using cv [THEN conjunct1] by (simp add: ucd_def x0_def)
  have d: "\<exists>slip. validateSlippage ?c (expectedOut ?P) (minOut ?P) = Inr slip \<and> slip_ok slip"
    using cv [THEN conjunct2, THEN conjunct2, THEN conjunct1] by blast
  have e: "ok (fst (run_enrich ?c (?w\<lparr>balanceOf := \<lambda>t a k. None\<rparr>)
              ?P (Fin 0) [] passing_slip passing_profit passing_gas fresh_state))"
    using runProtections_short_circuit [THEN conjunct2, THEN conjunct2, THEN conjunct2,
        THEN conjunct2, THEN conjunct2, rule_format] by blast
  show ?thesis
    by (rule conjI [OF a conjI [OF b conjI [OF sample_runs(1) conjI [OF k conjI [OF l
          conjI [OF n conjI [OF c conjI [OF d e]]]]]]]])
qed

subsection \<open>Exceptions and the wallet-balance step of the pipeline\<close>

lemma validateSlippage_mixed:
  assumes "0 < a" "of_int b \<le> a"
  shows "validateSlippage cfg (JNum (Fin a)) (JBig b) = Inl TypeError"
  using assms
  by (simp add: validateSlippage_def js_le_def js_gt_def js_lessThan_def to_numeric_def
      js_sub_def and_then_def)

lemma hasWalletBalance_undefined:
  "hasWalletBalance cfg w wl token JUndefined s = (Inl TypeError, s)"
  by (simp add: hasWalletBalance_def BigInt_def)

lemma run_slippage_throws:
  assumes "validateSlippage cfg (expectedOut P) (minOut P) = Inl e"
  shows "run_slippage cfg w P t0 tr s = (Inl e, s)"
  using assms by (simp add: run_slippage_def)

lemma run_wallet_throws:
  assumes "truthy (needed_token P)" "BigInt cfg (needed_amount P) = Inl e"
  shows "run_wallet cfg w P t0 tr slip pt gas s = (Inl e, s)"
  using assms by (simp add: run_wallet_def hasWalletBalance_def)

lemma throwing_runs:
  "fst (runProtections sample_config sample_world (sample_params\<lparr>expectedOut := JNum (Fin 1000)\<rparr>)
          fresh_state) = Inl TypeError"
  "fst (runProtections sample_config sample_world
          (sample_params\<lparr>neededBalance := Some \<lparr>nb_token = JStr ''0xt'', nb_amountWei = JUndefined\<rparr>\<rparr>)
          fresh_state) = Inl TypeError"
  by code_simp+

lemma enforced_run:
  "fst (runProtections sample_config sample_world
          (sample_params\<lparr>neededBalance :=
             Some \<lparr>nb_token = JStr (ZeroAddress sample_config),
                   nb_amountWei = JBig 2000000000000000000\<rparr>\<rparr>) fresh_state) =
     Inr \<lparr>ok = False, reason = Some ''insufficientBalance'',
          details = DWallet \<lparr>wb_ok = False, wb_balance = JBig 1000000000000000000\<rparr>,
          trace = [(''cooldown'', Fin 0), (''mev'', Fin 0), (''slippage'', Fin 0),
                   (''profit'', Fin 0), (''gas'', Fin 0), (''walletBalance'', Fin 0)]\<rparr>"
  "calls (snd (runProtections sample_config sample_world
          (sample_params\<lparr>neededBalance :=
             Some \<lparr>nb_token = JStr (ZeroAddress sample_config),
                   nb_amountWei = JBig 2000000000000000000\<rparr>\<rparr>) fresh_state)) =
     [FeeData, EstimateGas, GetBalance]"
  by code_simp+

lemma run_wallet_skipped:
  assumes "\<not> truthy (needed_token P)"
  shows "run_wallet cfg w P t0 tr slip pt gas s =
      (let (tr1, s1) = step ''walletBalance'' t0 tr s;
           (v, s2) = run_flash cfg w P t0 tr1 slip pt gas s1
       in (Inr v, s2))"
  using assms by (simp add: run_wallet_def)

lemma no_wallet_rejection:
  assumes "\<not> truthy (needed_token P)" "runProtections cfg w P s = (Inr v, s')"
  shows "reason v \<noteq> Some ''insufficientBalance'' \<and> (\<forall>wb. details v \<noteq> DWallet wb)"
proof -
  have io: "in_order cfg w P v" by (rule runProtections_in_order [OF assms(2)])
  have d: "\<forall>wb. details v \<noteq> DWallet wb"
    using io assms(1) by (cases "ok v") (auto simp: in_order_def)
  have "reason v \<noteq> Some ''insufficientBalance''"
  proof (cases "ok v")
    case True then show ?thesis using io by (simp add: in_order_def)
  next
    case False
    then have "reason v = Some (guard_reason (details v))" using io by (simp add: in_order_def)
    then show ?thesis using d by (cases "details v") (simp_all add: guard_reason_def)
  qed
  then show ?thesis using d by simp
qed

lemma run_wallet_enforced:
  assumes "truthy (needed_token P)"
    and "hasWalletBalance cfg w (wallet P) (needed_token P) (needed_amount P) s = (Inr wb, s1)"
    and "\<not> wb_ok wb"
  shows "fst (run_wallet cfg w P t0 tr slip pt gas s) =
      Inr (rejected ''insufficientBalance'' (DWallet wb) (fst (step ''walletBalance'' t0 tr s1)))"
  using assms by (simp add: run_wallet_def split: prod.splits)

lemma hasWalletBalance_native:
  assumes "\<not> truthy token \<or> token = JStr (ZeroAddress cfg)" "BigInt cfg needed = Inr m"
  shows "hasWalletBalance cfg w wl token needed s =
      (let (bal, s1) = readCall_or w GetBalance (getBalance w wl) JNull s
       in (Inr \<lparr>wb_ok = (\<not> nullish bal \<and> js_ge cfg bal (JBig m)),
                wb_balance = js_coalesce bal (JBig 0)\<rparr>, s1))"
  using assms by (auto simp: hasWalletBalance_def)


lemma skipped_run:
  "fst (runProtections sample_config sample_world
          (sample_params\<lparr>neededBalance :=
             Some \<lparr>nb_token = JStr [], nb_amountWei = JBig 2000000000000000000\<rparr>\<rparr>) fresh_state) =
     Inr passing_verdict"
  by code_simp

lemma native_read:
  "fst (readCall_or sample_world GetBalance (getBalance sample_world (JStr ''0xw'')) JNull
          fresh_state) = JBig 1000000000000000000"
  by code_simp

text \<open>
  Claim C3 says that no exception escapes \<open>runProtections\<close>. The pipeline has no
  \<^verbatim>\<open>try\<close> of its own, and two of its guards, unlike the others, have none either:
  \<open>validateSlippage\<close> subtracts its arguments, which throws a \<open>TypeError\<close> for a positive number
  and a BigInt not above it, and \<open>hasWalletBalance\<close> converts the required amount with
  \<^verbatim>\<open>BigInt(needed)\<close> before its first guarded read, which throws for an amount that is not
  convertible, \<^verbatim>\<open>undefined\<close> among them. Either exception leaves the slippage step and the
  wallet-balance step, and the whole run, as a rejection and not as a verdict.
\<close>

theorem runProtections_throws:
  "(0 < a \<and> of_int b \<le> a \<longrightarrow> validateSlippage cfg (JNum (Fin a)) (JBig b) = Inl TypeError) \<and>
   hasWalletBalance cfg w wl token JUndefined s = (Inl TypeError, s) \<and>
   (validateSlippage cfg (expectedOut P) (minOut P) = Inl e \<longrightarrow>
      run_slippage cfg w P t0 tr s = (Inl e, s)) \<and>
   (truthy (needed_token P) \<and> BigInt cfg (needed_amount P) = Inl e \<longrightarrow>
      run_wallet cfg w P t0 tr slip pt gas s = (Inl e, s)) \<and>
   fst (runProtections sample_config sample_world (sample_params\<lparr>expectedOut := JNum (Fin 1000)\<rparr>)
          fresh_state) = Inl TypeError \<and>
   fst (runProtections sample_config sample_world
          (sample_params\<lparr>neededBalance := Some \<lparr>nb_token = JStr ''0xt'', nb_amountWei = JUndefined\<rparr>\<rparr>)
          fresh_state) = Inl TypeError"
  using validateSlippage_mixed [of a b cfg] hasWalletBalance_undefined [of cfg w wl token s]
    run_slippage_throws [of cfg P e w t0 tr s] run_wallet_throws [of P cfg e w t0 tr slip pt gas s]
    throwing_runs
  by simp

theorem runProtections_throws_witness:
  "validateSlippage sample_config (JNum (Fin 1000)) (JBig 990) = Inl TypeError \<and>
   run_slippage sample_config sample_world (sample_params\<lparr>expectedOut := JNum (Fin 1000)\<rparr>)
     (Fin 0) [] fresh_state = (Inl TypeError, fresh_state) \<and>
   run_wallet sample_config sample_world
     (sample_params\<lparr>neededBalance := Some \<lparr>nb_token = JStr ''0xt'', nb_amountWei = JUndefined\<rparr>\<rparr>)
     (Fin 0) [] passing_slip passing_profit passing_gas fresh_state = (Inl TypeError, fresh_state) \<and>
   isl (fst (runProtections sample_config sample_world
     (sample_params\<lparr>expectedOut := JNum (Fin 1000)\<rparr>) fresh_state))"
proof -
  let ?P1 = "sample_params\<lparr>expectedOut := JNum (Fin 1000)\<rparr>"
  let ?P2 = "sample_params\<lparr>neededBalance := Some \<lparr>nb_token = JStr ''0xt'', nb_amountWei = JUndefined\<rparr>\<rparr>"
  note t = runProtections_throws [where a = 1000 and b = 990 and cfg = sample_config]
  have a: "validateSlippage sample_config (JNum (Fin 1000)) (JBig 990) = Inl TypeError"
    using t [THEN conjunct1] by simp
  have m: "validateSlippage sample_config (expectedOut ?P1) (minOut ?P1) = Inl TypeError"
    using a by (simp add: sample_params_def)
  have b: "run_slippage sample_config sample_world ?P1 (Fin 0) [] fresh_state
      = (Inl TypeError, fresh_state)"
    using runProtections_throws [where cfg = sample_config and P = ?P1 and e = TypeError,
        THEN conjunct2, THEN conjunct2, THEN conjunct1] m by simp
  have k: "truthy (needed_token ?P2) \<and> BigInt sample_config (needed_amount ?P2) = Inl TypeError"
    by (simp add: needed_token_def needed_amount_def BigInt_def truthy_def)
  have c: "run_wallet sample_config sample_world ?P2 (Fin 0) [] passing_slip passing_profit
      passing_gas fresh_state = (Inl TypeError, fresh_state)"
    using runProtections_throws [where cfg = sample_config and P = ?P2 and e = TypeError,
        THEN conjunct2, THEN conjunct2, THEN conjunct2, THEN conjunct1] k by simp
  have d: "isl (fst (runProtections sample_config sample_world ?P1 fresh_state))"
    using t [THEN conjunct2, THEN conjunct2, THEN conjunct2, THEN conjunct2, THEN conjunct1]
    by simp
  show ?thesis by (rule conjI [OF a conjI [OF b conjI [OF c d]]])
qed

text \<open>
  Claim C10, as amended. The wallet-balance step of \<open>runProtections\<close> evaluates
  \<open>hasWalletBalance\<close> exactly for a truthy \<^verbatim>\<open>neededBalance.token\<close>. With no \<^verbatim>\<open>neededBalance\<close>
  or a falsy token the step is only recorded in the trace, whatever \<^verbatim>\<open>amountWei\<close> is, and no
  verdict of the run is an \<open>insufficientBalance\<close> rejection. With a truthy token a failing
  verdict of \<open>hasWalletBalance\<close> is the rejection of the step. \<open>hasWalletBalance\<close> reads the
  native balance for a falsy token and for the zero address; the zero address being a
  non-empty string, a native requirement given with it is enforced by the pipeline.
\<close>

theorem runProtections_wallet_step:
  "(\<not> truthy (needed_token P) \<longrightarrow>
      run_wallet cfg w P t0 tr slip pt gas s =
        (let (tr1, s1) = step ''walletBalance'' t0 tr s;
             (v, s2) = run_flash cfg w P t0 tr1 slip pt gas s1
         in (Inr v, s2))) \<and>
   (\<not> truthy (needed_token P) \<longrightarrow>
      (\<forall>v s'. runProtections cfg w P s = (Inr v, s') \<longrightarrow>
         reason v \<noteq> Some ''insufficientBalance'' \<and> (\<forall>wb. details v \<noteq> DWallet wb))) \<and>
   (truthy (needed_token P) \<longrightarrow>
      (\<forall>wb s1. hasWalletBalance cfg w (wallet P) (needed_token P) (needed_amount P) s = (Inr wb, s1)
          \<and> \<not> wb_ok wb \<longrightarrow>
        fst (run_wallet cfg w P t0 tr slip pt gas s) =
          Inr (rejected ''insufficientBalance'' (DWallet wb)
                (fst (step ''walletBalance'' t0 tr s1))))) \<and>
   ((\<not> truthy token \<or> token = JStr (ZeroAddress cfg)) \<and> BigInt cfg needed = Inr m \<longrightarrow>
      hasWalletBalance cfg w wl token needed s =
        (let (bal, s1) = readCall_or w GetBalance (getBalance w wl) JNull s
         in (Inr \<lparr>wb_ok = (\<not> nullish bal \<and> js_ge cfg bal (JBig m)),
                  wb_balance = js_coalesce bal (JBig 0)\<rparr>, s1))) \<and>
   (needed_token P = JStr (ZeroAddress cfg) \<and> ZeroAddress cfg \<noteq> [] \<and>
    BigInt cfg (needed_amount P) = Inr m \<longrightarrow>
      (\<forall>bal s1. readCall_or w GetBalance (getBalance w (wallet P)) JNull s = (bal, s1) \<and>
          \<not> (\<not> nullish bal \<and> js_ge cfg bal (JBig m)) \<longrightarrow>
        fst (run_wallet cfg w P t0 tr slip pt gas s) =
          Inr (rejected ''insufficientBalance''
                (DWallet \<lparr>wb_ok = False, wb_balance = js_coalesce bal (JBig 0)\<rparr>)
                (fst (step ''walletBalance'' t0 tr s1)))))"
proof -
  have a: "\<not> truthy (needed_token P) \<longrightarrow>
      run_wallet cfg w P t0 tr slip pt gas s =
        (let (tr1, s1) = step ''walletBalance'' t0 tr s;
             (v, s2) = run_flash cfg w P t0 tr1 slip pt gas s1
         in (Inr v, s2))"
    using run_wallet_skipped by simp
  have b: "\<not> truthy (needed_token P) \<longrightarrow>
      (\<forall>v s'. runProtections cfg w P s = (Inr v, s') \<longrightarrow>
         reason v \<noteq> Some ''insufficientBalance'' \<and> (\<forall>wb. details v \<noteq> DWallet wb))"
    using no_wallet_rejection [of P cfg w s] by simp
  have c: "truthy (needed_token P) \<longrightarrow>
      (\<forall>wb s1. hasWalletBalance cfg w (wallet P) (needed_token P) (needed_amount P) s = (Inr wb, s1)
          \<and> \<not> wb_ok wb \<longrightarrow>
        fst (run_wallet cfg w P t0 tr slip pt gas s) =
          Inr (rejected ''insufficientBalance'' (DWallet wb)
                (fst (step ''walletBalance'' t0 tr s1))))"
    using run_wallet_enforced [of P cfg w s] by simp
  have d: "(\<not> truthy token \<or> token = JStr (ZeroAddress cfg)) \<and> BigInt cfg needed = Inr m \<longrightarrow>
      hasWalletBalance cfg w wl token needed s =
        (let (bal, s1) = readCall_or w GetBalance (getBalance w wl) JNull s
         in (Inr \<lparr>wb_ok = (\<not> nullish bal \<and> js_ge cfg bal (JBig m)),
                  wb_balance = js_coalesce bal (JBig 0)\<rparr>, s1))"
    using hasWalletBalance_native [of token cfg needed m w wl s] by simp
  have e: "needed_token P = JStr (ZeroAddress cfg) \<and> ZeroAddress cfg \<noteq> [] \<and>
    BigInt cfg (needed_amount P) = Inr m \<longrightarrow>
      (\<forall>bal s1. readCall_or w GetBalance (getBalance w (wallet P)) JNull s = (bal, s1) \<and>
          \<not> (\<not> nullish bal \<and> js_ge cfg bal (JBig m)) \<longrightarrow>
        fst (run_wallet cfg w P t0 tr slip pt gas s) =
          Inr (rejected ''insufficientBalance''
                (DWallet \<lparr>wb_ok = False, wb_balance = js_coalesce bal (JBig 0)\<rparr>)
                (fst (step ''walletBalance'' t0 tr s1))))"
  proof (intro impI allI, elim conjE)
    fix bal s1
    assume z: "needed_token P = JStr (ZeroAddress cfg)" and nz: "ZeroAddress cfg \<noteq> []"
      and bi: "BigInt cfg (needed_amount P) = Inr m"
      and rd: "readCall_or w GetBalance (getBalance w (wallet P)) JNull s = (bal, s1)"
      and lo: "\<not> (\<not> nullish bal \<and> js_ge cfg bal (JBig m))"
    have t: "truthy (needed_token P)" using z nz by (simp add: truthy_def)
    have h: "hasWalletBalance cfg w (wallet P) (needed_token P) (needed_amount P) s =
        (Inr \<lparr>wb_ok = False, wb_balance = js_coalesce bal (JBig 0)\<rparr>, s1)"
      using hasWalletBalance_native [of "needed_token P" cfg "needed_amount P" m w "wallet P" s]
        z bi rd lo by simp
    show "fst (run_wallet cfg w P t0 tr slip pt gas s) =
          Inr (rejected ''insufficientBalance''
                (DWallet \<lparr>wb_ok = False, wb_balance = js_coalesce bal (JBig 0)\<rparr>)
                (fst (step ''walletBalance'' t0 tr s1)))"
      by (rule run_wallet_enforced [OF t h]) simp
  qed
  show ?thesis by (rule conjI [OF a conjI [OF b conjI [OF c conjI [OF d e]]]])
qed

theorem runProtections_wallet_step_witness:
  "fst (runProtections sample_config sample_world
          (sample_params\<lparr>neededBalance :=
             Some \<lparr>nb_token = JStr [], nb_amountWei = JBig 2000000000000000000\<rparr>\<rparr>) fresh_state) =
     Inr passing_verdict \<and>
   reason passing_verdict \<noteq> Some ''insufficientBalance'' \<and>
   fst (readCall_or sample_world GetBalance (getBalance sample_world (JStr ''0xw'')) JNull
          fresh_state) = JBig 1000000000000000000 \<and>
   fst (run_wallet sample_config sample_world
          (sample_params\<lparr>neededBalance :=
             Some \<lparr>nb_token = JStr (ZeroAddress sample_config),
                   nb_amountWei = JBig 2000000000000000000\<rparr>\<rparr>)
          (Fin 0) [] passing_slip passing_profit passing_gas fresh_state) =
     Inr (rejected ''insufficientBalance''
           (DWallet \<lparr>wb_ok = False, wb_balance = JBig 1000000000000000000\<rparr>)
           (fst (step ''walletBalance'' (Fin 0) []
              (snd (readCall_or sample_world GetBalance (getBalance sample_world (JStr ''0xw''))
                 JNull fresh_state)))))"
proof -
  let ?P0 = "sample_params\<lparr>neededBalance :=
             Some \<lparr>nb_token = JStr [], nb_amountWei = JBig 2000000000000000000\<rparr>\<rparr>"
  let ?PZ = "sample_params\<lparr>neededBalance :=
             Some \<lparr>nb_token = JStr (ZeroAddress sample_config),
                   nb_amountWei = JBig 2000000000000000000\<rparr>\<rparr>"
  let ?rd = "readCall_or sample_world GetBalance (getBalance sample_world (JStr ''0xw'')) JNull
          fresh_state"
  let ?r = "runProtections sample_config sample_world ?P0 fresh_state"
  have f: "\<not> truthy (needed_token ?P0)" by (simp add: needed_token_def truthy_def)
  have r: "?r = (Inr passing_verdict, snd ?r)" by (simp add: prod_eq_iff skipped_run)
  have b: "reason passing_verdict \<noteq> Some ''insufficientBalance''"
    using runProtections_wallet_step [where cfg = sample_config and w = sample_world
        and P = ?P0 and s = fresh_state, THEN conjunct2, THEN conjunct1, rule_format, OF f r]
    by simp
  have z: "needed_token ?PZ = JStr (ZeroAddress sample_config) \<and> ZeroAddress sample_config \<noteq> [] \<and>
      BigInt sample_config (needed_amount ?PZ) = Inr 2000000000000000000"
    by (simp add: needed_token_def needed_amount_def BigInt_def sample_config_fields)
  have w: "wallet ?PZ = JStr ''0xw''" by (simp add: sample_params_def)
  have rd: "readCall_or sample_world GetBalance (getBalance sample_world (wallet ?PZ)) JNull
      fresh_state = (JBig 1000000000000000000, snd ?rd) \<and>
      \<not> (\<not> nullish (JBig 1000000000000000000) \<and>
         js_ge sample_config (JBig 1000000000000000000) (JBig 2000000000000000000))"
    unfolding w using native_read by (simp add: prod_eq_iff js_ge_def js_lessThan_def to_numeric_def)
  have c: "fst (run_wallet sample_config sample_world ?PZ (Fin 0) [] passing_slip passing_profit
      passing_gas fresh_state) =
     Inr (rejected ''insufficientBalance''
           (DWallet \<lparr>wb_ok = False, wb_balance = JBig 1000000000000000000\<rparr>)
           (fst (step ''walletBalance'' (Fin 0) [] (snd ?rd))))"
    using runProtections_wallet_step [where cfg = sample_config and w = sample_world
        and P = ?PZ and s = fresh_state and m = 2000000000000000000
        and ?t0.0 = "Fin 0" and tr = "[]" and slip = passing_slip and pt = passing_profit
        and gas = passing_gas,
        THEN conjunct2, THEN conjunct2, THEN conjunct2, THEN conjunct2, rule_format, OF z rd]
    by (simp add: js_coalesce_def nullish_def)
  show ?thesis by (rule conjI [OF skipped_run conjI [OF b conjI [OF native_read c]]])
qed

text \<open>
  Claim C10 as stated fails in its last part: the zero address is a non-empty string, so a
  \<^verbatim>\<open>neededBalance\<close> whose token is the zero address passes the test of the wallet-balance step,
  \<open>hasWalletBalance\<close> reads the native balance, and the run is rejected with
  \<open>insufficientBalance\<close> when the wallet holds 1 ether and 2 are required.
\<close>

theorem runProtections_enforces_native:
  "fst (runProtections sample_config sample_world
          (sample_params\<lparr>neededBalance :=
             Some \<lparr>nb_token = JStr (ZeroAddress sample_config),
                   nb_amountWei = JBig 2000000000000000000\<rparr>\<rparr>) fresh_state) =
     Inr \<lparr>ok = False, reason = Some ''insufficientBalance'',
          details = DWallet \<lparr>wb_ok = False, wb_balance = JBig 1000000000000000000\<rparr>,
          trace = [(''cooldown'', Fin 0), (''mev'', Fin 0), (''slippage'', Fin 0),
                   (''profit'', Fin 0), (''gas'', Fin 0), (''walletBalance'', Fin 0)]\<rparr> \<and>
   calls (snd (runProtections sample_config sample_world
           (sample_params\<lparr>neededBalance :=
              Some \<lparr>nb_token = JStr (ZeroAddress sample_config),
                    nb_amountWei = JBig 2000000000000000000\<rparr>\<rparr>) fresh_state)) =
      [FeeData, EstimateGas, GetBalance]"
  by (rule conjI [OF enforced_run(1) enforced_run(2)])

end
